theory Spec2Isabelle
  imports Complex_Main
begin

section \<open>The Reference Drude kernel factory\<close>

text \<open>
  \<^verbatim>\<open>ReferenceDrudeKernelFactory.cpp\<close>. The two kernel classes' \<^verbatim>\<open>Name()\<close> functions are
  declared in a header that is not among the sources, so the two names are parameters
  of the model (\<open>calcName\<close> for \<^verbatim>\<open>CalcDrudeForceKernel::Name()\<close>, \<open>integrateName\<close> for
  \<^verbatim>\<open>IntegrateDrudeLangevinStepKernel::Name()\<close>). A kernel object is the constructor
  that built it together with the name it was built with. The \<^verbatim>\<open>throw\<close> is the
  \<open>Inl\<close> branch of the result, carrying the message the source assembles.
\<close>

datatype KernelImpl =
  ReferenceCalcDrudeForceKernel string
| ReferenceIntegrateDrudeLangevinStepKernel string

datatype OpenMMException = OpenMMException string

definition createKernelImpl :: "string \<Rightarrow> string \<Rightarrow> string \<Rightarrow> OpenMMException + KernelImpl" where
  "createKernelImpl calcName integrateName name =
     (if name = calcName then Inr (ReferenceCalcDrudeForceKernel name)
      else if name = integrateName then Inr (ReferenceIntegrateDrudeLangevinStepKernel name)
      else Inl (OpenMMException
             (''Tried to create kernel with illegal kernel name '' @ [CHR 0x27] @ name @ [CHR 0x27])))"

text \<open>
  \<^verbatim>\<open>initDrudeReferenceKernels\<close> calls \<^verbatim>\<open>registerKernelFactory\<close> twice on the Reference
  platform. The platform class is not among the sources.

  Modelled from the spec: \<^verbatim>\<open>Platform::registerKernelFactory\<close> (``stores (or overwrites)
  the factory for that (platform, name) pair''), as an update of the platform's table
  from kernel names to factories.
\<close>

datatype KernelFactory = ReferenceDrudeKernelFactory

type_synonym Platform = "string \<rightharpoonup> KernelFactory"

definition registerKernelFactory :: "string \<Rightarrow> KernelFactory \<Rightarrow> Platform \<Rightarrow> Platform" where
  "registerKernelFactory name factory platform = platform(name \<mapsto> factory)"

definition initDrudeReferenceKernels :: "string \<Rightarrow> string \<Rightarrow> Platform \<Rightarrow> Platform" where
  "initDrudeReferenceKernels calcName integrateName platform =
     (let factory = ReferenceDrudeKernelFactory;
          platform1 = registerKernelFactory calcName factory platform
      in registerKernelFactory integrateName factory platform1)"

definition isKernel :: "OpenMMException + KernelImpl \<Rightarrow> bool" where
  "isKernel r = (case r of Inl _ \<Rightarrow> False | Inr _ \<Rightarrow> True)"

section \<open>The Monte Carlo membrane barostat\<close>

text \<open>
  \<^verbatim>\<open>MonteCarloMembraneBarostatImpl\<close> (\<^verbatim>\<open>src/unnamed/part_000\<close>).

  Numbers. A \<^verbatim>\<open>double\<close> is modelled as a real number and every arithmetic operation as
  exact: rounding, overflow of the exponent and the single precision of the four constants
  are left out, and zero has no sign. The weight \<open>w\<close> of line 122 and the threshold
  \<open>exp(-w/kT)\<close> of line 123 are modelled with the IEEE values infinity and NaN (type
  \<open>Double\<close> below), since the logarithm of a volume ratio that is zero or negative gives
  such a value and the source carries on with it. The box, the length scales and the
  arguments of the kernel calls are real numbers only: where the source would put an
  infinity or a NaN into them (line 106 or 108 dividing by a volume of zero, line 106
  taking the square root of a negative number, line 110 dividing by zero) the model stops
  with \<open>Inl NonFinite\<close>, which marks the boundary of the model and is no exception of
  the source.

  Integers. The members \<^verbatim>\<open>step\<close>, \<^verbatim>\<open>numAttempted\<close> and \<^verbatim>\<open>numAccepted\<close> are declared in
  a header that is not among the sources; they are taken to be \<^verbatim>\<open>int\<close>, as the locals
  \<^verbatim>\<open>axis\<close> and \<^verbatim>\<open>randSeed\<close> of the source file are, with \<open>INT_MAX\<close> the largest value.
  Incrementing an \<^verbatim>\<open>int\<close> that holds \<open>INT_MAX\<close> is undefined behaviour in C++; the model
  stops there with \<open>Inl SignedOverflow\<close>.

  The headers that declare the two mode enumerations, the class members and \<^verbatim>\<open>Vec3\<close>
  are not among the sources; the types below follow their use in the source file.
\<close>

datatype XYMode = XYIsotropic | XYAnisotropic

datatype ZMode = ZFree | ZFixed | ConstantVolume

record MonteCarloMembraneBarostat =
  getFrequency :: int
  getXYMode :: XYMode
  getZMode :: ZMode
  getTemperature :: real
  getRandomNumberSeed :: int

datatype Vec3 = Vec3 real real real

text \<open>\<^verbatim>\<open>v[i]\<close> for reading, \<^verbatim>\<open>v[i] = x\<close> for writing (the source uses the indices 0, 1, 2
  only), and \<^verbatim>\<open>v*s\<close>.\<close>

fun vec3_get :: "Vec3 \<Rightarrow> nat \<Rightarrow> real" where
  "vec3_get (Vec3 x y z) i = (if i = 0 then x else if i = 1 then y else z)"

fun vec3_set :: "Vec3 \<Rightarrow> nat \<Rightarrow> real \<Rightarrow> Vec3" where
  "vec3_set (Vec3 x y z) i v =
     (if i = 0 then Vec3 v y z else if i = 1 then Vec3 x v z else Vec3 x y v)"

fun vec3_scale :: "Vec3 \<Rightarrow> real \<Rightarrow> Vec3" where
  "vec3_scale (Vec3 x y z) s = Vec3 (x * s) (y * s) (z * s)"

text \<open>
  The platform kernel is opaque: the context records the calls made to it, in order.
  The context also holds the periodic box, the two context parameters the barostat
  reads, and the number of molecules.
\<close>

datatype KernelCall =
  KernelInitialize
| ScaleCoordinates real real real
| RestoreCoordinates

record ContextImpl =
  periodicBoxVectors :: "Vec3 \<times> Vec3 \<times> Vec3"
  pressureParameter :: real
  surfaceTensionParameter :: real
  numMolecules :: nat
  kernelCalls :: "KernelCall list"

text \<open>
  The generator: its state is the seed it was initialised with and the number of
  variates drawn since. The SFMT code is not among the sources, so the variates are a
  parameter \<open>gen\<close> of the model: \<open>gen s n\<close> is the \<open>n\<close>-th value \<^verbatim>\<open>genrand_real2\<close>
  returns after \<^verbatim>\<open>init_gen_rand(s, random)\<close>. The potential energy of a context,
  \<^verbatim>\<open>getState(State::Energy).getPotentialEnergy()\<close>, is the parameter \<open>energyOf\<close>.
\<close>

record SFMT =
  seed :: int
  drawn :: nat

definition init_gen_rand :: "int \<Rightarrow> SFMT" where
  "init_gen_rand s = \<lparr>seed = s, drawn = 0\<rparr>"

definition genrand_real2 :: "(int \<Rightarrow> nat \<Rightarrow> real) \<Rightarrow> SFMT \<Rightarrow> real \<times> SFMT" where
  "genrand_real2 gen r = (gen (seed r) (drawn r), r\<lparr>drawn := drawn r + 1\<rparr>)"

record MonteCarloMembraneBarostatImpl =
  step :: int
  volumeScale :: "nat \<Rightarrow> real"
  numAttempted :: "nat \<Rightarrow> int"
  numAccepted :: "nat \<Rightarrow> int"
  random :: SFMT

definition BOLTZMANN :: real where
  "BOLTZMANN = 1380658 / 10 ^ 29"

definition AVOGADRO :: real where
  "AVOGADRO = 60221367 * 10 ^ 16"

definition RGAS :: real where
  "RGAS = BOLTZMANN * AVOGADRO"

definition BOLTZ :: real where
  "BOLTZ = RGAS / 1000"

text \<open>The constructor sets \<^verbatim>\<open>step\<close> and leaves the other members as they are.\<close>

definition construct :: "MonteCarloMembraneBarostatImpl \<Rightarrow> MonteCarloMembraneBarostatImpl" where
  "construct uninitialised = uninitialised\<lparr>step := 0\<rparr>"

definition boxVolume :: "Vec3 \<times> Vec3 \<times> Vec3 \<Rightarrow> real" where
  "boxVolume box = (case box of (box0, box1, box2) \<Rightarrow>
     vec3_get box0 0 * vec3_get box1 1 * vec3_get box2 2)"

text \<open>\<^verbatim>\<open>initialize\<close>; \<open>osSeed\<close> is what \<^verbatim>\<open>osrngseed()\<close> returns.\<close>

definition initialize ::
  "int \<Rightarrow> MonteCarloMembraneBarostat \<Rightarrow> MonteCarloMembraneBarostatImpl \<times> ContextImpl
   \<Rightarrow> MonteCarloMembraneBarostatImpl \<times> ContextImpl" where
  "initialize osSeed owner = (\<lambda>(impl, context).
     let context1 = context\<lparr>kernelCalls := kernelCalls context @ [KernelInitialize]\<rparr>;
         vol = boxVolume (periodicBoxVectors context1);
         impl1 = fold (\<lambda>i impl.
                   impl\<lparr>volumeScale := (volumeScale impl)(i := 0.01 * vol),
                        numAttempted := (numAttempted impl)(i := 0),
                        numAccepted := (numAccepted impl)(i := 0)\<rparr>) [0, 1, 2] impl;
         randSeed = getRandomNumberSeed owner;
         randSeed1 = (if randSeed = 0 then osSeed else randSeed)
     in (impl1\<lparr>random := init_gen_rand randSeed1\<rparr>, context1))"

text \<open>
  The axis loop, lines 83 to 95. It may run forever, so it is a partial function:
  \<open>None\<close> is the loop that never leaves.
\<close>

partial_function (option) chooseAxis ::
  "(int \<Rightarrow> nat \<Rightarrow> real) \<Rightarrow> XYMode \<Rightarrow> ZMode \<Rightarrow> SFMT \<Rightarrow> (nat \<times> SFMT) option" where
  "chooseAxis gen xyMode zMode r =
     (case genrand_real2 gen r of (u, r1) \<Rightarrow>
        if u * 3 < 1 then Some (0, r1)
        else if u * 3 < 2 then Some (if xyMode = XYIsotropic then 0 else 1, r1)
        else if zMode = ZFree then Some (2, r1)
        else chooseAxis gen xyMode zMode r1)"

text \<open>The local variables of a trial after line 114.\<close>

record Trial =
  volume :: real
  deltaVolume :: real
  newVolume :: real
  lengthScale :: Vec3
  deltaArea :: real

datatype Stop = NonFinite | SignedOverflow

definition INT_MAX :: int where
  "INT_MAX = 2147483647"

text \<open>
  Lines 99 to 114; \<open>scale\<close> is \<^verbatim>\<open>volumeScale[axis]\<close> and \<open>u\<close> the variate drawn at line
  102. The model stops where line 106 or 108 divides by a volume of zero, where line 106
  takes the square root of a negative number, and where line 110 divides by zero.
\<close>

definition proposeTrial ::
  "MonteCarloMembraneBarostat \<Rightarrow> Vec3 \<times> Vec3 \<times> Vec3 \<Rightarrow> real \<Rightarrow> nat \<Rightarrow> real \<Rightarrow> Stop + Trial" where
  "proposeTrial owner box scale axis u = (case box of (box0, box1, box2) \<Rightarrow>
     let vol = vec3_get box0 0 * vec3_get box1 1 * vec3_get box2 2;
         dVol = scale * 2 * (u - 0.5);
         newVol = vol + dVol;
         ls = Vec3 1 1 1;
         isotropic = ((axis = 0 \<or> axis = 1) \<and> getXYMode owner = XYIsotropic)
     in if vol = 0 then Inl NonFinite
        else if isotropic \<and> newVol / vol < 0 then Inl NonFinite
        else
          let ls1 = (if isotropic
                     then vec3_set (vec3_set ls 1 (sqrt (newVol / vol))) 0 (sqrt (newVol / vol))
                     else vec3_set ls axis (newVol / vol));
              cv = (getZMode owner = ConstantVolume)
          in if cv \<and> vec3_get ls1 0 * vec3_get ls1 1 = 0 then Inl NonFinite
             else
               let ls2 = (if cv then vec3_set ls1 2 (1 / (vec3_get ls1 0 * vec3_get ls1 1)) else ls1);
                   newVol1 = (if cv then vol else newVol);
                   dVol1 = (if cv then 0 else dVol)
               in Inr \<lparr>volume = vol, deltaVolume = dVol1, newVolume = newVol1, lengthScale = ls2,
                        deltaArea = vec3_get box0 0 * vec3_get ls2 0 * vec3_get box1 1 * vec3_get ls2 1
                                    - vec3_get box0 0 * vec3_get box1 1\<rparr>)"

text \<open>Lines 115 and 116: the kernel scales the coordinates, the context takes the new box.\<close>

definition scaleContext :: "Trial \<Rightarrow> ContextImpl \<Rightarrow> ContextImpl" where
  "scaleContext t context = (case periodicBoxVectors context of (box0, box1, box2) \<Rightarrow>
     context\<lparr>kernelCalls := kernelCalls context @
                [ScaleCoordinates (vec3_get (lengthScale t) 0) (vec3_get (lengthScale t) 1)
                   (vec3_get (lengthScale t) 2)],
             periodicBoxVectors :=
               (vec3_scale box0 (vec3_get (lengthScale t) 0),
                vec3_scale box1 (vec3_get (lengthScale t) 1),
                vec3_scale box2 (vec3_get (lengthScale t) 2))\<rparr>)"

text \<open>Lines 126 and 127: the kernel restores the coordinates, the context takes the old box.\<close>

definition restoreContext :: "Vec3 \<times> Vec3 \<times> Vec3 \<Rightarrow> ContextImpl \<Rightarrow> ContextImpl" where
  "restoreContext box context =
     context\<lparr>kernelCalls := kernelCalls context @ [RestoreCoordinates],
             periodicBoxVectors := box\<rparr>"

text \<open>
  The values a \<^verbatim>\<open>double\<close> expression can take once a logarithm is in it, and the
  operations lines 122 and 123 apply to them. In \<open>divideDouble\<close> a divisor of zero is
  \<open>+0\<close>.
\<close>

datatype Double = Finite real | PosInf | NegInf | NaN

text \<open>\<^verbatim>\<open>std::log(x)\<close> of a finite \<open>x\<close>.\<close>

definition logDouble :: "real \<Rightarrow> Double" where
  "logDouble x = (if 0 < x then Finite (ln x) else if x = 0 then NegInf else NaN)"

text \<open>\<^verbatim>\<open>c * d\<close> and \<^verbatim>\<open>a - d\<close> for finite \<open>c\<close> and \<open>a\<close>.\<close>

fun timesDouble :: "real \<Rightarrow> Double \<Rightarrow> Double" where
  "timesDouble c (Finite x) = Finite (c * x)"
| "timesDouble c PosInf = (if 0 < c then PosInf else if c < 0 then NegInf else NaN)"
| "timesDouble c NegInf = (if 0 < c then NegInf else if c < 0 then PosInf else NaN)"
| "timesDouble c NaN = NaN"

fun minusDouble :: "real \<Rightarrow> Double \<Rightarrow> Double" where
  "minusDouble a (Finite x) = Finite (a - x)"
| "minusDouble a PosInf = NegInf"
| "minusDouble a NegInf = PosInf"
| "minusDouble a NaN = NaN"

text \<open>\<^verbatim>\<open>-d\<close>, \<^verbatim>\<open>d / k\<close> for a finite \<open>k\<close>, and \<^verbatim>\<open>std::exp(d)\<close>.\<close>

fun negateDouble :: "Double \<Rightarrow> Double" where
  "negateDouble (Finite x) = Finite (- x)"
| "negateDouble PosInf = NegInf"
| "negateDouble NegInf = PosInf"
| "negateDouble NaN = NaN"

fun divideDouble :: "Double \<Rightarrow> real \<Rightarrow> Double" where
  "divideDouble (Finite x) k =
     (if k \<noteq> 0 then Finite (x / k)
      else if 0 < x then PosInf else if x < 0 then NegInf else NaN)"
| "divideDouble PosInf k = (if 0 \<le> k then PosInf else NegInf)"
| "divideDouble NegInf k = (if 0 \<le> k then NegInf else PosInf)"
| "divideDouble NaN k = NaN"

fun expDouble :: "Double \<Rightarrow> Double" where
  "expDouble (Finite x) = Finite (exp x)"
| "expDouble PosInf = PosInf"
| "expDouble NegInf = Finite 0"
| "expDouble NaN = NaN"

text \<open>The comparisons \<^verbatim>\<open>d > 0\<close> and \<^verbatim>\<open>u > d\<close> for a finite \<open>u\<close>; with a NaN both are false.\<close>

fun greaterZero :: "Double \<Rightarrow> bool" where
  "greaterZero (Finite x) = (0 < x)"
| "greaterZero PosInf = True"
| "greaterZero NegInf = False"
| "greaterZero NaN = False"

fun greaterThan :: "real \<Rightarrow> Double \<Rightarrow> bool" where
  "greaterThan u (Finite x) = (x < u)"
| "greaterThan u PosInf = False"
| "greaterThan u NegInf = True"
| "greaterThan u NaN = False"

text \<open>Line 122, with the unit conversions of lines 78 and 79 and \<open>kT\<close> of line 121.\<close>

definition kT :: "MonteCarloMembraneBarostat \<Rightarrow> real" where
  "kT owner = BOLTZ * getTemperature owner"

definition metropolisWeight ::
  "MonteCarloMembraneBarostat \<Rightarrow> ContextImpl \<Rightarrow> real \<Rightarrow> real \<Rightarrow> Trial \<Rightarrow> Double" where
  "metropolisWeight owner context initialEnergy finalEnergy t =
     (let pressure = pressureParameter context * (AVOGADRO * (1 / 10 ^ 25));
          tension = surfaceTensionParameter context * (AVOGADRO * (1 / 10 ^ 25))
      in minusDouble
           (finalEnergy - initialEnergy + pressure * deltaVolume t - tension * deltaArea t)
           (timesDouble (real (numMolecules context) * kT owner)
              (logDouble (newVolume t / volume t))))"

text \<open>The test of line 123 for a weight \<open>w\<close> and a variate \<open>u\<close>: \<^verbatim>\<open>u > std::exp(-w/kT)\<close>.\<close>

definition aboveThreshold :: "real \<Rightarrow> Double \<Rightarrow> real \<Rightarrow> bool" where
  "aboveThreshold u w k = greaterThan u (expDouble (divideDouble (negateDouble w) k))"

text \<open>
  Lines 133 to 144; \<open>vol\<close> is the local \<^verbatim>\<open>volume\<close>, which line 128 has overwritten with
  \<^verbatim>\<open>newVolume\<close> when the step was rejected.
\<close>

definition tune :: "real \<Rightarrow> nat \<Rightarrow> MonteCarloMembraneBarostatImpl \<Rightarrow> MonteCarloMembraneBarostatImpl" where
  "tune vol axis impl =
     (if numAttempted impl axis \<ge> 10 then
        if real_of_int (numAccepted impl axis) < 0.25 * real_of_int (numAttempted impl axis) then
          impl\<lparr>volumeScale := (volumeScale impl)(axis := volumeScale impl axis / 1.1),
               numAttempted := (numAttempted impl)(axis := 0),
               numAccepted := (numAccepted impl)(axis := 0)\<rparr>
        else if real_of_int (numAccepted impl axis) > 0.75 * real_of_int (numAttempted impl axis) then
          impl\<lparr>volumeScale := (volumeScale impl)(axis := min (volumeScale impl axis * 1.1) (vol * 0.3)),
               numAttempted := (numAttempted impl)(axis := 0),
               numAccepted := (numAccepted impl)(axis := 0)\<rparr>
        else impl
      else impl)"

text \<open>
  Lines 97 to 144, for the axis chosen. The variate of line 123 is drawn only when
  \<open>w > 0\<close>, as \<^verbatim>\<open>&&\<close> does. The model stops where line 131 or 132 increments a count
  that holds \<open>INT_MAX\<close>.
\<close>

definition metropolisTrial ::
  "(int \<Rightarrow> nat \<Rightarrow> real) \<Rightarrow> (ContextImpl \<Rightarrow> real) \<Rightarrow> MonteCarloMembraneBarostat \<Rightarrow> real \<Rightarrow> nat
   \<Rightarrow> MonteCarloMembraneBarostatImpl \<times> ContextImpl
   \<Rightarrow> Stop + MonteCarloMembraneBarostatImpl \<times> ContextImpl" where
  "metropolisTrial gen energyOf owner initialEnergy axis = (\<lambda>(impl, context).
     let box = periodicBoxVectors context in
     case genrand_real2 gen (random impl) of (u, r1) \<Rightarrow>
       case proposeTrial owner box (volumeScale impl axis) axis u of
         Inl e \<Rightarrow> Inl e
       | Inr t \<Rightarrow>
           let context1 = scaleContext t context;
               finalEnergy = energyOf context1;
               w = metropolisWeight owner context initialEnergy finalEnergy t;
               (reject, r2) =
                  (if greaterZero w
                   then (case genrand_real2 gen r1 of (u', r') \<Rightarrow> (aboveThreshold u' w (kT owner), r'))
                   else (False, r1));
               context2 = (if reject then restoreContext box context1 else context1);
               vol = (if reject then newVolume t else volume t)
           in if \<not> reject \<and> INT_MAX \<le> numAccepted impl axis then Inl SignedOverflow
              else if INT_MAX \<le> numAttempted impl axis then Inl SignedOverflow
              else
                let impl1 = (if reject then impl
                             else impl\<lparr>numAccepted := (numAccepted impl)(axis := numAccepted impl axis + 1)\<rparr>);
                    impl2 = impl1\<lparr>numAttempted := (numAttempted impl1)(axis := numAttempted impl1 axis + 1)\<rparr>
                in Inr (tune vol axis (impl2\<lparr>random := r2\<rparr>), context2))"

text \<open>
  \<^verbatim>\<open>updateContextState\<close>. \<open>None\<close>: the axis loop never leaves. \<open>Some (Inl e)\<close>: the call
  left the model at \<open>e\<close>. \<open>Some (Inr (impl, context))\<close>: the call returned, with these
  members and this context. The model stops where line 71 increments a \<^verbatim>\<open>step\<close> that
  holds \<open>INT_MAX\<close>.
\<close>

definition updateContextState ::
  "(int \<Rightarrow> nat \<Rightarrow> real) \<Rightarrow> (ContextImpl \<Rightarrow> real) \<Rightarrow> MonteCarloMembraneBarostat
   \<Rightarrow> MonteCarloMembraneBarostatImpl \<times> ContextImpl
   \<Rightarrow> (Stop + MonteCarloMembraneBarostatImpl \<times> ContextImpl) option" where
  "updateContextState gen energyOf owner = (\<lambda>(impl, context).
     if INT_MAX \<le> step impl then Some (Inl SignedOverflow)
     else
       let impl1 = impl\<lparr>step := step impl + 1\<rparr> in
       if step impl1 < getFrequency owner \<or> getFrequency owner = 0 then Some (Inr (impl1, context))
       else
         let impl2 = impl1\<lparr>step := 0\<rparr>;
             initialEnergy = energyOf context
         in case chooseAxis gen (getXYMode owner) (getZMode owner) (random impl2) of
              None \<Rightarrow> None
            | Some (axis, r) \<Rightarrow>
                Some (metropolisTrial gen energyOf owner initialEnergy axis (impl2\<lparr>random := r\<rparr>, context)))"

subsection \<open>The quantities of one trial\<close>

text \<open>
  Names for what one call of \<open>updateContextState\<close> computes on the way, for use in the
  statements: the trial proposed once the axis loop has left with \<open>axis\<close> and generator
  state \<open>r\<close>, the weight \<open>w\<close> of line 122, the variate of line 123, and the condition of
  line 123 under which the step is rejected.
\<close>

definition trialOf ::
  "(int \<Rightarrow> nat \<Rightarrow> real) \<Rightarrow> MonteCarloMembraneBarostat \<Rightarrow> MonteCarloMembraneBarostatImpl
   \<Rightarrow> ContextImpl \<Rightarrow> nat \<Rightarrow> SFMT \<Rightarrow> Stop + Trial" where
  "trialOf gen owner impl context axis r =
     proposeTrial owner (periodicBoxVectors context) (volumeScale impl axis) axis
       (fst (genrand_real2 gen r))"

definition weightOf ::
  "(ContextImpl \<Rightarrow> real) \<Rightarrow> MonteCarloMembraneBarostat \<Rightarrow> ContextImpl \<Rightarrow> Trial \<Rightarrow> Double" where
  "weightOf energyOf owner context t =
     metropolisWeight owner context (energyOf context) (energyOf (scaleContext t context)) t"

definition acceptanceVariate :: "(int \<Rightarrow> nat \<Rightarrow> real) \<Rightarrow> SFMT \<Rightarrow> real" where
  "acceptanceVariate gen r = fst (genrand_real2 gen (snd (genrand_real2 gen r)))"

definition rejected ::
  "(int \<Rightarrow> nat \<Rightarrow> real) \<Rightarrow> (ContextImpl \<Rightarrow> real) \<Rightarrow> MonteCarloMembraneBarostat \<Rightarrow> ContextImpl
   \<Rightarrow> Trial \<Rightarrow> SFMT \<Rightarrow> bool" where
  "rejected gen energyOf owner context t r =
     (greaterZero (weightOf energyOf owner context t)
      \<and> aboveThreshold (acceptanceVariate gen r) (weightOf energyOf owner context t) (kT owner))"

text \<open>
  What a call leaves behind in the context. Accepted: the scaled coordinates and the
  scaled box stay. Rejected: after the scaling the kernel has restored the coordinates and
  the context has its old box again.
\<close>

definition stepAccepted :: "Trial \<Rightarrow> ContextImpl \<Rightarrow> ContextImpl \<Rightarrow> bool" where
  "stepAccepted t context context' = (context' = scaleContext t context)"

definition stepRejected :: "Trial \<Rightarrow> ContextImpl \<Rightarrow> ContextImpl \<Rightarrow> bool" where
  "stepRejected t context context' =
     (context' = restoreContext (periodicBoxVectors context) (scaleContext t context))"

text \<open>A trial is due in this call: the test of line 71 fails.\<close>

definition trialDue :: "MonteCarloMembraneBarostat \<Rightarrow> MonteCarloMembraneBarostatImpl \<Rightarrow> bool" where
  "trialDue owner impl = (\<not> (step impl + 1 < getFrequency owner \<or> getFrequency owner = 0))"

text \<open>The counts of the axis and \<^verbatim>\<open>step\<close> can be incremented.\<close>

definition countsInRange :: "MonteCarloMembraneBarostatImpl \<Rightarrow> nat \<Rightarrow> bool" where
  "countsInRange impl axis =
     (step impl < INT_MAX \<and> numAttempted impl axis < INT_MAX \<and> numAccepted impl axis < INT_MAX)"

text \<open>
  The increments a call with a trial makes do not overflow: line 71, line 132, and line
  131 when the step is accepted.
\<close>

definition canIncrement :: "MonteCarloMembraneBarostatImpl \<Rightarrow> nat \<Rightarrow> bool \<Rightarrow> bool" where
  "canIncrement impl axis accepted =
     (step impl < INT_MAX \<and> numAttempted impl axis < INT_MAX
      \<and> (accepted \<longrightarrow> numAccepted impl axis < INT_MAX))"

subsection \<open>Sequences of calls\<close>

text \<open>
  \<open>runsTo P impl impl'\<close>: some sequence of returning calls of \<open>updateContextState\<close> takes
  the members \<open>impl\<close> to \<open>impl'\<close>. Between the calls the owner's settings, the context,
  the energies and the variates are whatever each call finds, as long as the owner and
  the context it finds satisfy \<open>P\<close>.
\<close>

inductive runsTo ::
  "(MonteCarloMembraneBarostat \<Rightarrow> ContextImpl \<Rightarrow> bool)
   \<Rightarrow> MonteCarloMembraneBarostatImpl \<Rightarrow> MonteCarloMembraneBarostatImpl \<Rightarrow> bool"
  for P where
  start: "runsTo P impl impl"
| call: "runsTo P impl impl1 \<Longrightarrow> P owner context
         \<Longrightarrow> updateContextState gen energyOf owner (impl1, context) = Some (Inr (impl2, context2))
         \<Longrightarrow> runsTo P impl impl2"

text \<open>
  \<open>runsWhere R impl impl'\<close>: the same, with a condition \<open>R\<close> that may also speak about the
  variates, the energies and the members each call starts from.
\<close>

inductive runsWhere ::
  "((int \<Rightarrow> nat \<Rightarrow> real) \<Rightarrow> (ContextImpl \<Rightarrow> real) \<Rightarrow> MonteCarloMembraneBarostat
      \<Rightarrow> MonteCarloMembraneBarostatImpl \<Rightarrow> ContextImpl \<Rightarrow> bool)
   \<Rightarrow> MonteCarloMembraneBarostatImpl \<Rightarrow> MonteCarloMembraneBarostatImpl \<Rightarrow> bool"
  for R where
  start: "runsWhere R impl impl"
| call: "runsWhere R impl impl1 \<Longrightarrow> R gen energyOf owner impl1 context
         \<Longrightarrow> updateContextState gen energyOf owner (impl1, context) = Some (Inr (impl2, context2))
         \<Longrightarrow> runsWhere R impl impl2"

text \<open>
  The call runs a trial whose \<^verbatim>\<open>newVolume\<close> is exactly 0: the volume change drawn at line
  102 is minus the volume of the box.
\<close>

definition attemptsZeroVolume ::
  "(int \<Rightarrow> nat \<Rightarrow> real) \<Rightarrow> MonteCarloMembraneBarostat \<Rightarrow> MonteCarloMembraneBarostatImpl
   \<Rightarrow> ContextImpl \<Rightarrow> bool" where
  "attemptsZeroVolume gen owner impl context =
     (trialDue owner impl \<and>
      (case chooseAxis gen (getXYMode owner) (getZMode owner) (random impl) of
         None \<Rightarrow> False
       | Some (axis, r) \<Rightarrow>
           (case trialOf gen owner impl context axis r of
              Inl e \<Rightarrow> False
            | Inr t \<Rightarrow> newVolume t = 0)))"

subsection \<open>A concrete system\<close>

text \<open>
  The system the theorems are tried on: a cube of 3 nm with ten molecules at 300 K, a
  trial at every call, X and Y independent, Z free, seed 42. The members start from
  arbitrary values, the constructor and \<open>initialize\<close> run.
\<close>

definition exOwner :: MonteCarloMembraneBarostat where
  "exOwner = \<lparr>getFrequency = 1, getXYMode = XYAnisotropic, getZMode = ZFree,
              getTemperature = 300, getRandomNumberSeed = 42\<rparr>"

definition exBox :: "Vec3 \<times> Vec3 \<times> Vec3" where
  "exBox = (Vec3 3 0 0, Vec3 0 3 0, Vec3 0 0 3)"

definition exContext0 :: ContextImpl where
  "exContext0 = \<lparr>periodicBoxVectors = exBox, pressureParameter = 1, surfaceTensionParameter = 0,
                 numMolecules = 10, kernelCalls = []\<rparr>"

definition exUninitialised :: MonteCarloMembraneBarostatImpl where
  "exUninitialised = \<lparr>step = 7, volumeScale = (\<lambda>_. - 1), numAttempted = (\<lambda>_. 5),
                      numAccepted = (\<lambda>_. 9), random = \<lparr>seed = 0, drawn = 3\<rparr>\<rparr>"

definition exImpl :: MonteCarloMembraneBarostatImpl where
  "exImpl = fst (initialize 0 exOwner (construct exUninitialised, exContext0))"

definition exContext :: ContextImpl where
  "exContext = snd (initialize 0 exOwner (construct exUninitialised, exContext0))"

text \<open>
  Variates: the first is 1/10 (axis 0), the second 1/2 (a volume change of 0), every later
  one 9/10. Energies: 1000 kJ/mol for every kernel call made so far, so that the scaled
  system lies 1000 kJ/mol above the unscaled one.
\<close>

definition exGen :: "int \<Rightarrow> nat \<Rightarrow> real" where
  "exGen s n = (if n = 0 then 1 / 10 else if n = 1 then 1 / 2 else 9 / 10)"

definition exEnergy :: "ContextImpl \<Rightarrow> real" where
  "exEnergy c = 1000 * real (length (kernelCalls c))"

definition exRandom1 :: SFMT where
  "exRandom1 = \<lparr>seed = 42, drawn = 1\<rparr>"

definition exRandom0 :: SFMT where
  "exRandom0 = \<lparr>seed = 42, drawn = 0\<rparr>"

definition exRandom2 :: SFMT where
  "exRandom2 = \<lparr>seed = 42, drawn = 2\<rparr>"

definition exRandom3 :: SFMT where
  "exRandom3 = \<lparr>seed = 42, drawn = 3\<rparr>"

definition exTrial :: Trial where
  "exTrial = \<lparr>volume = 27, deltaVolume = 0, newVolume = 27, lengthScale = Vec3 1 1 1, deltaArea = 0\<rparr>"

text \<open>What the first call leaves when its step is rejected.\<close>

definition exRejectedContext :: ContextImpl where
  "exRejectedContext =
     \<lparr>periodicBoxVectors = exBox, pressureParameter = 1, surfaceTensionParameter = 0,
      numMolecules = 10,
      kernelCalls = [KernelInitialize, ScaleCoordinates 1 1 1, RestoreCoordinates]\<rparr>"

definition exRejectedImpl :: MonteCarloMembraneBarostatImpl where
  "exRejectedImpl = exImpl\<lparr>numAttempted := (numAttempted exImpl)(0 := 1), random := exRandom3\<rparr>"

text \<open>A generator whose variates are all 9/10, and energies that never change.\<close>

definition exGenHigh :: "int \<Rightarrow> nat \<Rightarrow> real" where
  "exGenHigh s n = 9 / 10"

definition exEnergyFlat :: "ContextImpl \<Rightarrow> real" where
  "exEnergyFlat c = 0"

text \<open>
  The same system with Z set to keep the volume, and two generators whose second variate
  is 0, the largest proposed shrink; the later variates are 0 for \<open>exGenLow\<close> and 9/10
  for \<open>exGenLowHigh\<close>.
\<close>

definition exOwnerCV :: MonteCarloMembraneBarostat where
  "exOwnerCV = exOwner\<lparr>getZMode := ConstantVolume\<rparr>"

definition exGenLow :: "int \<Rightarrow> nat \<Rightarrow> real" where
  "exGenLow s n = (if n = 0 then 1 / 10 else 0)"

definition exTrialCV :: Trial where
  "exTrialCV = \<lparr>volume = 27, deltaVolume = 0, newVolume = 27,
                lengthScale = Vec3 (99 / 100) 1 (100 / 99), deltaArea = - (9 / 100)\<rparr>"

definition exAcceptedContextCV :: ContextImpl where
  "exAcceptedContextCV =
     \<lparr>periodicBoxVectors = (Vec3 (297 / 100) 0 0, Vec3 0 3 0, Vec3 0 0 (100 / 33)),
      pressureParameter = 1, surfaceTensionParameter = 0, numMolecules = 10,
      kernelCalls = [KernelInitialize, ScaleCoordinates (99 / 100) 1 (100 / 99)]\<rparr>"



definition exAcceptedImpl :: MonteCarloMembraneBarostatImpl where
  "exAcceptedImpl = exImpl\<lparr>numAttempted := (numAttempted exImpl)(0 := 1),
                            numAccepted := (numAccepted exImpl)(0 := 1), random := exRandom2\<rparr>"

text \<open>
  The same system with X and Y coupled, and a generator whose variates are all 1/2: every
  trial is on axis 0 with a volume change of 0. \<open>exCounts k a d\<close> are the initialised
  members after \<open>k\<close> attempts on axis 0 of which \<open>a\<close> were accepted, with \<open>d\<close> variates
  drawn.
\<close>

definition exOwnerIso :: MonteCarloMembraneBarostat where
  "exOwnerIso = exOwner\<lparr>getXYMode := XYIsotropic\<rparr>"

definition exGenHalf :: "int \<Rightarrow> nat \<Rightarrow> real" where
  "exGenHalf s n = 1 / 2"

definition exCounts :: "int \<Rightarrow> int \<Rightarrow> nat \<Rightarrow> MonteCarloMembraneBarostatImpl" where
  "exCounts k a d = exImpl\<lparr>numAttempted := (numAttempted exImpl)(0 := k),
                           numAccepted := (numAccepted exImpl)(0 := a),
                           random := \<lparr>seed = 42, drawn = d\<rparr>\<rparr>"

definition exScaledContext :: ContextImpl where
  "exScaledContext =
     \<lparr>periodicBoxVectors = exBox, pressureParameter = 1, surfaceTensionParameter = 0,
      numMolecules = 10, kernelCalls = [KernelInitialize, ScaleCoordinates 1 1 1]\<rparr>"

text \<open>The members after a tuning step that has shrunk, or grown, the amplitude of axis 0.\<close>

definition exShrunkImpl :: MonteCarloMembraneBarostatImpl where
  "exShrunkImpl = (exCounts 0 0 3)\<lparr>volumeScale := (volumeScale exImpl)(0 := 27 / 110)\<rparr>"

definition exGrownImpl :: MonteCarloMembraneBarostatImpl where
  "exGrownImpl = (exCounts 0 0 29)\<lparr>volumeScale := (volumeScale exImpl)(0 := 297 / 1000)\<rparr>"

text \<open>Energies that go up by 1 kJ/mol, and down by 1000 kJ/mol, with every kernel call.\<close>

definition exEnergyStep :: "ContextImpl \<Rightarrow> real" where
  "exEnergyStep c = real (length (kernelCalls c))"

definition exEnergyDrop :: "ContextImpl \<Rightarrow> real" where
  "exEnergyDrop c = - 1000 * real (length (kernelCalls c))"

text \<open>
  A barostat initialised on a box of 10 nm by 10 nm by 8 nm, so that its amplitudes are
  8 cubic nm, and \<open>exWideCounts k a d\<close>, its members after \<open>k\<close> attempts on axis 0 of which
  \<open>a\<close> were accepted, with \<open>d\<close> variates drawn. The variates of \<open>exGenShrink\<close>: up to
  the 19th, 1/10 (axis 0) and 1/2 (a volume change of 0) in turn; the 20th is 0, the
  largest shrink; every later one is 9/10.
\<close>

definition exWideBox :: "Vec3 \<times> Vec3 \<times> Vec3" where
  "exWideBox = (Vec3 10 0 0, Vec3 0 10 0, Vec3 0 0 8)"

definition exWideContext0 :: ContextImpl where
  "exWideContext0 = \<lparr>periodicBoxVectors = exWideBox, pressureParameter = 1, surfaceTensionParameter = 0,
                     numMolecules = 10, kernelCalls = []\<rparr>"

definition exWideImpl :: MonteCarloMembraneBarostatImpl where
  "exWideImpl = fst (initialize 0 exOwner (construct exUninitialised, exWideContext0))"

definition exWideContext :: ContextImpl where
  "exWideContext = snd (initialize 0 exOwner (construct exUninitialised, exWideContext0))"

definition exWideCounts :: "int \<Rightarrow> int \<Rightarrow> nat \<Rightarrow> MonteCarloMembraneBarostatImpl" where
  "exWideCounts k a d = exWideImpl\<lparr>numAttempted := (numAttempted exWideImpl)(0 := k),
                                   numAccepted := (numAccepted exWideImpl)(0 := a),
                                   random := \<lparr>seed = 42, drawn = d\<rparr>\<rparr>"

definition exGenShrink :: "int \<Rightarrow> nat \<Rightarrow> real" where
  "exGenShrink s n = (if n = 19 then 0 else if 20 \<le> n then 9 / 10 else if even n then 1 / 10 else 1 / 2)"

definition exWideFlatTrial :: Trial where
  "exWideFlatTrial = \<lparr>volume = 800, deltaVolume = 0, newVolume = 800, lengthScale = Vec3 1 1 1,
                      deltaArea = 0\<rparr>"

definition exWideScaledContext :: ContextImpl where
  "exWideScaledContext =
     \<lparr>periodicBoxVectors = exWideBox, pressureParameter = 1, surfaceTensionParameter = 0,
      numMolecules = 10, kernelCalls = [KernelInitialize, ScaleCoordinates 1 1 1]\<rparr>"

text \<open>
  The tenth trial of that barostat, on the cube of 3 nm: the volume goes from 27 to 19.
  \<open>exWideTuned d v\<close> are the members after the tuning has set the amplitude of axis 0 to
  \<open>v\<close> and its counts to 0, with \<open>d\<close> variates drawn.
\<close>

definition exWideTrial :: Trial where
  "exWideTrial = \<lparr>volume = 27, deltaVolume = - 8, newVolume = 19, lengthScale = Vec3 (19 / 27) 1 1,
                  deltaArea = - (8 / 3)\<rparr>"

definition exWideRejectedContext :: ContextImpl where
  "exWideRejectedContext =
     \<lparr>periodicBoxVectors = exBox, pressureParameter = 1, surfaceTensionParameter = 0,
      numMolecules = 10,
      kernelCalls = [KernelInitialize, ScaleCoordinates (19 / 27) 1 1, RestoreCoordinates]\<rparr>"

definition exWideAcceptedContext :: ContextImpl where
  "exWideAcceptedContext =
     \<lparr>periodicBoxVectors = (Vec3 (19 / 9) 0 0, Vec3 0 3 0, Vec3 0 0 3),
      pressureParameter = 1, surfaceTensionParameter = 0, numMolecules = 10,
      kernelCalls = [KernelInitialize, ScaleCoordinates (19 / 27) 1 1]\<rparr>"

definition exWideTuned :: "nat \<Rightarrow> real \<Rightarrow> MonteCarloMembraneBarostatImpl" where
  "exWideTuned d v = (exWideCounts 0 0 d)\<lparr>volumeScale := (volumeScale exWideImpl)(0 := v)\<rparr>"

text \<open>The same tenth trial on a cube of 2 nm: the volume goes from 8 to 0.\<close>

definition exSmallBox :: "Vec3 \<times> Vec3 \<times> Vec3" where
  "exSmallBox = (Vec3 2 0 0, Vec3 0 2 0, Vec3 0 0 2)"

definition exSmallContext :: ContextImpl where
  "exSmallContext = \<lparr>periodicBoxVectors = exSmallBox, pressureParameter = 1, surfaceTensionParameter = 0,
                     numMolecules = 10, kernelCalls = [KernelInitialize]\<rparr>"

definition exSmallTrial :: Trial where
  "exSmallTrial = \<lparr>volume = 8, deltaVolume = - 8, newVolume = 0, lengthScale = Vec3 0 1 1,
                   deltaArea = - 4\<rparr>"

definition exSmallRejectedContext :: ContextImpl where
  "exSmallRejectedContext =
     \<lparr>periodicBoxVectors = exSmallBox, pressureParameter = 1, surfaceTensionParameter = 0,
      numMolecules = 10,
      kernelCalls = [KernelInitialize, ScaleCoordinates 0 1 1, RestoreCoordinates]\<rparr>"

section \<open>Auxiliary facts\<close>

subsection \<open>One call, unfolded\<close>

lemma metropolisTrial_unfold:
  assumes g1: "genrand_real2 gen (random impl) = (u, r1)"
    and t: "proposeTrial owner (periodicBoxVectors context) (volumeScale impl axis) axis u = Inr t"
    and w: "w = metropolisWeight owner context initialEnergy (energyOf (scaleContext t context)) t"
    and g2: "genrand_real2 gen r1 = (u', r2)"
    and rj: "rj = (greaterZero w \<and> aboveThreshold u' w (kT owner))"
  shows "metropolisTrial gen energyOf owner initialEnergy axis (impl, context) =
    (if \<not> rj \<and> INT_MAX \<le> numAccepted impl axis then Inl SignedOverflow
     else if INT_MAX \<le> numAttempted impl axis then Inl SignedOverflow
     else Inr (tune (if rj then newVolume t else volume t) axis
                 (impl\<lparr>numAccepted := (numAccepted impl)(axis := numAccepted impl axis + (if rj then 0 else 1)),
                       numAttempted := (numAttempted impl)(axis := numAttempted impl axis + 1),
                       random := (if greaterZero w then r2 else r1)\<rparr>),
               if rj then restoreContext (periodicBoxVectors context) (scaleContext t context)
               else scaleContext t context))"
  unfolding metropolisTrial_def
  apply (simp only: prod.case g1 t sum.case Let_def w [symmetric] g2)
  apply (cases "greaterZero w"; cases "aboveThreshold u' w (kT owner)")
  apply (simp_all add: rj)
  done

lemma updateContextState_overflow:
  "INT_MAX \<le> step impl \<Longrightarrow>
   updateContextState gen energyOf owner (impl, context) = Some (Inl SignedOverflow)"
  by (simp add: updateContextState_def)

lemma updateContextState_step_range:
  "updateContextState gen energyOf owner (impl, context) = Some (Inr x) \<Longrightarrow> step impl < INT_MAX"
  by (rule ccontr) (simp add: updateContextState_def)

lemma updateContextState_idle:
  "\<not> trialDue owner impl \<Longrightarrow> step impl < INT_MAX \<Longrightarrow>
   updateContextState gen energyOf owner (impl, context) = Some (Inr (impl\<lparr>step := step impl + 1\<rparr>, context))"
  by (simp add: updateContextState_def trialDue_def Let_def)

lemma updateContextState_due:
  "trialDue owner impl \<Longrightarrow> step impl < INT_MAX \<Longrightarrow>
   updateContextState gen energyOf owner (impl, context) =
     (case chooseAxis gen (getXYMode owner) (getZMode owner) (random impl) of
        None \<Rightarrow> None
      | Some (axis, r) \<Rightarrow>
          Some (metropolisTrial gen energyOf owner (energyOf context) axis
                  (impl\<lparr>step := 0, random := r\<rparr>, context)))"
  by (simp add: updateContextState_def trialDue_def Let_def)

text \<open>The members before the tuning, and what the trial leaves in the context.\<close>

lemma metropolisTrial_result:
  assumes tr: "trialOf gen owner impl context axis r = Inr t"
  shows "metropolisTrial gen energyOf owner (energyOf context) axis (impl\<lparr>step := 0, random := r\<rparr>, context) =
    (if \<not> rejected gen energyOf owner context t r \<and> INT_MAX \<le> numAccepted impl axis then Inl SignedOverflow
     else if INT_MAX \<le> numAttempted impl axis then Inl SignedOverflow
     else Inr (tune (if rejected gen energyOf owner context t r then newVolume t else volume t) axis
               (impl\<lparr>step := 0,
                     numAccepted := (numAccepted impl)
                        (axis := numAccepted impl axis + (if rejected gen energyOf owner context t r then 0 else 1)),
                     numAttempted := (numAttempted impl)(axis := numAttempted impl axis + 1),
                     random := (if greaterZero (weightOf energyOf owner context t)
                                then snd (genrand_real2 gen (snd (genrand_real2 gen r)))
                                else snd (genrand_real2 gen r))\<rparr>),
               if rejected gen energyOf owner context t r
               then restoreContext (periodicBoxVectors context) (scaleContext t context)
               else scaleContext t context))"
proof -
  obtain u r1 where g1: "genrand_real2 gen r = (u, r1)" by (cases "genrand_real2 gen r")
  obtain u' r2 where g2: "genrand_real2 gen r1 = (u', r2)" by (cases "genrand_real2 gen r1")
  define w where "w = weightOf energyOf owner context t"
  define rj where "rj = rejected gen energyOf owner context t r"
  have t: "proposeTrial owner (periodicBoxVectors context) (volumeScale impl axis) axis u = Inr t"
    using tr g1 by (simp add: trialOf_def)
  have rjd: "rj = (greaterZero w \<and> aboveThreshold u' w (kT owner))"
    using g1 g2 by (simp add: rj_def rejected_def w_def acceptanceVariate_def)
  have un: "metropolisTrial gen energyOf owner (energyOf context) axis (impl\<lparr>step := 0, random := r\<rparr>, context) =
    (if \<not> rj \<and> INT_MAX \<le> numAccepted impl axis then Inl SignedOverflow
     else if INT_MAX \<le> numAttempted impl axis then Inl SignedOverflow
     else Inr (tune (if rj then newVolume t else volume t) axis
                 (impl\<lparr>step := 0, random := r,
                       numAccepted := (numAccepted impl)(axis := numAccepted impl axis + (if rj then 0 else 1)),
                       numAttempted := (numAttempted impl)(axis := numAttempted impl axis + 1),
                       random := (if greaterZero w then r2 else r1)\<rparr>),
               if rj then restoreContext (periodicBoxVectors context) (scaleContext t context)
               else scaleContext t context))"
    using metropolisTrial_unfold [of gen "impl\<lparr>step := 0, random := r\<rparr>" u r1 owner "context" axis t w
        "energyOf context" energyOf u' r2 rj] g1 g2 t rjd
    by (simp add: w_def weightOf_def)
  have f: "impl\<lparr>step := 0, random := r,
                       numAccepted := (numAccepted impl)(axis := numAccepted impl axis + (if rj then 0 else 1)),
                       numAttempted := (numAttempted impl)(axis := numAttempted impl axis + 1),
                       random := (if greaterZero w then r2 else r1)\<rparr>
     = impl\<lparr>step := 0,
                       numAccepted := (numAccepted impl)(axis := numAccepted impl axis + (if rj then 0 else 1)),
                       numAttempted := (numAttempted impl)(axis := numAttempted impl axis + 1),
                       random := (if greaterZero w then r2 else r1)\<rparr>"
    by (rule MonteCarloMembraneBarostatImpl.equality) simp_all
  have e: "snd (genrand_real2 gen r1) = r2" "snd (genrand_real2 gen r) = r1"
    using g1 g2 by simp_all
  show ?thesis
    by (simp only: un f e w_def [symmetric] rj_def [symmetric])
qed

lemma updateContextState_returns:
  assumes due: "trialDue owner impl"
    and ax: "chooseAxis gen (getXYMode owner) (getZMode owner) (random impl) = Some (axis, r)"
    and tr: "trialOf gen owner impl context axis r = Inr t"
    and rg: "countsInRange impl axis"
  shows "updateContextState gen energyOf owner (impl, context) =
     Some (Inr (tune (if rejected gen energyOf owner context t r then newVolume t else volume t) axis
               (impl\<lparr>step := 0,
                     numAccepted := (numAccepted impl)
                        (axis := numAccepted impl axis + (if rejected gen energyOf owner context t r then 0 else 1)),
                     numAttempted := (numAttempted impl)(axis := numAttempted impl axis + 1),
                     random := (if greaterZero (weightOf energyOf owner context t)
                                then snd (genrand_real2 gen (snd (genrand_real2 gen r)))
                                else snd (genrand_real2 gen r))\<rparr>),
             if rejected gen energyOf owner context t r
             then restoreContext (periodicBoxVectors context) (scaleContext t context)
             else scaleContext t context))"
proof -
  from rg have s: "step impl < INT_MAX" and a: "\<not> INT_MAX \<le> numAttempted impl axis"
    and c: "\<not> INT_MAX \<le> numAccepted impl axis"
    by (simp_all add: countsInRange_def)
  show ?thesis
    unfolding updateContextState_due [OF due s] ax
    by (simp only: option.case prod.case metropolisTrial_result [OF tr] a c simp_thms if_False)
qed

lemma updateContextState_trial:
  assumes ret: "updateContextState gen energyOf owner (impl, context) = Some (Inr (impl', context'))"
    and due: "trialDue owner impl"
    and ax: "chooseAxis gen (getXYMode owner) (getZMode owner) (random impl) = Some (axis, r)"
    and tr: "trialOf gen owner impl context axis r = Inr t"
  shows "context' = (if rejected gen energyOf owner context t r
                 then restoreContext (periodicBoxVectors context) (scaleContext t context)
                 else scaleContext t context)"
    and "impl' = tune (if rejected gen energyOf owner context t r then newVolume t else volume t) axis
               (impl\<lparr>step := 0,
                     numAccepted := (numAccepted impl)
                        (axis := numAccepted impl axis + (if rejected gen energyOf owner context t r then 0 else 1)),
                     numAttempted := (numAttempted impl)(axis := numAttempted impl axis + 1),
                     random := (if greaterZero (weightOf energyOf owner context t)
                                then snd (genrand_real2 gen (snd (genrand_real2 gen r)))
                                else snd (genrand_real2 gen r))\<rparr>)"
    and "numAttempted impl axis < INT_MAX"
    and "\<not> rejected gen energyOf owner context t r \<longrightarrow> numAccepted impl axis < INT_MAX"
proof -
  from updateContextState_step_range [OF ret] have s: "step impl < INT_MAX" .
  from ret have mt:
    "metropolisTrial gen energyOf owner (energyOf context) axis (impl\<lparr>step := 0, random := r\<rparr>, context)
       = Inr (impl', context')"
    by (simp add: updateContextState_due [OF due s] ax)
  from mt show "numAttempted impl axis < INT_MAX"
    and "\<not> rejected gen energyOf owner context t r \<longrightarrow> numAccepted impl axis < INT_MAX"
    unfolding metropolisTrial_result [OF tr] by (auto split: if_splits)
  then have g: "\<not> (\<not> rejected gen energyOf owner context t r \<and> INT_MAX \<le> numAccepted impl axis)"
    "\<not> INT_MAX \<le> numAttempted impl axis"
    by auto
  from mt show "context' = (if rejected gen energyOf owner context t r
                 then restoreContext (periodicBoxVectors context) (scaleContext t context)
                 else scaleContext t context)"
    and "impl' = tune (if rejected gen energyOf owner context t r then newVolume t else volume t) axis
               (impl\<lparr>step := 0,
                     numAccepted := (numAccepted impl)
                        (axis := numAccepted impl axis + (if rejected gen energyOf owner context t r then 0 else 1)),
                     numAttempted := (numAttempted impl)(axis := numAttempted impl axis + 1),
                     random := (if greaterZero (weightOf energyOf owner context t)
                                then snd (genrand_real2 gen (snd (genrand_real2 gen r)))
                                else snd (genrand_real2 gen r))\<rparr>)"
    unfolding metropolisTrial_result [OF tr] by (simp_all only: g if_False sum.inject prod.inject)
qed

text \<open>A call with a trial returns exactly when its increments do not overflow.\<close>

lemma countsInRange_canIncrement: "countsInRange impl axis \<Longrightarrow> canIncrement impl axis b"
  by (simp add: countsInRange_def canIncrement_def)

lemma updateContextState_returns_exact:
  assumes due: "trialDue owner impl"
    and ax: "chooseAxis gen (getXYMode owner) (getZMode owner) (random impl) = Some (axis, r)"
    and tr: "trialOf gen owner impl context axis r = Inr t"
    and rg: "canIncrement impl axis (\<not> rejected gen energyOf owner context t r)"
  shows "updateContextState gen energyOf owner (impl, context) =
     Some (Inr (tune (if rejected gen energyOf owner context t r then newVolume t else volume t) axis
               (impl\<lparr>step := 0,
                     numAccepted := (numAccepted impl)
                        (axis := numAccepted impl axis + (if rejected gen energyOf owner context t r then 0 else 1)),
                     numAttempted := (numAttempted impl)(axis := numAttempted impl axis + 1),
                     random := (if greaterZero (weightOf energyOf owner context t)
                                then snd (genrand_real2 gen (snd (genrand_real2 gen r)))
                                else snd (genrand_real2 gen r))\<rparr>),
             if rejected gen energyOf owner context t r
             then restoreContext (periodicBoxVectors context) (scaleContext t context)
             else scaleContext t context))"
proof -
  from rg have s: "step impl < INT_MAX" and a: "\<not> INT_MAX \<le> numAttempted impl axis"
    and c: "\<not> (\<not> rejected gen energyOf owner context t r \<and> INT_MAX \<le> numAccepted impl axis)"
    by (auto simp add: canIncrement_def)
  show ?thesis
    unfolding updateContextState_due [OF due s] ax
    by (simp only: option.case prod.case metropolisTrial_result [OF tr] a c if_False)
qed

lemma updateContextState_canIncrement:
  assumes ret: "updateContextState gen energyOf owner (impl, context) = Some (Inr (impl', context'))"
    and due: "trialDue owner impl"
    and ax: "chooseAxis gen (getXYMode owner) (getZMode owner) (random impl) = Some (axis, r)"
    and tr: "trialOf gen owner impl context axis r = Inr t"
  shows "canIncrement impl axis (\<not> rejected gen energyOf owner context t r)"
  using updateContextState_step_range [OF ret] updateContextState_trial(3,4) [OF ret due ax tr]
  by (simp add: canIncrement_def)

lemma updateContextState_trial_ex:
  assumes ret: "updateContextState gen energyOf owner (impl, context) = Some (Inr (impl', context'))"
    and due: "trialDue owner impl"
  shows "\<exists>axis r t. chooseAxis gen (getXYMode owner) (getZMode owner) (random impl) = Some (axis, r)
     \<and> trialOf gen owner impl context axis r = Inr t"
proof -
  from updateContextState_step_range [OF ret] have s: "step impl < INT_MAX" .
  from ret due s obtain axis r where
    ax: "chooseAxis gen (getXYMode owner) (getZMode owner) (random impl) = Some (axis, r)"
    and mt: "metropolisTrial gen energyOf owner (energyOf context) axis (impl\<lparr>step := 0, random := r\<rparr>, context)
       = Inr (impl', context')"
    by (auto simp: updateContextState_due split: option.splits)
  obtain u r1 where g1: "genrand_real2 gen r = (u, r1)" by (cases "genrand_real2 gen r")
  from mt g1 obtain t where
    "proposeTrial owner (periodicBoxVectors context) (volumeScale impl axis) axis u = Inr t"
    by (cases "proposeTrial owner (periodicBoxVectors context) (volumeScale impl axis) axis u")
      (simp_all add: metropolisTrial_def)
  with g1 have "trialOf gen owner impl context axis r = Inr t" by (simp add: trialOf_def)
  with ax show ?thesis by blast
qed

lemma restore_neq_scale: "restoreContext box (scaleContext t context) \<noteq> scaleContext t context"
proof
  assume "restoreContext box (scaleContext t context) = scaleContext t context"
  then have "kernelCalls (restoreContext box (scaleContext t context)) = kernelCalls (scaleContext t context)"
    by simp
  then show False by (simp add: restoreContext_def)
qed

subsection \<open>The axis loop\<close>

lemma chooseAxis_Some:
  assumes "chooseAxis gen xy z r = Some y"
  shows "fst y < 3 \<and> (fst y = 2 \<longrightarrow> z = ZFree) \<and> (fst y = 1 \<longrightarrow> xy \<noteq> XYIsotropic)
     \<and> seed (snd y) = seed r \<and> drawn r < drawn (snd y)"
proof (rule chooseAxis.raw_induct [where P = "\<lambda>g xym zm s v.
     fst v < 3 \<and> (fst v = 2 \<longrightarrow> zm = ZFree) \<and> (fst v = 1 \<longrightarrow> xym \<noteq> XYIsotropic)
     \<and> seed (snd v) = seed s \<and> drawn s < drawn (snd v)", OF _ assms])
  fix f :: "(int \<Rightarrow> nat \<Rightarrow> real) \<Rightarrow> XYMode \<Rightarrow> ZMode \<Rightarrow> SFMT \<Rightarrow> (nat \<times> SFMT) option"
    and g xym zm s v
  assume IH: "\<And>g xym zm s v. f g xym zm s = Some v \<Longrightarrow>
     fst v < 3 \<and> (fst v = 2 \<longrightarrow> zm = ZFree) \<and> (fst v = 1 \<longrightarrow> xym \<noteq> XYIsotropic)
     \<and> seed (snd v) = seed s \<and> drawn s < drawn (snd v)"
    and body: "(case genrand_real2 g s of (u, r1) \<Rightarrow>
        if u * 3 < 1 then Some (0, r1)
        else if u * 3 < 2 then Some (if xym = XYIsotropic then 0 else 1, r1)
        else if zm = ZFree then Some (2, r1)
        else f g xym zm r1) = Some v"
  obtain u r1 where gr: "genrand_real2 g s = (u, r1)" by (cases "genrand_real2 g s")
  then have r1: "seed r1 = seed s" "drawn r1 = drawn s + 1"
    by (auto simp: genrand_real2_def)
  show "fst v < 3 \<and> (fst v = 2 \<longrightarrow> zm = ZFree) \<and> (fst v = 1 \<longrightarrow> xym \<noteq> XYIsotropic)
     \<and> seed (snd v) = seed s \<and> drawn s < drawn (snd v)"
  proof (cases "u * 3 < 2 \<or> zm = ZFree")
    case True
    with body gr r1 show ?thesis by (auto split: if_splits)
  next
    case False
    with body gr have "f g xym zm r1 = Some v" by (simp split: if_splits)
    from IH [OF this] r1 show ?thesis by simp
  qed
qed

lemma chooseAxis_returns:
  assumes "gen (seed r) (drawn r + k) * 3 < 2 \<or> z = ZFree"
  shows "\<exists>y. chooseAxis gen xy z r = Some y"
  using assms
proof (induction k arbitrary: r)
  case 0
  then show ?case
    by (subst chooseAxis.simps) (auto simp: genrand_real2_def)
next
  case (Suc k)
  let ?r1 = "r\<lparr>drawn := drawn r + 1\<rparr>"
  from Suc.prems have "gen (seed ?r1) (drawn ?r1 + k) * 3 < 2 \<or> z = ZFree" by simp
  from Suc.IH [OF this] obtain y where "chooseAxis gen xy z ?r1 = Some y" ..
  then show ?case
    by (subst chooseAxis.simps) (auto simp: genrand_real2_def)
qed

lemma chooseAxis_diverges:
  assumes never: "\<forall>n \<ge> drawn r. \<not> gen (seed r) n * 3 < 2" and z: "z \<noteq> ZFree"
  shows "chooseAxis gen xy z r = None"
proof (rule ccontr)
  assume "chooseAxis gen xy z r \<noteq> None"
  then obtain y where y: "chooseAxis gen xy z r = Some y" by auto
  have "(\<forall>n \<ge> drawn r. \<not> gen (seed r) n * 3 < 2) \<longrightarrow> z \<noteq> ZFree \<longrightarrow> False"
  proof (rule chooseAxis.raw_induct [where P = "\<lambda>g xym zm s v.
     (\<forall>n \<ge> drawn s. \<not> g (seed s) n * 3 < 2) \<longrightarrow> zm \<noteq> ZFree \<longrightarrow> False", OF _ y])
    fix f :: "(int \<Rightarrow> nat \<Rightarrow> real) \<Rightarrow> XYMode \<Rightarrow> ZMode \<Rightarrow> SFMT \<Rightarrow> (nat \<times> SFMT) option"
      and g xym zm s v
    assume IH: "\<And>g xym zm s v. f g xym zm s = Some v \<Longrightarrow>
        (\<forall>n \<ge> drawn s. \<not> g (seed s) n * 3 < 2) \<longrightarrow> zm \<noteq> ZFree \<longrightarrow> False"
      and body: "(case genrand_real2 g s of (u, r1) \<Rightarrow>
        if u * 3 < 1 then Some (0, r1)
        else if u * 3 < 2 then Some (if xym = XYIsotropic then 0 else 1, r1)
        else if zm = ZFree then Some (2, r1)
        else f g xym zm r1) = Some v"
    show "(\<forall>n \<ge> drawn s. \<not> g (seed s) n * 3 < 2) \<longrightarrow> zm \<noteq> ZFree \<longrightarrow> False"
    proof (intro impI)
      assume nv: "\<forall>n \<ge> drawn s. \<not> g (seed s) n * 3 < 2" and zf: "zm \<noteq> ZFree"
      let ?r1 = "s\<lparr>drawn := drawn s + 1\<rparr>"
      from nv have a: "\<not> g (seed s) (drawn s) * 3 < 2" by simp
      then have b: "\<not> g (seed s) (drawn s) * 3 < 1" by linarith
      from body a b zf have "f g xym zm ?r1 = Some v"
        by (simp add: genrand_real2_def)
      moreover from nv have "\<forall>n \<ge> drawn ?r1. \<not> g (seed ?r1) n * 3 < 2" by simp
      ultimately show False using IH zf by blast
    qed
  qed
  with never z show False by blast
qed

subsection \<open>The weight and the test of line 123\<close>

lemma greaterZero_cases:
  "greaterZero w = (w = PosInf \<or> (\<exists>x. w = Finite x \<and> 0 < x))"
  by (cases w) simp_all

lemma aboveThreshold_Finite:
  "k \<noteq> 0 \<Longrightarrow> aboveThreshold u (Finite x) k = (exp (- x / k) < u)"
  by (simp add: aboveThreshold_def)

lemma aboveThreshold_Finite_zero:
  "0 < x \<Longrightarrow> aboveThreshold u (Finite x) 0 = (0 < u)"
  by (simp add: aboveThreshold_def)

lemma aboveThreshold_PosInf:
  "0 \<le> k \<Longrightarrow> aboveThreshold u PosInf k = (0 < u)"
  by (simp add: aboveThreshold_def)

lemma metropolisWeight_PosInf:
  assumes "metropolisWeight owner context e0 e1 t = PosInf"
  shows "0 < kT owner \<and> newVolume t / volume t = 0"
proof -
  define l where "l = logDouble (newVolume t / volume t)"
  define c where "c = real (numMolecules context) * kT owner"
  from assms have m: "timesDouble c l = NegInf"
    by (cases "timesDouble c l") (simp_all add: metropolisWeight_def Let_def l_def c_def)
  have ln: "l \<noteq> PosInf" by (simp add: l_def logDouble_def)
  from m ln have "l = NegInf \<and> 0 < c" by (cases l) (simp_all split: if_splits)
  then have "newVolume t / volume t = 0" "0 < c"
    by (simp_all add: l_def logDouble_def split: if_splits)
  moreover from \<open>0 < c\<close> have "0 < kT owner"
    unfolding c_def by (simp add: zero_less_mult_iff)
  ultimately show ?thesis by simp
qed

lemma metropolisWeight_not_NaN:
  assumes "metropolisWeight owner context e0 e1 t \<noteq> NaN"
  shows "0 \<le> newVolume t / volume t"
proof (rule ccontr)
  assume "\<not> 0 \<le> newVolume t / volume t"
  then have "\<not> 0 < newVolume t / volume t" "newVolume t / volume t \<noteq> 0" by linarith+
  then have "logDouble (newVolume t / volume t) = NaN" unfolding logDouble_def by (simp only: if_False)
  then have "metropolisWeight owner context e0 e1 t = NaN"
    by (simp add: metropolisWeight_def Let_def)
  with assms show False by simp
qed

lemma metropolisWeight_positive_ratio:
  "0 < newVolume t / volume t \<Longrightarrow>
   metropolisWeight owner context e0 e1 t =
     Finite (e1 - e0 + pressureParameter context * (AVOGADRO * (1 / 10 ^ 25)) * deltaVolume t
             - surfaceTensionParameter context * (AVOGADRO * (1 / 10 ^ 25)) * deltaArea t
             - real (numMolecules context) * kT owner * ln (newVolume t / volume t))"
  by (simp add: metropolisWeight_def logDouble_def Let_def)

lemma rejected_ratio:
  assumes "rejected gen energyOf owner context t r"
  shows "0 \<le> newVolume t / volume t"
proof -
  from assms have "greaterZero (weightOf energyOf owner context t)" by (simp add: rejected_def)
  then have "weightOf energyOf owner context t \<noteq> NaN" by auto
  then show ?thesis unfolding weightOf_def by (rule metropolisWeight_not_NaN)
qed

lemma rejected_cases:
  "rejected gen energyOf owner context t r =
     (case weightOf energyOf owner context t of
        Finite x \<Rightarrow> 0 < x \<and> (if kT owner \<noteq> 0 then exp (- x / kT owner) < acceptanceVariate gen r
                              else 0 < acceptanceVariate gen r)
      | PosInf \<Rightarrow> 0 < acceptanceVariate gen r
      | NegInf \<Rightarrow> False
      | NaN \<Rightarrow> False)"
proof (cases "weightOf energyOf owner context t")
  case PosInf
  then have "0 < kT owner" using metropolisWeight_PosInf by (simp add: weightOf_def)
  with PosInf show ?thesis by (simp add: rejected_def aboveThreshold_def)
qed (auto simp: rejected_def aboveThreshold_def)

subsection \<open>What one call preserves\<close>

lemma proposeTrial_volume:
  "proposeTrial owner box scale axis u = Inr t \<Longrightarrow> volume t = boxVolume box \<and> boxVolume box \<noteq> 0"
  by (cases box) (auto simp: proposeTrial_def boxVolume_def Let_def split: if_splits)



lemma proposeTrial_newVolume:
  assumes "proposeTrial owner box scale axis u = Inr t"
  shows "newVolume t =
           (if getZMode owner = ConstantVolume then boxVolume box
            else boxVolume box + scale * 2 * (u - 0.5))"
  using assms
  by (cases box) (auto simp: proposeTrial_def boxVolume_def Let_def split: if_splits)


lemma scaleContext_kernelCalls:
  "kernelCalls (scaleContext t context) = kernelCalls context @
     [ScaleCoordinates (vec3_get (lengthScale t) 0) (vec3_get (lengthScale t) 1) (vec3_get (lengthScale t) 2)]"
  by (cases "periodicBoxVectors context") (simp add: scaleContext_def)

lemma restore_scale:
  "restoreContext (periodicBoxVectors context) (scaleContext t context) =
     context\<lparr>kernelCalls := kernelCalls context @
       [ScaleCoordinates (vec3_get (lengthScale t) 0) (vec3_get (lengthScale t) 1) (vec3_get (lengthScale t) 2),
        RestoreCoordinates]\<rparr>"
  by (cases "periodicBoxVectors context") (simp add: restoreContext_def scaleContext_def)

lemma tune_fields:
  "step (tune vol axis impl) = step impl"
  "random (tune vol axis impl) = random impl"
  "j \<noteq> axis \<Longrightarrow> volumeScale (tune vol axis impl) j = volumeScale impl j"
  "j \<noteq> axis \<Longrightarrow> numAttempted (tune vol axis impl) j = numAttempted impl j"
  "j \<noteq> axis \<Longrightarrow> numAccepted (tune vol axis impl) j = numAccepted impl j"
  by (simp_all add: tune_def)

lemma tune_counts_le:
  "numAccepted impl i \<le> numAttempted impl i \<Longrightarrow>
   numAccepted (tune vol axis impl) i \<le> numAttempted (tune vol axis impl) i"
  by (simp add: tune_def)

lemma tune_scale_pos:
  "0 < vol \<Longrightarrow> 0 < volumeScale impl i \<Longrightarrow> 0 < volumeScale (tune vol axis impl) i"
  by (auto simp: tune_def)

lemma tune_scale_nonneg:
  "0 \<le> vol \<Longrightarrow> 0 \<le> volumeScale impl i \<Longrightarrow> 0 \<le> volumeScale (tune vol axis impl) i"
  by (auto simp: tune_def)

lemma runsTo_invariant:
  assumes "runsTo P a b" and "Q a"
    and "\<And>impl owner context gen energyOf impl' context'.
           Q impl \<Longrightarrow> P owner context
           \<Longrightarrow> updateContextState gen energyOf owner (impl, context) = Some (Inr (impl', context'))
           \<Longrightarrow> Q impl'"
  shows "Q b"
  using assms by (induction rule: runsTo.induct) auto

lemma runsWhere_invariant:
  assumes "runsWhere R a b" and "Q a"
    and "\<And>impl owner context gen energyOf impl' context'.
           Q impl \<Longrightarrow> R gen energyOf owner impl context
           \<Longrightarrow> updateContextState gen energyOf owner (impl, context) = Some (Inr (impl', context'))
           \<Longrightarrow> Q impl'"
  shows "Q b"
  using assms by (induction rule: runsWhere.induct) auto

lemma runsTo_runsWhere:
  "runsTo P a b \<Longrightarrow> runsWhere (\<lambda>gen energyOf owner impl context. P owner context) a b"
  by (induction rule: runsTo.induct) (auto intro: runsWhere.intros)

lemma initialize_fields:
  assumes "i < 3"
  shows "volumeScale (fst (initialize osSeed owner (impl, context))) i
           = 0.01 * boxVolume (periodicBoxVectors context)"
    and "numAttempted (fst (initialize osSeed owner (impl, context))) i = 0"
    and "numAccepted (fst (initialize osSeed owner (impl, context))) i = 0"
proof -
  from assms have "i = 0 \<or> i = 1 \<or> i = 2" by auto
  then show "volumeScale (fst (initialize osSeed owner (impl, context))) i
           = 0.01 * boxVolume (periodicBoxVectors context)"
    and "numAttempted (fst (initialize osSeed owner (impl, context))) i = 0"
    and "numAccepted (fst (initialize osSeed owner (impl, context))) i = 0"
    by (auto simp: initialize_def Let_def)
qed

text \<open>The local \<^verbatim>\<open>volume\<close> at line 133 of a returning call that ran a trial.\<close>

lemma tuning_volume:
  assumes tr: "trialOf gen owner impl context axis r = Inr t"
    and box: "0 < boxVolume (periodicBoxVectors context)"
    and vol: "vol = (if rejected gen energyOf owner context t r then newVolume t else volume t)"
  shows "0 \<le> vol" and "newVolume t \<noteq> 0 \<Longrightarrow> 0 < vol"
proof -
  from tr have "volume t = boxVolume (periodicBoxVectors context)"
    using proposeTrial_volume by (simp add: trialOf_def)
  with box have v: "0 < volume t" by simp
  have n: "0 \<le> newVolume t" if "rejected gen energyOf owner context t r"
    using rejected_ratio [OF that] v by (simp add: zero_le_divide_iff)
  show "0 \<le> vol" using v n by (auto simp: vol)
  show "0 < vol" if "newVolume t \<noteq> 0"
    using v n that by (auto simp: vol less_le)
qed

lemma update_counts_le:
  assumes ret: "updateContextState gen energyOf owner (impl, context) = Some (Inr (impl', context'))"
    and le: "numAccepted impl i \<le> numAttempted impl i"
  shows "numAccepted impl' i \<le> numAttempted impl' i"
proof (cases "trialDue owner impl")
  case False
  from updateContextState_idle [OF this updateContextState_step_range [OF ret], of gen energyOf "context"]
    ret le show ?thesis by auto
next
  case True
  from updateContextState_trial_ex [OF ret True] obtain axis r t where
    ax: "chooseAxis gen (getXYMode owner) (getZMode owner) (random impl) = Some (axis, r)"
    and tr: "trialOf gen owner impl context axis r = Inr t" by blast
  define vol where "vol = (if rejected gen energyOf owner context t r then newVolume t else volume t)"
  define mid where "mid = impl\<lparr>step := 0,
       numAccepted := (numAccepted impl)
         (axis := numAccepted impl axis + (if rejected gen energyOf owner context t r then 0 else 1)),
       numAttempted := (numAttempted impl)(axis := numAttempted impl axis + 1),
       random := (if greaterZero (weightOf energyOf owner context t)
                  then snd (genrand_real2 gen (snd (genrand_real2 gen r)))
                  else snd (genrand_real2 gen r))\<rparr>"
  have i: "impl' = tune vol axis mid"
    using updateContextState_trial(2) [OF ret True ax tr] by (simp add: mid_def vol_def)
  have "numAccepted mid i \<le> numAttempted mid i" using le by (auto simp: mid_def)
  then show ?thesis unfolding i by (rule tune_counts_le)
qed

lemma update_scale:
  assumes ret: "updateContextState gen energyOf owner (impl, context) = Some (Inr (impl', context'))"
    and box: "0 < boxVolume (periodicBoxVectors context)"
  shows "0 \<le> volumeScale impl i \<Longrightarrow> 0 \<le> volumeScale impl' i"
    and "\<not> attemptsZeroVolume gen owner impl context \<Longrightarrow> 0 < volumeScale impl i \<Longrightarrow> 0 < volumeScale impl' i"
proof -
  have "(0 \<le> volumeScale impl i \<longrightarrow> 0 \<le> volumeScale impl' i)
      \<and> (\<not> attemptsZeroVolume gen owner impl context \<longrightarrow> 0 < volumeScale impl i \<longrightarrow> 0 < volumeScale impl' i)"
  proof (cases "trialDue owner impl")
    case False
    from updateContextState_idle [OF this updateContextState_step_range [OF ret], of gen energyOf "context"]
      ret show ?thesis by auto
  next
    case True
    from updateContextState_trial_ex [OF ret True] obtain axis r t where
      ax: "chooseAxis gen (getXYMode owner) (getZMode owner) (random impl) = Some (axis, r)"
      and tr: "trialOf gen owner impl context axis r = Inr t" by blast
    define vol where "vol = (if rejected gen energyOf owner context t r then newVolume t else volume t)"
    define mid where "mid = impl\<lparr>step := 0,
         numAccepted := (numAccepted impl)
           (axis := numAccepted impl axis + (if rejected gen energyOf owner context t r then 0 else 1)),
         numAttempted := (numAttempted impl)(axis := numAttempted impl axis + 1),
         random := (if greaterZero (weightOf energyOf owner context t)
                    then snd (genrand_real2 gen (snd (genrand_real2 gen r)))
                    else snd (genrand_real2 gen r))\<rparr>"
    have i: "impl' = tune vol axis mid"
      using updateContextState_trial(2) [OF ret True ax tr] by (simp add: mid_def vol_def)
    have m: "volumeScale mid i = volumeScale impl i" by (simp add: mid_def)
    note tv = tuning_volume [OF tr box vol_def]
    have a: "0 \<le> volumeScale impl' i" if "0 \<le> volumeScale impl i"
      unfolding i using tv(1) that by (intro tune_scale_nonneg) (simp_all add: m)
    have b: "0 < volumeScale impl' i"
      if "\<not> attemptsZeroVolume gen owner impl context" "0 < volumeScale impl i"
    proof -
      from that(1) True ax tr have "newVolume t \<noteq> 0" by (simp add: attemptsZeroVolume_def)
      from tv(2) [OF this] that(2) show ?thesis
        unfolding i by (intro tune_scale_pos) (simp_all add: m)
    qed
    from a b show ?thesis by blast
  qed
  then show "0 \<le> volumeScale impl i \<Longrightarrow> 0 \<le> volumeScale impl' i"
    and "\<not> attemptsZeroVolume gen owner impl context \<Longrightarrow> 0 < volumeScale impl i \<Longrightarrow> 0 < volumeScale impl' i"
    by blast+
qed

lemma update_isotropic_frame:
  assumes ret: "updateContextState gen energyOf owner (impl, context) = Some (Inr (impl', context'))"
    and iso: "getXYMode owner = XYIsotropic"
  shows "volumeScale impl' 1 = volumeScale impl 1 \<and> numAttempted impl' 1 = numAttempted impl 1
       \<and> numAccepted impl' 1 = numAccepted impl 1"
proof (cases "trialDue owner impl")
  case False
  from updateContextState_idle [OF this updateContextState_step_range [OF ret], of gen energyOf "context"]
    ret show ?thesis by auto
next
  case True
  from updateContextState_trial_ex [OF ret True] obtain axis r t where
    ax: "chooseAxis gen (getXYMode owner) (getZMode owner) (random impl) = Some (axis, r)"
    and tr: "trialOf gen owner impl context axis r = Inr t" by blast
  from chooseAxis_Some [OF ax] iso have a: "1 \<noteq> axis" by auto
  note i = updateContextState_trial(2) [OF ret True ax tr]
  show ?thesis
    using a by (simp add: i tune_fields)
qed

subsection \<open>The concrete system, evaluated\<close>

lemma exImpl_eq:
  "exImpl = \<lparr>step = 0,
     volumeScale = (\<lambda>_. - 1)(0 := 27 / 100, 1 := 27 / 100, 2 := 27 / 100),
     numAttempted = (\<lambda>_. 5)(0 := 0, 1 := 0, 2 := 0),
     numAccepted = (\<lambda>_. 9)(0 := 0, 1 := 0, 2 := 0),
     random = exRandom0\<rparr>"
  by (simp add: exImpl_def exRandom0_def initialize_def construct_def exUninitialised_def exOwner_def exContext0_def
      exBox_def boxVolume_def init_gen_rand_def Let_def)

lemma exContext_eq:
  "exContext = \<lparr>periodicBoxVectors = exBox, pressureParameter = 1, surfaceTensionParameter = 0,
                 numMolecules = 10, kernelCalls = [KernelInitialize]\<rparr>"
  by (simp add: exContext_def initialize_def exContext0_def Let_def)

lemma exImpl_range: "countsInRange exImpl 0"
  by (simp add: countsInRange_def exImpl_eq INT_MAX_def)

lemma ex_due: "step impl = 0 \<Longrightarrow> trialDue exOwner impl"
  by (simp add: trialDue_def exOwner_def)

lemma ex_axis:
  "random impl = exRandom0 \<Longrightarrow>
   chooseAxis exGen (getXYMode exOwner) (getZMode exOwner) (random impl) = Some (0, exRandom1)"
  by (simp add: chooseAxis.simps genrand_real2_def exGen_def exRandom0_def exRandom1_def)

lemma ex_trial:
  "volumeScale impl 0 = 27 / 100 \<Longrightarrow> trialOf exGen exOwner impl exContext 0 exRandom1 = Inr exTrial"
  by (simp add: trialOf_def proposeTrial_def genrand_real2_def exGen_def exOwner_def
      exContext_eq exBox_def exTrial_def exRandom1_def Let_def)

lemma ex_weight: "weightOf exEnergy exOwner exContext exTrial = Finite 1000"
  by (simp add: weightOf_def metropolisWeight_def logDouble_def exEnergy_def scaleContext_def
      exContext_eq exBox_def exTrial_def Let_def)

lemma kT_exOwner: "kT exOwner = 124717668179229 / 50000000000000"
  by (simp add: kT_def BOLTZ_def RGAS_def BOLTZMANN_def AVOGADRO_def exOwner_def)

lemma ex_variate: "acceptanceVariate exGen exRandom1 = 9 / 10"
  by (simp add: acceptanceVariate_def genrand_real2_def exGen_def exRandom1_def)

lemma exp_minus_bound: "0 \<le> x \<Longrightarrow> exp (- x) \<le> 1 / (1 + x)" for x :: real
proof -
  assume x: "0 \<le> x"
  have "1 + x \<le> exp x" by (rule exp_ge_add_one_self)
  then have "1 / exp x \<le> 1 / (1 + x)" using x by (intro divide_left_mono) auto
  then show ?thesis by (simp add: exp_minus inverse_eq_divide)
qed

text \<open>A weight of at least 999 kJ/mol at 300 K: the threshold is below 1/2.\<close>

lemma threshold_small:
  assumes "999 \<le> x"
  shows "exp (- x / kT exOwner) < 1 / 2"
proof -
  have k: "0 < kT exOwner" by (simp add: kT_exOwner)
  from assms k have "999 / kT exOwner \<le> x / kT exOwner" by (simp add: divide_right_mono)
  moreover have "(1::real) < 999 / kT exOwner" by (simp add: kT_exOwner)
  ultimately have b: "1 < x / kT exOwner" by linarith
  then have "exp (- (x / kT exOwner)) \<le> 1 / (1 + x / kT exOwner)"
    by (intro exp_minus_bound) simp
  also from b have "\<dots> < 1 / 2" by (simp add: field_simps)
  finally show ?thesis by simp
qed

lemma ex_rejected: "rejected exGen exEnergy exOwner exContext exTrial exRandom1"
proof -
  have "exp (- 1000 / kT exOwner) < 1 / 2" by (rule threshold_small) simp
  then have "exp (- 1000 / kT exOwner) < 9 / 10" by simp
  moreover have "kT exOwner \<noteq> 0" by (simp add: kT_exOwner)
  ultimately show ?thesis
    by (simp add: rejected_def ex_weight ex_variate aboveThreshold_Finite)
qed

lemma ex_rejected_context:
  "restoreContext (periodicBoxVectors exContext) (scaleContext exTrial exContext) = exRejectedContext"
  by (simp add: restoreContext_def scaleContext_def exContext_eq exBox_def exTrial_def exRejectedContext_def)

lemma ex_random3: "snd (genrand_real2 exGen (snd (genrand_real2 exGen exRandom1))) = exRandom3"
  by (simp add: genrand_real2_def exRandom1_def exRandom3_def)

lemma exImpl_update_rejected:
  "updateContextState exGen exEnergy exOwner (exImpl, exContext) = Some (Inr (exRejectedImpl, exRejectedContext))"
proof -
  have s: "step exImpl = 0" and r: "random exImpl = exRandom0" and v: "volumeScale exImpl 0 = 27 / 100"
    by (simp_all add: exImpl_eq)
  have g: "greaterZero (Finite 1000)" by simp
  have t: "tune 27 0 (exImpl\<lparr>step := 0,
                     numAccepted := (numAccepted exImpl)(0 := numAccepted exImpl 0 + 0),
                     numAttempted := (numAttempted exImpl)(0 := numAttempted exImpl 0 + 1),
                     random := exRandom3\<rparr>) = exRejectedImpl"
    by (simp add: tune_def exRejectedImpl_def exImpl_eq fun_eq_iff)
  have n: "newVolume exTrial = 27" by (simp add: exTrial_def)
  show ?thesis
    using updateContextState_returns [OF ex_due [OF s] ex_axis [OF r] ex_trial [OF v] exImpl_range,
        of exEnergy]
    by (simp only: ex_rejected if_True ex_rejected_context ex_weight g ex_random3 n t)
qed

lemma exCV_due: "step impl = 0 \<Longrightarrow> trialDue exOwnerCV impl"
  by (simp add: trialDue_def exOwnerCV_def exOwner_def)

lemma exCV_axis:
  "random impl = exRandom0 \<Longrightarrow>
   chooseAxis exGenLow (getXYMode exOwnerCV) (getZMode exOwnerCV) (random impl) = Some (0, exRandom1)"
  by (simp add: chooseAxis.simps genrand_real2_def exGenLow_def exRandom0_def exRandom1_def)

lemma exCV_trial:
  "volumeScale impl 0 = 27 / 100 \<Longrightarrow> trialOf exGenLow exOwnerCV impl exContext 0 exRandom1 = Inr exTrialCV"
  by (simp only: trialOf_def)
    (simp add: proposeTrial_def genrand_real2_def exGenLow_def exOwnerCV_def exOwner_def
      exContext_eq exBox_def exTrialCV_def exRandom1_def Let_def)

lemma exCV_weight: "weightOf exEnergyFlat exOwnerCV exContext exTrialCV = Finite 0"
  by (simp add: weightOf_def metropolisWeight_def logDouble_def exEnergyFlat_def exContext_eq
      exTrialCV_def Let_def)

lemma exCV_scaled: "scaleContext exTrialCV exContext = exAcceptedContextCV"
  by (simp add: scaleContext_def exContext_eq exBox_def exTrialCV_def exAcceptedContextCV_def)

lemma exCV_update:
  "updateContextState exGenLow exEnergyFlat exOwnerCV (exImpl, exContext)
     = Some (Inr (exAcceptedImpl, exAcceptedContextCV))"
proof -
  have s: "step exImpl = 0" and r: "random exImpl = exRandom0" and v: "volumeScale exImpl 0 = 27 / 100"
    by (simp_all add: exImpl_eq)
  have nr: "\<not> rejected exGenLow exEnergyFlat exOwnerCV exContext exTrialCV exRandom1"
    by (simp add: rejected_def exCV_weight)
  have g: "\<not> greaterZero (Finite 0)" by simp
  have r2: "snd (genrand_real2 exGenLow exRandom1) = exRandom2"
    by (simp add: genrand_real2_def exRandom1_def exRandom2_def)
  have t: "tune 27 0 (exImpl\<lparr>step := 0,
                     numAccepted := (numAccepted exImpl)(0 := numAccepted exImpl 0 + 1),
                     numAttempted := (numAttempted exImpl)(0 := numAttempted exImpl 0 + 1),
                     random := exRandom2\<rparr>) = exAcceptedImpl"
    by (simp add: tune_def exAcceptedImpl_def exImpl_eq fun_eq_iff)
  have n: "volume exTrialCV = 27" by (simp add: exTrialCV_def)
  show ?thesis
    using updateContextState_returns [OF exCV_due [OF s] exCV_axis [OF r] exCV_trial [OF v] exImpl_range,
        of exEnergyFlat]
    by (simp only: nr if_False exCV_scaled exCV_weight g r2 n t)
qed









lemma exCounts_fields:
  "step (exCounts k a d) = 0"
  "volumeScale (exCounts k a d) = volumeScale exImpl"
  "volumeScale exImpl 0 = 27 / 100"
  "numAttempted (exCounts k a d) 0 = k"
  "numAccepted (exCounts k a d) 0 = a"
  "random (exCounts k a d) = \<lparr>seed = 42, drawn = d\<rparr>"
  by (simp_all add: exCounts_def exImpl_eq)

lemma exCounts_range: "k < 100 \<Longrightarrow> a < 100 \<Longrightarrow> countsInRange (exCounts k a d) 0"
  by (simp add: countsInRange_def exCounts_fields INT_MAX_def)

lemma exImpl_exCounts: "exImpl = exCounts 0 0 0"
  by (simp add: exCounts_def exImpl_eq exRandom0_def fun_eq_iff)

lemma iso_due: "step impl = 0 \<Longrightarrow> trialDue exOwnerIso impl"
  by (simp add: trialDue_def exOwnerIso_def exOwner_def)

lemma iso_axis:
  "chooseAxis exGenHalf (getXYMode exOwnerIso) (getZMode exOwnerIso) r = Some (0, r\<lparr>drawn := drawn r + 1\<rparr>)"
  by (simp add: chooseAxis.simps genrand_real2_def exGenHalf_def exOwnerIso_def)

lemma iso_trial:
  "volumeScale impl 0 = 27 / 100 \<Longrightarrow> trialOf exGenHalf exOwnerIso impl exContext 0 r = Inr exTrial"
  by (simp add: trialOf_def proposeTrial_def genrand_real2_def exGenHalf_def exOwnerIso_def
      exContext_eq exBox_def exTrial_def Let_def)

lemma iso_scaled: "scaleContext exTrial exContext = exScaledContext"
  by (simp add: scaleContext_def exContext_eq exBox_def exTrial_def exScaledContext_def)

lemma iso_restored: "restoreContext (periodicBoxVectors exContext) exScaledContext = exRejectedContext"
  by (simp add: restoreContext_def exContext_eq exScaledContext_def exRejectedContext_def)

lemma iso_weight: "weightOf exEnergy exOwnerIso exContext exTrial = Finite 1000"
  by (simp add: weightOf_def metropolisWeight_def logDouble_def exEnergy_def scaleContext_def
      exContext_eq exBox_def exTrial_def Let_def)

lemma iso_weight_flat: "weightOf exEnergyFlat exOwnerIso exContext exTrial = Finite 0"
  by (simp add: weightOf_def metropolisWeight_def logDouble_def exEnergyFlat_def exTrial_def Let_def)

lemma iso_weight_step: "weightOf exEnergyStep exOwnerIso exContext exTrial = Finite 1"
  by (simp add: weightOf_def metropolisWeight_def logDouble_def exEnergyStep_def scaleContext_def
      exContext_eq exBox_def exTrial_def Let_def)

lemma kT_exOwnerIso: "kT exOwnerIso = kT exOwner"
  by (simp add: kT_def exOwnerIso_def)

lemma iso_variate: "acceptanceVariate exGenHalf r = 1 / 2"
  by (simp add: acceptanceVariate_def genrand_real2_def exGenHalf_def)

lemma iso_rejected: "rejected exGenHalf exEnergy exOwnerIso exContext exTrial r"
proof -
  have "exp (- 1000 / kT exOwner) < 1 / 2" by (rule threshold_small) simp
  moreover have "kT exOwner \<noteq> 0" by (simp add: kT_exOwner)
  ultimately show ?thesis
    by (simp add: rejected_def iso_weight iso_variate kT_exOwnerIso aboveThreshold_Finite)
qed

lemma iso_not_rejected: "\<not> rejected exGenHalf exEnergyFlat exOwnerIso exContext exTrial r"
  by (simp add: rejected_def iso_weight_flat)

text \<open>A weight of 1 kJ/mol at 300 K: the threshold is above 1/2.\<close>

lemma threshold_step: "1 / 2 \<le> exp (- 1 / kT exOwner)"
proof -
  have "(1::real) / 2 \<le> 1 + (- 1 / kT exOwner)" by (simp add: kT_exOwner)
  also have "\<dots> \<le> exp (- 1 / kT exOwner)" by (rule exp_ge_add_one_self)
  finally show ?thesis .
qed

lemma iso_step_not_rejected: "\<not> rejected exGenHalf exEnergyStep exOwnerIso exContext exTrial r"
proof -
  have "kT exOwner \<noteq> 0" by (simp add: kT_exOwner)
  with threshold_step show ?thesis
    by (simp add: rejected_def iso_weight_step iso_variate kT_exOwnerIso aboveThreshold_Finite
        not_less)
qed

text \<open>A rejected and an accepted call on \<open>exCounts\<close>, before the tuning.\<close>

lemma iso_update_rejected:
  assumes "k < 100" "a < 100"
  shows "updateContextState exGenHalf exEnergy exOwnerIso (exCounts k a d, exContext) =
     Some (Inr (tune 27 0 (exCounts (k + 1) a (d + 3)), exRejectedContext))"
proof -
  have v: "volumeScale (exCounts k a d) 0 = 27 / 100" by (simp add: exCounts_fields)
  have e: "exCounts k a d\<lparr>step := 0,
             numAccepted := (numAccepted (exCounts k a d))(0 := numAccepted (exCounts k a d) 0 + 0),
             numAttempted := (numAttempted (exCounts k a d))(0 := numAttempted (exCounts k a d) 0 + 1),
             random := snd (genrand_real2 exGenHalf (snd (genrand_real2 exGenHalf
                         (random (exCounts k a d)\<lparr>drawn := drawn (random (exCounts k a d)) + 1\<rparr>))))\<rparr>
           = exCounts (k + 1) a (d + 3)"
    by (simp add: exCounts_def exImpl_eq fun_eq_iff genrand_real2_def)
  have n: "newVolume exTrial = 27" by (simp add: exTrial_def)
  have g: "greaterZero (Finite 1000)" by simp
  show ?thesis
    using updateContextState_returns [OF iso_due [OF exCounts_fields(1)]
        iso_axis [of "random (exCounts k a d)"] iso_trial [OF v] exCounts_range [OF assms], of exEnergy]
    by (simp only: iso_rejected if_True iso_scaled iso_restored iso_weight g e n)
qed

lemma iso_update_accepted:
  assumes "k < 100" "a < 100"
  shows "updateContextState exGenHalf exEnergyFlat exOwnerIso (exCounts k a d, exContext) =
     Some (Inr (tune 27 0 (exCounts (k + 1) (a + 1) (d + 2)), exScaledContext))"
proof -
  have v: "volumeScale (exCounts k a d) 0 = 27 / 100" by (simp add: exCounts_fields)
  have e: "exCounts k a d\<lparr>step := 0,
             numAccepted := (numAccepted (exCounts k a d))(0 := numAccepted (exCounts k a d) 0 + 1),
             numAttempted := (numAttempted (exCounts k a d))(0 := numAttempted (exCounts k a d) 0 + 1),
             random := snd (genrand_real2 exGenHalf
                         (random (exCounts k a d)\<lparr>drawn := drawn (random (exCounts k a d)) + 1\<rparr>))\<rparr>
           = exCounts (k + 1) (a + 1) (d + 2)"
    by (simp add: exCounts_def exImpl_eq fun_eq_iff genrand_real2_def)
  have n: "volume exTrial = 27" by (simp add: exTrial_def)
  have g: "\<not> greaterZero (Finite 0)" by simp
  show ?thesis
    using updateContextState_returns [OF iso_due [OF exCounts_fields(1)]
        iso_axis [of "random (exCounts k a d)"] iso_trial [OF v] exCounts_range [OF assms], of exEnergyFlat]
    by (simp only: iso_not_rejected if_False iso_scaled iso_weight_flat g e n)
qed

text \<open>A call accepted although its weight is positive.\<close>

lemma iso_update_step:
  "updateContextState exGenHalf exEnergyStep exOwnerIso (exImpl, exContext) =
     Some (Inr (exCounts 1 1 3, exScaledContext))"
proof -
  have v: "volumeScale (exCounts 0 0 0) 0 = 27 / 100" by (simp add: exCounts_fields)
  have e: "exCounts 0 0 0\<lparr>step := 0,
             numAccepted := (numAccepted (exCounts 0 0 0))(0 := numAccepted (exCounts 0 0 0) 0 + 1),
             numAttempted := (numAttempted (exCounts 0 0 0))(0 := numAttempted (exCounts 0 0 0) 0 + 1),
             random := snd (genrand_real2 exGenHalf (snd (genrand_real2 exGenHalf
                         (random (exCounts 0 0 0)\<lparr>drawn := drawn (random (exCounts 0 0 0)) + 1\<rparr>))))\<rparr>
           = exCounts 1 1 3"
    by (simp add: exCounts_def exImpl_eq fun_eq_iff genrand_real2_def)
  have n: "volume exTrial = 27" by (simp add: exTrial_def)
  have g: "greaterZero (Finite 1)" by simp
  have t: "tune 27 0 (exCounts 1 1 3) = exCounts 1 1 3" by (simp add: tune_def exCounts_fields)
  have rg: "countsInRange (exCounts 0 0 0) 0" by (rule exCounts_range) simp_all
  show ?thesis
    unfolding exImpl_exCounts
    using updateContextState_returns [OF iso_due [OF exCounts_fields(1)]
        iso_axis [of "random (exCounts 0 0 0)"] iso_trial [OF v] rg, of exEnergyStep]
    by (simp only: iso_step_not_rejected if_False if_True iso_scaled iso_weight_step g e n t)
qed

lemma tune_exCounts_keep:
  "k < 10 \<or> (a * 4 \<ge> k \<and> a * 4 \<le> 3 * k) \<Longrightarrow> tune vol 0 (exCounts k a d) = exCounts k a d"
  by (auto simp: tune_def exCounts_fields)

lemma ex_reach:
  assumes P: "P exOwnerIso exContext"
  shows "k \<le> 12 \<Longrightarrow>
   runsTo P exImpl (exCounts (int k) (max 0 (int k - 3)) (if k \<le> 3 then 3 * k else 2 * k + 3))"
proof (induction k)
  case 0
  show ?case by (simp add: exImpl_exCounts [symmetric] runsTo.start)
next
  case (Suc k)
  then have IH: "runsTo P exImpl
      (exCounts (int k) (max 0 (int k - 3)) (if k \<le> 3 then 3 * k else 2 * k + 3))"
    by simp
  from Suc.prems have b: "int k < 100" "max 0 (int k - 3) < 100" by simp_all
  show ?case
  proof (cases "k < 3")
    case True
    have "tune 27 0 (exCounts (int k + 1) (max 0 (int k - 3)) ((if k \<le> 3 then 3 * k else 2 * k + 3) + 3))
        = exCounts (int k + 1) (max 0 (int k - 3)) ((if k \<le> 3 then 3 * k else 2 * k + 3) + 3)"
      using True by (intro tune_exCounts_keep) simp
    with iso_update_rejected [OF b, of "if k \<le> 3 then 3 * k else 2 * k + 3"]
    have "updateContextState exGenHalf exEnergy exOwnerIso
        (exCounts (int k) (max 0 (int k - 3)) (if k \<le> 3 then 3 * k else 2 * k + 3), exContext)
      = Some (Inr (exCounts (int (Suc k)) (max 0 (int (Suc k) - 3)) (if Suc k \<le> 3 then 3 * Suc k else 2 * Suc k + 3),
                   exRejectedContext))"
      using True by (simp add: algebra_simps)
    from runsTo.call [OF IH P this] show ?thesis by simp
  next
    case False
    have "tune 27 0 (exCounts (int k + 1) (max 0 (int k - 3) + 1) ((if k \<le> 3 then 3 * k else 2 * k + 3) + 2))
        = exCounts (int k + 1) (max 0 (int k - 3) + 1) ((if k \<le> 3 then 3 * k else 2 * k + 3) + 2)"
      using False Suc.prems by (intro tune_exCounts_keep) simp
    with iso_update_accepted [OF b, of "if k \<le> 3 then 3 * k else 2 * k + 3"]
    have "updateContextState exGenHalf exEnergyFlat exOwnerIso
        (exCounts (int k) (max 0 (int k - 3)) (if k \<le> 3 then 3 * k else 2 * k + 3), exContext)
      = Some (Inr (exCounts (int (Suc k)) (max 0 (int (Suc k) - 3)) (if Suc k \<le> 3 then 3 * Suc k else 2 * Suc k + 3),
                   exScaledContext))"
      using False by (auto simp: algebra_simps max_def)
    from runsTo.call [OF IH P this] show ?thesis by simp
  qed
qed

lemma tune_shrinks: "tune 27 0 (exCounts 10 1 3) = exShrunkImpl"
  by (simp add: tune_def exCounts_fields exShrunkImpl_def)
    (simp add: exCounts_def exImpl_eq fun_eq_iff)

lemma tune_grows: "tune 27 0 (exCounts 13 10 29) = exGrownImpl"
  by (simp add: tune_def exCounts_fields exGrownImpl_def)
    (simp add: exCounts_def exImpl_eq fun_eq_iff)

lemma ex_reach_12_9: "P exOwnerIso exContext \<Longrightarrow> runsTo P exImpl (exCounts 12 9 27)"
  using ex_reach [of P 12] by simp

lemma iso_update_grown:
  "updateContextState exGenHalf exEnergyFlat exOwnerIso (exCounts 12 9 27, exContext)
     = Some (Inr (exGrownImpl, exScaledContext))"
  using iso_update_accepted [of 12 9 27] by (simp add: tune_grows)

lemma iso_update_shrunk:
  "updateContextState exGenHalf exEnergy exOwnerIso (exCounts 9 1 0, exContext)
     = Some (Inr (exShrunkImpl, exRejectedContext))"
  using iso_update_rejected [of 9 1 0] by (simp add: tune_shrinks)

lemma iso_update_first:
  "updateContextState exGenHalf exEnergyFlat exOwnerIso (exCounts 0 0 0, exContext)
     = Some (Inr (exCounts 1 1 2, exScaledContext))"
proof -
  have "tune 27 0 (exCounts 1 1 2) = exCounts 1 1 2" by (intro tune_exCounts_keep) simp
  with iso_update_accepted [of 0 0 0] show ?thesis by (simp add: numeral_2_eq_2)
qed

lemma iso_update_kept:
  "updateContextState exGenHalf exEnergyFlat exOwnerIso (exCounts 9 6 21, exContext)
     = Some (Inr (exCounts 10 7 23, exScaledContext))"
  using iso_update_accepted [of 9 6 21] by (simp add: tune_exCounts_keep)

lemma ex_reach_grown:
  assumes P: "P exOwnerIso exContext"
  shows "runsTo P exImpl exGrownImpl"
  using runsTo.call [OF ex_reach_12_9 [of P, OF P] P iso_update_grown] .

subsection \<open>The barostat with the wide amplitude, evaluated\<close>

lemma exWideImpl_eq:
  "exWideImpl = \<lparr>step = 0,
     volumeScale = (\<lambda>_. - 1)(0 := 8, 1 := 8, 2 := 8),
     numAttempted = (\<lambda>_. 5)(0 := 0, 1 := 0, 2 := 0),
     numAccepted = (\<lambda>_. 9)(0 := 0, 1 := 0, 2 := 0),
     random = exRandom0\<rparr>"
  by (simp add: exWideImpl_def exRandom0_def initialize_def construct_def exUninitialised_def exOwner_def
      exWideContext0_def exWideBox_def boxVolume_def init_gen_rand_def Let_def)

lemma exWideContext_eq:
  "exWideContext = \<lparr>periodicBoxVectors = exWideBox, pressureParameter = 1, surfaceTensionParameter = 0,
                     numMolecules = 10, kernelCalls = [KernelInitialize]\<rparr>"
  by (simp add: exWideContext_def initialize_def exWideContext0_def Let_def)

lemma exWideCounts_fields:
  "step (exWideCounts k a d) = 0"
  "volumeScale (exWideCounts k a d) = volumeScale exWideImpl"
  "volumeScale exWideImpl 0 = 8"
  "numAttempted (exWideCounts k a d) 0 = k"
  "numAccepted (exWideCounts k a d) 0 = a"
  "random (exWideCounts k a d) = \<lparr>seed = 42, drawn = d\<rparr>"
  by (simp_all add: exWideCounts_def exWideImpl_eq)

lemma exWideCounts_range: "k < 100 \<Longrightarrow> a < 100 \<Longrightarrow> countsInRange (exWideCounts k a d) 0"
  by (simp add: countsInRange_def exWideCounts_fields INT_MAX_def)

lemma exWideImpl_exWideCounts: "exWideImpl = exWideCounts 0 0 0"
  by (simp add: exWideCounts_def exWideImpl_eq exRandom0_def fun_eq_iff)

lemma exWideTuned_fields:
  "volumeScale (exWideTuned d v) 0 = v"
  "numAttempted (exWideTuned d v) 0 = 0"
  "numAccepted (exWideTuned d v) 0 = 0"
  by (simp_all add: exWideTuned_def exWideCounts_fields)

text \<open>The first nine calls: no volume change, accepted.\<close>

lemma wide_axis:
  "even d \<Longrightarrow> d < 19 \<Longrightarrow>
   chooseAxis exGenShrink (getXYMode exOwner) (getZMode exOwner) \<lparr>seed = 42, drawn = d\<rparr>
     = Some (0, \<lparr>seed = 42, drawn = d + 1\<rparr>)"
  by (auto simp add: chooseAxis.simps genrand_real2_def exGenShrink_def)

lemma wide_flat_trial:
  "volumeScale impl 0 = 8 \<Longrightarrow> odd d \<Longrightarrow> d < 19 \<Longrightarrow>
   trialOf exGenShrink exOwner impl exWideContext 0 \<lparr>seed = 42, drawn = d\<rparr> = Inr exWideFlatTrial"
  by (simp add: trialOf_def proposeTrial_def genrand_real2_def exGenShrink_def exOwner_def
      exWideContext_eq exWideBox_def exWideFlatTrial_def Let_def)

lemma wide_flat_weight: "weightOf exEnergyFlat exOwner exWideContext exWideFlatTrial = Finite 0"
  by (simp add: weightOf_def metropolisWeight_def logDouble_def exEnergyFlat_def exWideFlatTrial_def Let_def)

lemma wide_flat_not_rejected: "\<not> rejected gen exEnergyFlat exOwner exWideContext exWideFlatTrial r"
  by (simp add: rejected_def wide_flat_weight)

lemma wide_flat_scaled: "scaleContext exWideFlatTrial exWideContext = exWideScaledContext"
  by (simp add: scaleContext_def exWideContext_eq exWideBox_def exWideFlatTrial_def exWideScaledContext_def)

lemma wide_update_flat:
  assumes "k < 9"
  shows "updateContextState exGenShrink exEnergyFlat exOwner (exWideCounts (int k) (int k) (2 * k), exWideContext) =
     Some (Inr (exWideCounts (int (Suc k)) (int (Suc k)) (2 * Suc k), exWideScaledContext))"
proof -
  let ?s = "exWideCounts (int k) (int k) (2 * k)"
  have v: "volumeScale ?s 0 = 8" by (simp add: exWideCounts_fields)
  have rg: "countsInRange ?s 0" using assms by (intro exWideCounts_range) simp_all
  have ax: "chooseAxis exGenShrink (getXYMode exOwner) (getZMode exOwner) (random ?s)
      = Some (0, \<lparr>seed = 42, drawn = 2 * k + 1\<rparr>)"
    unfolding exWideCounts_fields using assms by (intro wide_axis) simp_all
  have tr: "trialOf exGenShrink exOwner ?s exWideContext 0 \<lparr>seed = 42, drawn = 2 * k + 1\<rparr> = Inr exWideFlatTrial"
    using v assms by (intro wide_flat_trial) simp_all
  have e: "?s\<lparr>step := 0,
             numAccepted := (numAccepted ?s)(0 := numAccepted ?s 0 + 1),
             numAttempted := (numAttempted ?s)(0 := numAttempted ?s 0 + 1),
             random := snd (genrand_real2 exGenShrink \<lparr>seed = 42, drawn = 2 * k + 1\<rparr>)\<rparr>
           = exWideCounts (int (Suc k)) (int (Suc k)) (2 * Suc k)"
    by (simp add: exWideCounts_def exWideImpl_eq fun_eq_iff genrand_real2_def)
  have n: "volume exWideFlatTrial = 800" by (simp add: exWideFlatTrial_def)
  have g: "\<not> greaterZero (Finite 0)" by simp
  have t: "tune 800 0 (exWideCounts (int (Suc k)) (int (Suc k)) (2 * Suc k))
      = exWideCounts (int (Suc k)) (int (Suc k)) (2 * Suc k)"
    using assms by (simp add: tune_def exWideCounts_fields)
  show ?thesis
    using updateContextState_returns [OF ex_due [OF exWideCounts_fields(1)] ax tr rg, of exEnergyFlat]
    by (simp only: wide_flat_not_rejected if_False wide_flat_scaled wide_flat_weight g e n t)
qed

lemma wide_flat_nonzero:
  assumes "k < 9"
  shows "\<not> attemptsZeroVolume exGenShrink exOwner (exWideCounts (int k) (int k) (2 * k)) exWideContext"
proof -
  let ?s = "exWideCounts (int k) (int k) (2 * k)"
  have v: "volumeScale ?s 0 = 8" by (simp add: exWideCounts_fields)
  have ax: "chooseAxis exGenShrink (getXYMode exOwner) (getZMode exOwner) (random ?s)
      = Some (0, \<lparr>seed = 42, drawn = 2 * k + 1\<rparr>)"
    unfolding exWideCounts_fields using assms by (intro wide_axis) simp_all
  have tr: "trialOf exGenShrink exOwner ?s exWideContext 0 \<lparr>seed = 42, drawn = 2 * k + 1\<rparr> = Inr exWideFlatTrial"
    using v assms by (intro wide_flat_trial) simp_all
  show ?thesis
    by (simp only: attemptsZeroVolume_def ax option.case prod.case tr sum.case)
      (simp add: exWideFlatTrial_def)
qed

lemma wide_reach:
  assumes R: "\<And>k. k < 9 \<Longrightarrow> R exGenShrink exEnergyFlat exOwner (exWideCounts (int k) (int k) (2 * k)) exWideContext"
  shows "k \<le> 9 \<Longrightarrow> runsWhere R exWideImpl (exWideCounts (int k) (int k) (2 * k))"
proof (induction k)
  case 0
  show ?case by (simp add: exWideImpl_exWideCounts [symmetric] runsWhere.start)
next
  case (Suc k)
  then have IH: "runsWhere R exWideImpl (exWideCounts (int k) (int k) (2 * k))" and k: "k < 9"
    by simp_all
  from runsWhere.call [OF IH R [OF k] wide_update_flat [OF k]] show ?case .
qed

lemma wide_reach_9:
  assumes R: "\<And>k. k < 9 \<Longrightarrow> R exGenShrink exEnergyFlat exOwner (exWideCounts (int k) (int k) (2 * k)) exWideContext"
  shows "runsWhere R exWideImpl (exWideCounts 9 9 18)"
  using wide_reach [of R 9, OF R] by simp

text \<open>The tenth call, on the cube of 3 nm.\<close>

lemma wide_axis_18:
  "chooseAxis exGenShrink (getXYMode exOwner) (getZMode exOwner) (random (exWideCounts 9 9 18))
     = Some (0, \<lparr>seed = 42, drawn = 19\<rparr>)"
  unfolding exWideCounts_fields using wide_axis [of 18] by simp

lemma wide_trial:
  "trialOf exGenShrink exOwner (exWideCounts 9 9 18) exContext 0 \<lparr>seed = 42, drawn = 19\<rparr> = Inr exWideTrial"
  by (simp add: trialOf_def proposeTrial_def genrand_real2_def exGenShrink_def exOwner_def
      exContext_eq exBox_def exWideTrial_def exWideCounts_fields Let_def)

lemma wide_variate: "acceptanceVariate exGenShrink \<lparr>seed = 42, drawn = 19\<rparr> = 9 / 10"
  by (simp add: acceptanceVariate_def genrand_real2_def exGenShrink_def)

lemma wide_scaled: "scaleContext exWideTrial exContext = exWideAcceptedContext"
  by (simp add: scaleContext_def exContext_eq exBox_def exWideTrial_def exWideAcceptedContext_def)

lemma wide_restored: "restoreContext (periodicBoxVectors exContext) exWideAcceptedContext = exWideRejectedContext"
  by (simp add: restoreContext_def exContext_eq exWideAcceptedContext_def exWideRejectedContext_def)

lemma wide_weight:
  "weightOf energyOf exOwner exContext exWideTrial =
     Finite (energyOf exWideAcceptedContext - energyOf exContext - 60221367 / 125000000
             - 10 * kT exOwner * ln (19 / 27))"
proof -
  have pos: "0 < newVolume exWideTrial / volume exWideTrial" by (simp add: exWideTrial_def)
  have w: "weightOf energyOf exOwner exContext exWideTrial =
      metropolisWeight exOwner exContext (energyOf exContext) (energyOf exWideAcceptedContext) exWideTrial"
    by (simp only: weightOf_def wide_scaled)
  show ?thesis
    unfolding w metropolisWeight_positive_ratio [OF pos]
    by (simp add: exContext_eq exWideTrial_def AVOGADRO_def)
qed

lemma ln_19_27: "- (8 / 19) \<le> ln (19 / 27 :: real)" "ln (19 / 27 :: real) \<le> 0"
proof -
  have "ln (1 + 8 / 19 :: real) \<le> 8 / 19" by (rule ln_add_one_self_le_self) simp
  moreover have "ln (19 / 27 :: real) = - ln (27 / 19)"
    by (simp add: ln_div)
  ultimately show "- (8 / 19) \<le> ln (19 / 27 :: real)" by simp
  show "ln (19 / 27 :: real) \<le> 0" by simp
qed

lemma wide_weight_up:
  "\<exists>x. weightOf exEnergy exOwner exContext exWideTrial = Finite x \<and> 999 \<le> x"
proof -
  have k: "0 < kT exOwner" by (simp add: kT_exOwner)
  with ln_19_27(2) have "10 * kT exOwner * ln (19 / 27) \<le> 0"
    by (simp add: mult_le_0_iff)
  then have "999 \<le> exEnergy exWideAcceptedContext - exEnergy exContext - 60221367 / 125000000
             - 10 * kT exOwner * ln (19 / 27)"
    by (simp add: exEnergy_def exWideAcceptedContext_def exContext_eq)
  then show ?thesis by (simp add: wide_weight)
qed

lemma wide_weight_down:
  "\<exists>x. weightOf exEnergyDrop exOwner exContext exWideTrial = Finite x \<and> x \<le> 0"
proof -
  have k: "0 < kT exOwner" "kT exOwner \<le> 3" by (simp_all add: kT_exOwner)
  from ln_19_27(1) have "- ln (19 / 27 :: real) \<le> 8 / 19" by simp
  with k have "10 * kT exOwner * (- ln (19 / 27)) \<le> 10 * 3 * (8 / 19)"
    by (intro mult_mono) simp_all
  then have "exEnergyDrop exWideAcceptedContext - exEnergyDrop exContext - 60221367 / 125000000
             - 10 * kT exOwner * ln (19 / 27) \<le> 0"
    by (simp add: exEnergyDrop_def exWideAcceptedContext_def exContext_eq)
  then show ?thesis by (simp add: wide_weight)
qed

lemma wide_rejected: "rejected exGenShrink exEnergy exOwner exContext exWideTrial \<lparr>seed = 42, drawn = 19\<rparr>"
proof -
  from wide_weight_up obtain x where
    w: "weightOf exEnergy exOwner exContext exWideTrial = Finite x" and x: "999 \<le> x" by blast
  have "exp (- x / kT exOwner) < 1 / 2" using x by (rule threshold_small)
  then have "exp (- x / kT exOwner) < 9 / 10" by simp
  moreover have "kT exOwner \<noteq> 0" by (simp add: kT_exOwner)
  ultimately show ?thesis
    using x by (simp add: rejected_def w wide_variate aboveThreshold_Finite)
qed

lemma wide_not_rejected: "\<not> rejected exGenShrink exEnergyDrop exOwner exContext exWideTrial r"
proof -
  from wide_weight_down obtain x where
    w: "weightOf exEnergyDrop exOwner exContext exWideTrial = Finite x" and x: "x \<le> 0" by blast
  then show ?thesis by (simp add: rejected_def)
qed

lemma wide_update_rejected:
  "updateContextState exGenShrink exEnergy exOwner (exWideCounts 9 9 18, exContext)
     = Some (Inr (exWideTuned 21 (57 / 10), exWideRejectedContext))"
proof -
  let ?s = "exWideCounts 9 9 18"
  from wide_weight_up obtain x where
    w: "weightOf exEnergy exOwner exContext exWideTrial = Finite x" and x: "999 \<le> x" by blast
  then have g: "greaterZero (Finite x)" by simp
  have rg: "countsInRange ?s 0" by (intro exWideCounts_range) simp_all
  have e: "?s\<lparr>step := 0,
             numAccepted := (numAccepted ?s)(0 := numAccepted ?s 0 + 0),
             numAttempted := (numAttempted ?s)(0 := numAttempted ?s 0 + 1),
             random := snd (genrand_real2 exGenShrink (snd (genrand_real2 exGenShrink \<lparr>seed = 42, drawn = 19\<rparr>)))\<rparr>
           = exWideCounts 10 9 21"
    by (simp add: exWideCounts_def exWideImpl_eq fun_eq_iff genrand_real2_def)
  have n: "newVolume exWideTrial = 19" by (simp add: exWideTrial_def)
  have t: "tune 19 0 (exWideCounts 10 9 21) = exWideTuned 21 (57 / 10)"
    by (simp add: tune_def exWideCounts_fields exWideTuned_def)
      (simp add: exWideCounts_def exWideImpl_eq fun_eq_iff)
  show ?thesis
    using updateContextState_returns [OF ex_due [OF exWideCounts_fields(1)] wide_axis_18 wide_trial rg,
        of exEnergy]
    by (simp only: wide_rejected if_True wide_scaled wide_restored w g e n t)
qed

lemma wide_update_accepted:
  "updateContextState exGenShrink exEnergyDrop exOwner (exWideCounts 9 9 18, exContext)
     = Some (Inr (exWideTuned 20 (81 / 10), exWideAcceptedContext))"
proof -
  let ?s = "exWideCounts 9 9 18"
  from wide_weight_down obtain x where
    w: "weightOf exEnergyDrop exOwner exContext exWideTrial = Finite x" and x: "x \<le> 0" by blast
  then have g: "\<not> greaterZero (Finite x)" by simp
  have rg: "countsInRange ?s 0" by (intro exWideCounts_range) simp_all
  have e: "?s\<lparr>step := 0,
             numAccepted := (numAccepted ?s)(0 := numAccepted ?s 0 + 1),
             numAttempted := (numAttempted ?s)(0 := numAttempted ?s 0 + 1),
             random := snd (genrand_real2 exGenShrink \<lparr>seed = 42, drawn = 19\<rparr>)\<rparr>
           = exWideCounts 10 10 20"
    by (simp add: exWideCounts_def exWideImpl_eq fun_eq_iff genrand_real2_def)
  have n: "volume exWideTrial = 27" by (simp add: exWideTrial_def)
  have t: "tune 27 0 (exWideCounts 10 10 20) = exWideTuned 20 (81 / 10)"
    by (simp add: tune_def exWideCounts_fields exWideTuned_def)
      (simp add: exWideCounts_def exWideImpl_eq fun_eq_iff)
  show ?thesis
    using updateContextState_returns [OF ex_due [OF exWideCounts_fields(1)] wide_axis_18 wide_trial rg,
        of exEnergyDrop]
    by (simp only: wide_not_rejected if_False wide_scaled w g e n t)
qed

text \<open>The tenth call, on the cube of 2 nm.\<close>

lemma small_trial:
  "trialOf exGenShrink exOwner (exWideCounts 9 9 18) exSmallContext 0 \<lparr>seed = 42, drawn = 19\<rparr> = Inr exSmallTrial"
  by (simp add: trialOf_def proposeTrial_def genrand_real2_def exGenShrink_def exOwner_def
      exSmallContext_def exSmallBox_def exSmallTrial_def exWideCounts_fields Let_def)

lemma small_weight: "weightOf energyOf exOwner exSmallContext exSmallTrial = PosInf"
proof -
  have "0 < real (numMolecules exSmallContext) * kT exOwner"
    by (simp add: exSmallContext_def kT_exOwner)
  then show ?thesis
    by (simp add: weightOf_def metropolisWeight_def logDouble_def exSmallTrial_def Let_def)
qed

lemma small_rejected: "rejected exGenShrink energyOf exOwner exSmallContext exSmallTrial \<lparr>seed = 42, drawn = 19\<rparr>"
proof -
  have "0 \<le> kT exOwner" by (simp add: kT_exOwner)
  then show ?thesis
    by (simp add: rejected_def small_weight wide_variate aboveThreshold_PosInf)
qed

lemma small_restored:
  "restoreContext (periodicBoxVectors exSmallContext) (scaleContext exSmallTrial exSmallContext)
     = exSmallRejectedContext"
  by (simp add: restoreContext_def scaleContext_def exSmallContext_def exSmallBox_def exSmallTrial_def
      exSmallRejectedContext_def)

lemma small_update:
  "updateContextState exGenShrink exEnergyFlat exOwner (exWideCounts 9 9 18, exSmallContext)
     = Some (Inr (exWideTuned 21 0, exSmallRejectedContext))"
proof -
  let ?s = "exWideCounts 9 9 18"
  have g: "greaterZero PosInf" by simp
  have rg: "countsInRange ?s 0" by (intro exWideCounts_range) simp_all
  have e: "?s\<lparr>step := 0,
             numAccepted := (numAccepted ?s)(0 := numAccepted ?s 0 + 0),
             numAttempted := (numAttempted ?s)(0 := numAttempted ?s 0 + 1),
             random := snd (genrand_real2 exGenShrink (snd (genrand_real2 exGenShrink \<lparr>seed = 42, drawn = 19\<rparr>)))\<rparr>
           = exWideCounts 10 9 21"
    by (simp add: exWideCounts_def exWideImpl_eq fun_eq_iff genrand_real2_def)
  have n: "newVolume exSmallTrial = 0" by (simp add: exSmallTrial_def)
  have t: "tune 0 0 (exWideCounts 10 9 21) = exWideTuned 21 0"
    by (simp add: tune_def exWideCounts_fields exWideTuned_def)
      (simp add: exWideCounts_def exWideImpl_eq fun_eq_iff)
  show ?thesis
    using updateContextState_returns [OF ex_due [OF exWideCounts_fields(1)] wide_axis_18 small_trial rg,
        of exEnergyFlat]
    by (simp only: small_rejected if_True small_restored small_weight g e n t)
qed

section \<open>Theorems\<close>

text \<open>
  C9. For every kernel name, \<open>createKernelImpl\<close> returns a constructed kernel
  when the name is one of the two names that \<open>initDrudeReferenceKernels\<close>
  registers, namely the force kernel for
  \<^verbatim>\<open>CalcDrudeForceKernel::Name()\<close> and the integrator kernel for
  \<^verbatim>\<open>IntegrateDrudeLangevinStepKernel::Name()\<close> (the first test wins
  when the two names coincide), and throws the exception with the ``illegal kernel name''
  message for every other name. The names registered on a platform that had none are exactly
  those two.
\<close>

theorem createKernelImpl_registered_or_throws:
  "createKernelImpl calcName integrateName name =
     (if name = calcName then Inr (ReferenceCalcDrudeForceKernel name)
      else if name = integrateName then Inr (ReferenceIntegrateDrudeLangevinStepKernel name)
      else Inl (OpenMMException
             (''Tried to create kernel with illegal kernel name '' @ [CHR 0x27] @ name @ [CHR 0x27])))
   \<and> isKernel (createKernelImpl calcName integrateName name)
       = (name \<in> dom (initDrudeReferenceKernels calcName integrateName Map.empty))
   \<and> dom (initDrudeReferenceKernels calcName integrateName Map.empty) = {calcName, integrateName}"
  by (auto simp: createKernelImpl_def initDrudeReferenceKernels_def registerKernelFactory_def
      isKernel_def Let_def)

theorem createKernelImpl_registered_or_throws_witness:
  "createKernelImpl ''CalcDrudeForce'' ''IntegrateDrudeLangevinStep'' ''CalcDrudeForce''
     = Inr (ReferenceCalcDrudeForceKernel ''CalcDrudeForce'')
   \<and> createKernelImpl ''CalcDrudeForce'' ''IntegrateDrudeLangevinStep'' ''IntegrateDrudeLangevinStep''
     = Inr (ReferenceIntegrateDrudeLangevinStepKernel ''IntegrateDrudeLangevinStep'')
   \<and> createKernelImpl ''CalcDrudeForce'' ''IntegrateDrudeLangevinStep'' ''CalcNonbondedForce''
     = Inl (OpenMMException
         (''Tried to create kernel with illegal kernel name '' @ [CHR 0x27] @ ''CalcNonbondedForce'' @ [CHR 0x27]))"
  using createKernelImpl_registered_or_throws [of "''CalcDrudeForce''" "''IntegrateDrudeLangevinStep''" "''CalcDrudeForce''"]
    createKernelImpl_registered_or_throws [of "''CalcDrudeForce''" "''IntegrateDrudeLangevinStep''" "''IntegrateDrudeLangevinStep''"]
    createKernelImpl_registered_or_throws [of "''CalcDrudeForce''" "''IntegrateDrudeLangevinStep''" "''CalcNonbondedForce''"]
  by simp

text \<open>
  C1. Every call of \<open>updateContextState\<close> that finds a trial due, leaves the
  axis loop and proposes a trial, and whose increments of \<^verbatim>\<open>step\<close>
  and of the counts of the axis do not overflow, returns, with its step either accepted or
  rejected. When the weight \<open>w\<close> of line 122 is at most 0 the step is accepted,
  whatever the generator would deliver (no variate is drawn for the test); when \<open>w >
  0\<close> the step is accepted if and only if the variate \<open>u\<close> drawn at line
  123 satisfies \<open>u \<le> exp (- w / kT)\<close>. With the IEEE values of
  \<open>w\<close> this reads: for \<open>w\<close> infinite and positive (the volume ratio
  is 0), and for a finite \<open>w > 0\<close> at \<open>kT = 0\<close>, the threshold is
  \<open>exp\<close> of minus infinity, which is 0, so that the step is accepted if and only
  if \<open>u \<le> 0\<close>; \<open>w\<close> infinite and negative is accepted as every
  \<open>w \<le> 0\<close> is; and a \<open>w\<close> that is NaN (as when the volume
  ratio is negative) fails the test \<open>w > 0\<close> and is accepted. The accepted count of the
  axis goes up by one exactly when the step is accepted.
\<close>

theorem metropolis_acceptance_rule:
  assumes due: "trialDue owner impl"
    and ax: "chooseAxis gen (getXYMode owner) (getZMode owner) (random impl) = Some (axis, r)"
    and tr: "trialOf gen owner impl context axis r = Inr t"
    and rg: "canIncrement impl axis (\<not> rejected gen energyOf owner context t r)"
    and w: "w = weightOf energyOf owner context t"
    and u: "u = acceptanceVariate gen r"
  shows "\<exists>impl' context'.
       updateContextState gen energyOf owner (impl, context) = Some (Inr (impl', context'))
     \<and> (stepRejected t context context' \<longleftrightarrow> \<not> stepAccepted t context context')
     \<and> (\<forall>x. w = Finite x \<and> x \<le> 0 \<longrightarrow> stepAccepted t context context')
     \<and> (\<forall>x. w = Finite x \<and> 0 < x \<and> kT owner \<noteq> 0 \<longrightarrow>
             (stepAccepted t context context' \<longleftrightarrow> u \<le> exp (- x / kT owner)))
     \<and> (w = PosInf \<or> (\<exists>x. w = Finite x \<and> 0 < x \<and> kT owner = 0) \<longrightarrow>
             (stepAccepted t context context' \<longleftrightarrow> u \<le> 0))
     \<and> (w = NegInf \<or> w = NaN \<longrightarrow> stepAccepted t context context')
     \<and> impl' = tune (if stepAccepted t context context' then volume t else newVolume t) axis
          (impl\<lparr>step := 0,
                numAccepted := (numAccepted impl)
                   (axis := numAccepted impl axis + (if stepAccepted t context context' then 1 else 0)),
                numAttempted := (numAttempted impl)(axis := numAttempted impl axis + 1),
                random := (if greaterZero w then snd (genrand_real2 gen (snd (genrand_real2 gen r)))
                           else snd (genrand_real2 gen r))\<rparr>)"
proof -
  define rj where "rj = rejected gen energyOf owner context t r"
  define context' where "context' = (if rj
             then restoreContext (periodicBoxVectors context) (scaleContext t context)
             else scaleContext t context)"
  define impl' where "impl' = tune (if rj then newVolume t else volume t) axis
               (impl\<lparr>step := 0,
                     numAccepted := (numAccepted impl)(axis := numAccepted impl axis + (if rj then 0 else 1)),
                     numAttempted := (numAttempted impl)(axis := numAttempted impl axis + 1),
                     random := (if greaterZero w
                                then snd (genrand_real2 gen (snd (genrand_real2 gen r)))
                                else snd (genrand_real2 gen r))\<rparr>)"
  have ret: "updateContextState gen energyOf owner (impl, context) = Some (Inr (impl', context'))"
    unfolding impl'_def context'_def rj_def w by (rule updateContextState_returns_exact [OF due ax tr rg])
  have acc: "stepAccepted t context context' = (\<not> rj)"
    using restore_neq_scale by (auto simp: stepAccepted_def context'_def)
  have rej: "stepRejected t context context' = rj"
    using restore_neq_scale [of "periodicBoxVectors context" t "context"]
    by (auto simp: stepRejected_def context'_def)
  have rd: "rj = (case w of
        Finite x \<Rightarrow> 0 < x \<and> (if kT owner \<noteq> 0 then exp (- x / kT owner) < u else 0 < u)
      | PosInf \<Rightarrow> 0 < u
      | NegInf \<Rightarrow> False
      | NaN \<Rightarrow> False)"
    unfolding rj_def w u by (rule rejected_cases)
  have a: "stepRejected t context context' \<longleftrightarrow> \<not> stepAccepted t context context'"
    by (simp add: acc rej)
  have b: "\<forall>x. w = Finite x \<and> x \<le> 0 \<longrightarrow> stepAccepted t context context'"
    by (auto simp: acc rd)
  have c: "\<forall>x. w = Finite x \<and> 0 < x \<and> kT owner \<noteq> 0 \<longrightarrow>
             (stepAccepted t context context' \<longleftrightarrow> u \<le> exp (- x / kT owner))"
    by (auto simp: acc rd)
  have d: "w = PosInf \<or> (\<exists>x. w = Finite x \<and> 0 < x \<and> kT owner = 0) \<longrightarrow>
             (stepAccepted t context context' \<longleftrightarrow> u \<le> 0)"
    by (auto simp: acc rd)
  have e: "w = NegInf \<or> w = NaN \<longrightarrow> stepAccepted t context context'"
    by (auto simp: acc rd)
  have f: "impl' = tune (if stepAccepted t context context' then volume t else newVolume t) axis
          (impl\<lparr>step := 0,
                numAccepted := (numAccepted impl)
                   (axis := numAccepted impl axis + (if stepAccepted t context context' then 1 else 0)),
                numAttempted := (numAttempted impl)(axis := numAttempted impl axis + 1),
                random := (if greaterZero w then snd (genrand_real2 gen (snd (genrand_real2 gen r)))
                           else snd (genrand_real2 gen r))\<rparr>)"
    unfolding acc by (simp add: impl'_def)
  from ret a b c d e f show ?thesis by blast
qed

theorem metropolis_acceptance_rule_witness:
  "trialDue exOwnerIso exImpl
   \<and> chooseAxis exGenHalf (getXYMode exOwnerIso) (getZMode exOwnerIso) (random exImpl) = Some (0, exRandom1)
   \<and> trialOf exGenHalf exOwnerIso exImpl exContext 0 exRandom1 = Inr exTrial
   \<and> canIncrement exImpl 0 (\<not> rejected exGenHalf exEnergyStep exOwnerIso exContext exTrial exRandom1)
   \<and> weightOf exEnergyStep exOwnerIso exContext exTrial = Finite 1
   \<and> acceptanceVariate exGenHalf exRandom1 = 1 / 2
   \<and> 1 / 2 \<le> exp (- 1 / kT exOwnerIso)
   \<and> updateContextState exGenHalf exEnergyStep exOwnerIso (exImpl, exContext)
       = Some (Inr (exCounts 1 1 3, exScaledContext))
   \<and> stepAccepted exTrial exContext exScaledContext
   \<and> numAccepted (exCounts 1 1 3) 0 = 1
   \<and> weightOf exEnergy exOwner exContext exTrial = Finite 1000
   \<and> acceptanceVariate exGen exRandom1 = 9 / 10
   \<and> \<not> 9 / 10 \<le> exp (- 1000 / kT exOwner)
   \<and> updateContextState exGen exEnergy exOwner (exImpl, exContext)
       = Some (Inr (exRejectedImpl, exRejectedContext))
   \<and> \<not> stepAccepted exTrial exContext exRejectedContext
   \<and> stepRejected exTrial exContext exRejectedContext
   \<and> numAccepted exRejectedImpl 0 = 0
   \<and> weightOf exEnergyFlat exOwnerCV exContext exTrialCV = Finite 0
   \<and> updateContextState exGenLow exEnergyFlat exOwnerCV (exImpl, exContext)
       = Some (Inr (exAcceptedImpl, exAcceptedContextCV))
   \<and> stepAccepted exTrialCV exContext exAcceptedContextCV
   \<and> weightOf exEnergyFlat exOwner exSmallContext exSmallTrial = PosInf
   \<and> acceptanceVariate exGenShrink \<lparr>seed = 42, drawn = 19\<rparr> = 9 / 10
   \<and> updateContextState exGenShrink exEnergyFlat exOwner (exWideCounts 9 9 18, exSmallContext)
       = Some (Inr (exWideTuned 21 0, exSmallRejectedContext))
   \<and> \<not> stepAccepted exSmallTrial exSmallContext exSmallRejectedContext"
proof -
  have s: "step exImpl = 0" and r: "random exImpl = exRandom0" and v: "volumeScale exImpl 0 = 27 / 100"
    by (simp_all add: exImpl_eq)
  have ci: "canIncrement exImpl 0 b" for b by (rule countsInRange_canIncrement [OF exImpl_range])
  have kt: "kT exOwner \<noteq> 0" "kT exOwnerIso \<noteq> 0" by (simp_all add: kT_exOwnerIso kT_exOwner)
  have a1: "chooseAxis exGenHalf (getXYMode exOwnerIso) (getZMode exOwnerIso) (random exImpl)
      = Some (0, exRandom1)"
    by (simp add: iso_axis r exRandom0_def exRandom1_def)
  have t1: "1 / 2 \<le> exp (- 1 / kT exOwnerIso)" using threshold_step by (simp add: kT_exOwnerIso)
  have A: "stepAccepted exTrial exContext exScaledContext"
  proof -
    from metropolis_acceptance_rule [OF iso_due [OF s] a1 iso_trial [OF v] ci
        iso_weight_step [symmetric] iso_variate [symmetric, of exRandom1]]
    obtain i c where ret: "updateContextState exGenHalf exEnergyStep exOwnerIso (exImpl, exContext) = Some (Inr (i, c))"
      and cl: "\<forall>x. Finite 1 = Finite x \<and> 0 < x \<and> kT exOwnerIso \<noteq> 0 \<longrightarrow>
             (stepAccepted exTrial exContext c \<longleftrightarrow> 1 / 2 \<le> exp (- x / kT exOwnerIso))"
      by blast
    from ret iso_update_step have c: "c = exScaledContext" by simp
    from cl [rule_format, of 1] kt t1 show ?thesis by (simp add: c)
  qed
  have t2: "\<not> 9 / 10 \<le> exp (- 1000 / kT exOwner)"
    using threshold_small [of 1000] by simp
  have B: "\<not> stepAccepted exTrial exContext exRejectedContext
         \<and> stepRejected exTrial exContext exRejectedContext"
  proof -
    from metropolis_acceptance_rule [OF ex_due [OF s] ex_axis [OF r] ex_trial [OF v] ci
        ex_weight [symmetric] ex_variate [symmetric]]
    obtain i c where ret: "updateContextState exGen exEnergy exOwner (exImpl, exContext) = Some (Inr (i, c))"
      and rj: "stepRejected exTrial exContext c \<longleftrightarrow> \<not> stepAccepted exTrial exContext c"
      and cl: "\<forall>x. Finite 1000 = Finite x \<and> 0 < x \<and> kT exOwner \<noteq> 0 \<longrightarrow>
             (stepAccepted exTrial exContext c \<longleftrightarrow> 9 / 10 \<le> exp (- x / kT exOwner))"
      by blast
    from ret exImpl_update_rejected have c: "c = exRejectedContext" by simp
    from cl [rule_format, of 1000] kt t2 rj show ?thesis by (simp add: c)
  qed
  have C: "stepAccepted exTrialCV exContext exAcceptedContextCV"
  proof -
    from metropolis_acceptance_rule [OF exCV_due [OF s] exCV_axis [OF r] exCV_trial [OF v] ci
        exCV_weight [symmetric] refl]
    obtain i c where ret: "updateContextState exGenLow exEnergyFlat exOwnerCV (exImpl, exContext) = Some (Inr (i, c))"
      and cl: "\<forall>x. Finite 0 = Finite x \<and> x \<le> 0 \<longrightarrow> stepAccepted exTrialCV exContext c"
      by blast
    from ret exCV_update have c: "c = exAcceptedContextCV" by simp
    from cl [rule_format, of 0] show ?thesis by (simp add: c)
  qed
  have rg: "countsInRange (exWideCounts 9 9 18) 0" by (intro exWideCounts_range) simp_all
  have D: "\<not> stepAccepted exSmallTrial exSmallContext exSmallRejectedContext"
  proof -
    from metropolis_acceptance_rule [OF ex_due [OF exWideCounts_fields(1)] wide_axis_18 small_trial countsInRange_canIncrement [OF rg]
        small_weight [symmetric] wide_variate [symmetric], of exEnergyFlat]
    obtain i c where ret: "updateContextState exGenShrink exEnergyFlat exOwner (exWideCounts 9 9 18, exSmallContext)
           = Some (Inr (i, c))"
      and cl: "PosInf = PosInf \<or> (\<exists>x. PosInf = Finite x \<and> 0 < x \<and> kT exOwner = 0) \<longrightarrow>
             (stepAccepted exSmallTrial exSmallContext c \<longleftrightarrow> (9 / 10 :: real) \<le> 0)"
      by blast
    from ret small_update have c: "c = exSmallRejectedContext" by simp
    from cl show ?thesis by (simp add: c)
  qed
  have n: "numAccepted (exCounts 1 1 3) 0 = 1" "numAccepted exRejectedImpl 0 = 0"
    by (simp_all add: exCounts_fields exRejectedImpl_def exImpl_eq)
  from iso_due [OF s] a1 iso_trial [OF v] ci iso_weight_step iso_variate t1 iso_update_step A n
    ex_weight ex_variate t2 exImpl_update_rejected B exCV_weight exCV_update C
    small_weight wide_variate small_update D
  show ?thesis by blast
qed

text \<open>
  C2. Every call of \<open>updateContextState\<close> that finds a trial due, leaves the
  axis loop and proposes a trial, whose increments of \<^verbatim>\<open>step\<close> and of
  the attempted count of the axis do not overflow, and whose step is rejected (the condition
  of line 123 holds), returns; the kernel is called twice in it,
  \<^verbatim>\<open>scaleCoordinates\<close> and then
  \<^verbatim>\<open>restoreCoordinates\<close>, and the context's box after the call is the
  box before the call; nothing else in the context has changed. The tuning of lines 133 to
  144 nevertheless runs with the local \<^verbatim>\<open>volume\<close> set to
  \<^verbatim>\<open>newVolume\<close>, the volume of the step that was not applied (which
  is the old volume itself when Z is \<open>ConstantVolume\<close>), on members whose
  attempted count for the axis has gone up by one and whose accepted count has not.
\<close>

theorem rejected_step_restores_box:
  assumes due: "trialDue owner impl"
    and ax: "chooseAxis gen (getXYMode owner) (getZMode owner) (random impl) = Some (axis, r)"
    and tr: "trialOf gen owner impl context axis r = Inr t"
    and rg: "canIncrement impl axis (\<not> rejected gen energyOf owner context t r)"
    and rej: "rejected gen energyOf owner context t r"
  shows "\<exists>impl' context'.
       updateContextState gen energyOf owner (impl, context) = Some (Inr (impl', context'))
     \<and> kernelCalls context' = kernelCalls context @
           [ScaleCoordinates (vec3_get (lengthScale t) 0) (vec3_get (lengthScale t) 1) (vec3_get (lengthScale t) 2),
            RestoreCoordinates]
     \<and> periodicBoxVectors context' = periodicBoxVectors context
     \<and> context' = context\<lparr>kernelCalls := kernelCalls context'\<rparr>
     \<and> impl' = tune (newVolume t) axis
          (impl\<lparr>step := 0,
                numAttempted := (numAttempted impl)(axis := numAttempted impl axis + 1),
                random := snd (genrand_real2 gen (snd (genrand_real2 gen r)))\<rparr>)
     \<and> newVolume t =
         (if getZMode owner = ConstantVolume then boxVolume (periodicBoxVectors context)
          else boxVolume (periodicBoxVectors context)
               + volumeScale impl axis * 2 * (fst (genrand_real2 gen r) - 0.5))"
proof -
  define context' where
    "context' = restoreContext (periodicBoxVectors context) (scaleContext t context)"
  define impl' where "impl' = tune (newVolume t) axis
          (impl\<lparr>step := 0,
                numAttempted := (numAttempted impl)(axis := numAttempted impl axis + 1),
                random := snd (genrand_real2 gen (snd (genrand_real2 gen r)))\<rparr>)"
  from rej have w: "greaterZero (weightOf energyOf owner context t)" by (simp add: rejected_def)
  have ret: "updateContextState gen energyOf owner (impl, context) = Some (Inr (impl', context'))"
    using updateContextState_returns_exact [OF due ax tr rg] rej w
    by (simp add: impl'_def context'_def)
  have c: "context' = context\<lparr>kernelCalls := kernelCalls context @
       [ScaleCoordinates (vec3_get (lengthScale t) 0) (vec3_get (lengthScale t) 1) (vec3_get (lengthScale t) 2),
        RestoreCoordinates]\<rparr>"
    unfolding context'_def by (rule restore_scale)
  have k: "kernelCalls context' = kernelCalls context @
           [ScaleCoordinates (vec3_get (lengthScale t) 0) (vec3_get (lengthScale t) 1) (vec3_get (lengthScale t) 2),
            RestoreCoordinates]"
    by (subst c) simp
  have b: "periodicBoxVectors context' = periodicBoxVectors context"
    by (subst c) simp
  have o: "context' = context\<lparr>kernelCalls := kernelCalls context'\<rparr>"
    unfolding k by (rule c)
  have n: "newVolume t =
           (if getZMode owner = ConstantVolume then boxVolume (periodicBoxVectors context)
            else boxVolume (periodicBoxVectors context)
                 + volumeScale impl axis * 2 * (fst (genrand_real2 gen r) - 0.5))"
    using tr unfolding trialOf_def by (rule proposeTrial_newVolume)
  from ret k b o n impl'_def show ?thesis by blast
qed

theorem rejected_step_restores_box_witness:
  "trialDue exOwner (exWideCounts 9 9 18)
   \<and> chooseAxis exGenShrink (getXYMode exOwner) (getZMode exOwner) (random (exWideCounts 9 9 18))
       = Some (0, \<lparr>seed = 42, drawn = 19\<rparr>)
   \<and> trialOf exGenShrink exOwner (exWideCounts 9 9 18) exContext 0 \<lparr>seed = 42, drawn = 19\<rparr> = Inr exWideTrial
   \<and> canIncrement (exWideCounts 9 9 18) 0
         (\<not> rejected exGenShrink exEnergy exOwner exContext exWideTrial \<lparr>seed = 42, drawn = 19\<rparr>)
   \<and> rejected exGenShrink exEnergy exOwner exContext exWideTrial \<lparr>seed = 42, drawn = 19\<rparr>
   \<and> updateContextState exGenShrink exEnergy exOwner (exWideCounts 9 9 18, exContext)
       = Some (Inr (exWideTuned 21 (57 / 10), exWideRejectedContext))
   \<and> kernelCalls exWideRejectedContext
       = kernelCalls exContext @ [ScaleCoordinates (19 / 27) 1 1, RestoreCoordinates]
   \<and> periodicBoxVectors exWideRejectedContext = periodicBoxVectors exContext
   \<and> periodicBoxVectors (scaleContext exWideTrial exContext) \<noteq> periodicBoxVectors exContext
   \<and> boxVolume (periodicBoxVectors exContext) = 27
   \<and> volumeScale (exWideCounts 9 9 18) 0 = 8
   \<and> newVolume exWideTrial = 19
   \<and> exWideTuned 21 (57 / 10) = tune 19 0 (exWideCounts 10 9 21)
   \<and> volumeScale (exWideTuned 21 (57 / 10)) 0 = 19 * 0.3"
proof -
  let ?s = "exWideCounts 9 9 18"
  have rg: "canIncrement ?s 0 b" for b
    by (intro countsInRange_canIncrement exWideCounts_range) simp_all
  from rejected_step_restores_box [OF ex_due [OF exWideCounts_fields(1)] wide_axis_18 wide_trial rg
      wide_rejected]
  obtain i c where
    ret: "updateContextState exGenShrink exEnergy exOwner (?s, exContext) = Some (Inr (i, c))"
    and k: "kernelCalls c = kernelCalls exContext @
           [ScaleCoordinates (vec3_get (lengthScale exWideTrial) 0) (vec3_get (lengthScale exWideTrial) 1)
              (vec3_get (lengthScale exWideTrial) 2), RestoreCoordinates]"
    and b: "periodicBoxVectors c = periodicBoxVectors exContext"
    and t: "i = tune (newVolume exWideTrial) 0
          (?s\<lparr>step := 0,
                numAttempted := (numAttempted ?s)(0 := numAttempted ?s 0 + 1),
                random := snd (genrand_real2 exGenShrink (snd (genrand_real2 exGenShrink \<lparr>seed = 42, drawn = 19\<rparr>)))\<rparr>)"
    and n: "newVolume exWideTrial =
         (if getZMode exOwner = ConstantVolume then boxVolume (periodicBoxVectors exContext)
          else boxVolume (periodicBoxVectors exContext)
               + volumeScale ?s 0 * 2 * (fst (genrand_real2 exGenShrink \<lparr>seed = 42, drawn = 19\<rparr>) - 0.5))"
    by blast
  from ret wide_update_rejected have i: "i = exWideTuned 21 (57 / 10)" and c: "c = exWideRejectedContext"
    by simp_all
  have e: "?s\<lparr>step := 0,
                numAttempted := (numAttempted ?s)(0 := numAttempted ?s 0 + 1),
                random := snd (genrand_real2 exGenShrink (snd (genrand_real2 exGenShrink \<lparr>seed = 42, drawn = 19\<rparr>)))\<rparr>
      = exWideCounts 10 9 21"
    by (simp add: exWideCounts_def exWideImpl_eq fun_eq_iff genrand_real2_def)
  have nv: "newVolume exWideTrial = 19" by (simp add: exWideTrial_def)
  have k': "kernelCalls exWideRejectedContext
       = kernelCalls exContext @ [ScaleCoordinates (19 / 27) 1 1, RestoreCoordinates]"
    using k by (simp add: c exWideTrial_def)
  have b': "periodicBoxVectors exWideRejectedContext = periodicBoxVectors exContext"
    using b by (simp add: c)
  have t': "exWideTuned 21 (57 / 10) = tune 19 0 (exWideCounts 10 9 21)"
    using t by (simp only: i e nv)
  have sc: "periodicBoxVectors (scaleContext exWideTrial exContext) \<noteq> periodicBoxVectors exContext"
    unfolding wide_scaled by (simp add: exWideAcceptedContext_def exContext_eq exBox_def)
  have bv: "boxVolume (periodicBoxVectors exContext) = 27"
    by (simp add: boxVolume_def exContext_eq exBox_def)
  have vs: "volumeScale (exWideTuned 21 (57 / 10)) 0 = 19 * 0.3"
    by (simp add: exWideTuned_fields)
  have v8: "volumeScale ?s 0 = 8" by (simp add: exWideCounts_fields)
  from ex_due [OF exWideCounts_fields(1)] wide_axis_18 wide_trial rg wide_rejected wide_update_rejected
    k' b' sc bv v8 nv t' vs
  show ?thesis by blast
qed

text \<open>
  C6, as amended. When the frequency is 0, every call of \<open>updateContextState\<close>
  that starts with \<^verbatim>\<open>step\<close> below \<open>INT_MAX\<close> returns
  without a trial: the context (its box and its kernel calls), the move amplitudes, the
  attempted and accepted counts and the generator are what they were. The step counter is
  not: line 71 increments it before the test, so it is one more than before, and nothing
  ever resets it. A call that starts with \<^verbatim>\<open>step\<close> at
  \<open>INT_MAX\<close> overflows the counter at line 71; the model stops there.
\<close>

theorem frequency_zero_only_counts_steps:
  assumes "getFrequency owner = 0"
  shows "(step impl < INT_MAX \<longrightarrow>
           updateContextState gen energyOf owner (impl, context)
             = Some (Inr (impl\<lparr>step := step impl + 1\<rparr>, context))
         \<and> volumeScale (impl\<lparr>step := step impl + 1\<rparr>) = volumeScale impl
         \<and> numAttempted (impl\<lparr>step := step impl + 1\<rparr>) = numAttempted impl
         \<and> numAccepted (impl\<lparr>step := step impl + 1\<rparr>) = numAccepted impl
         \<and> random (impl\<lparr>step := step impl + 1\<rparr>) = random impl
         \<and> step (impl\<lparr>step := step impl + 1\<rparr>) = step impl + 1
         \<and> step impl + 1 \<le> INT_MAX)
       \<and> (INT_MAX \<le> step impl \<longrightarrow>
           updateContextState gen energyOf owner (impl, context) = Some (Inl SignedOverflow))"
  using assms by (simp add: updateContextState_idle updateContextState_overflow trialDue_def)

theorem frequency_zero_only_counts_steps_witness:
  "getFrequency (exOwner\<lparr>getFrequency := 0\<rparr>) = 0
   \<and> step exRejectedImpl < INT_MAX
   \<and> updateContextState exGen exEnergy (exOwner\<lparr>getFrequency := 0\<rparr>) (exRejectedImpl, exRejectedContext)
       = Some (Inr (exRejectedImpl\<lparr>step := 1\<rparr>, exRejectedContext))
   \<and> random (exRejectedImpl\<lparr>step := 1\<rparr>) = exRandom3
   \<and> numAttempted (exRejectedImpl\<lparr>step := 1\<rparr>) 0 = 1
   \<and> INT_MAX \<le> step (exImpl\<lparr>step := INT_MAX\<rparr>)
   \<and> updateContextState exGen exEnergy (exOwner\<lparr>getFrequency := 0\<rparr>) (exImpl\<lparr>step := INT_MAX\<rparr>, exContext)
       = Some (Inl SignedOverflow)"
proof -
  have f: "getFrequency (exOwner\<lparr>getFrequency := 0\<rparr>) = 0" by simp
  have s: "step exRejectedImpl = 0" by (simp add: exRejectedImpl_def exImpl_eq)
  have m: "(0::int) < INT_MAX" by (simp add: INT_MAX_def)
  from frequency_zero_only_counts_steps [OF f, of exRejectedImpl exGen exEnergy exRejectedContext]
    frequency_zero_only_counts_steps [OF f, of "exImpl\<lparr>step := INT_MAX\<rparr>" exGen exEnergy exContext]
  show ?thesis by (simp add: s m exRejectedImpl_def exImpl_eq)
qed

theorem frequency_zero_step_counter_counterexample:
  "getFrequency (exOwner\<lparr>getFrequency := 0\<rparr>) = 0
   \<and> updateContextState exGen exEnergy (exOwner\<lparr>getFrequency := 0\<rparr>) (exImpl, exContext)
       = Some (Inr (exImpl\<lparr>step := 1\<rparr>, exContext))
   \<and> step exImpl = 0
   \<and> step (exImpl\<lparr>step := 1\<rparr>) = 1
   \<and> step (exImpl\<lparr>step := 1\<rparr>) \<noteq> step exImpl"
proof -
  have s: "step exImpl = 0" by (simp add: exImpl_eq)
  then have m: "step exImpl < INT_MAX" by (simp add: INT_MAX_def)
  have "\<not> trialDue (exOwner\<lparr>getFrequency := 0\<rparr>) exImpl" by (simp add: trialDue_def)
  from updateContextState_idle [OF this m, of exGen exEnergy exContext] s
  show ?thesis by simp
qed

text \<open>
  C8, as amended. The axis loop of lines 83 to 95 leaves exactly when the Z mode is
  \<open>ZFree\<close> or one of the variates to come is below 2/3; for the other streams it
  draws for ever. Each round is decided by its variate \<open>u\<close>: axis 0 when
  \<open>3u < 1\<close>; when \<open>1 \<le> 3u < 2\<close> axis 1, or axis 0 under
  \<open>XYIsotropic\<close>; when \<open>3u \<ge> 2\<close> axis 2 if Z is free and another
  round if it is not. So a loop that leaves gives an axis among 0, 1, 2, the axis 2 only
  under \<open>ZFree\<close> and the axis 1 never under \<open>XYIsotropic\<close>, with the
  same seed and at least one variate drawn.
\<close>

theorem axis_loop_leaves_iff:
  "(chooseAxis gen xy z r \<noteq> None) = (z = ZFree \<or> (\<exists>k. gen (seed r) (drawn r + k) * 3 < 2))
   \<and> (chooseAxis gen xy z r = Some (axis, r') \<longrightarrow>
        axis < 3 \<and> (axis = 2 \<longrightarrow> z = ZFree) \<and> (xy = XYIsotropic \<longrightarrow> axis \<noteq> 1)
        \<and> seed r' = seed r \<and> drawn r < drawn r')
   \<and> chooseAxis gen xy z r =
        (if gen (seed r) (drawn r) * 3 < 1 then Some (0, r\<lparr>drawn := drawn r + 1\<rparr>)
         else if gen (seed r) (drawn r) * 3 < 2
           then Some (if xy = XYIsotropic then 0 else 1, r\<lparr>drawn := drawn r + 1\<rparr>)
         else if z = ZFree then Some (2, r\<lparr>drawn := drawn r + 1\<rparr>)
         else chooseAxis gen xy z (r\<lparr>drawn := drawn r + 1\<rparr>))"
proof -
  have a: "(chooseAxis gen xy z r \<noteq> None) = (z = ZFree \<or> (\<exists>k. gen (seed r) (drawn r + k) * 3 < 2))"
  proof
    assume leaves: "chooseAxis gen xy z r \<noteq> None"
    show "z = ZFree \<or> (\<exists>k. gen (seed r) (drawn r + k) * 3 < 2)"
    proof (rule ccontr)
      assume n: "\<not> (z = ZFree \<or> (\<exists>k. gen (seed r) (drawn r + k) * 3 < 2))"
      have "\<forall>n \<ge> drawn r. \<not> gen (seed r) n * 3 < 2"
      proof (intro allI impI)
        fix m assume "drawn r \<le> m"
        then have "m = drawn r + (m - drawn r)" by simp
        with n show "\<not> gen (seed r) m * 3 < 2" by metis
      qed
      with n have "chooseAxis gen xy z r = None" by (intro chooseAxis_diverges) auto
      with leaves show False by simp
    qed
  next
    assume "z = ZFree \<or> (\<exists>k. gen (seed r) (drawn r + k) * 3 < 2)"
    then obtain k where "gen (seed r) (drawn r + k) * 3 < 2 \<or> z = ZFree" by auto
    then have "\<exists>y. chooseAxis gen xy z r = Some y"
      by (rule chooseAxis_returns [where gen = gen and r = r and k = k and z = z and xy = xy])
    then show "chooseAxis gen xy z r \<noteq> None" by auto
  qed
  have b: "axis < 3 \<and> (axis = 2 \<longrightarrow> z = ZFree) \<and> (xy = XYIsotropic \<longrightarrow> axis \<noteq> 1)
        \<and> seed r' = seed r \<and> drawn r < drawn r'"
    if "chooseAxis gen xy z r = Some (axis, r')"
    using chooseAxis_Some [OF that] by auto
  have c: "chooseAxis gen xy z r =
        (if gen (seed r) (drawn r) * 3 < 1 then Some (0, r\<lparr>drawn := drawn r + 1\<rparr>)
         else if gen (seed r) (drawn r) * 3 < 2
           then Some (if xy = XYIsotropic then 0 else 1, r\<lparr>drawn := drawn r + 1\<rparr>)
         else if z = ZFree then Some (2, r\<lparr>drawn := drawn r + 1\<rparr>)
         else chooseAxis gen xy z (r\<lparr>drawn := drawn r + 1\<rparr>))"
    by (subst chooseAxis.simps) (simp add: genrand_real2_def)
  from a b c show ?thesis by blast
qed

theorem axis_loop_leaves_iff_witness:
  "chooseAxis exGen XYIsotropic ZFixed exRandom1 = Some (0, exRandom2)
   \<and> exGen (seed exRandom1) (drawn exRandom1 + 0) * 3 < 2
   \<and> chooseAxis exGen XYIsotropic ZFixed exRandom1 \<noteq> None
   \<and> (0::nat) < 3 \<and> seed exRandom2 = seed exRandom1 \<and> drawn exRandom1 < drawn exRandom2"
proof -
  have a: "exGen (seed exRandom1) (drawn exRandom1 + 0) * 3 < 2"
    by (simp add: exGen_def exRandom1_def)
  then have b: "ZFixed = ZFree \<or> (\<exists>k. exGen (seed exRandom1) (drawn exRandom1 + k) * 3 < 2)" by blast
  have c: "chooseAxis exGen XYIsotropic ZFixed exRandom1 = Some (0, exRandom2)"
    by (simp add: chooseAxis.simps genrand_real2_def exGen_def exRandom1_def exRandom2_def)
  from axis_loop_leaves_iff [of exGen XYIsotropic ZFixed exRandom1 0 exRandom2] a b c
  show ?thesis by simp
qed

theorem axis_loop_never_leaves_counterexample:
  "chooseAxis exGenHigh (getXYMode exOwner) ZFixed (random exImpl) = None
   \<and> trialDue (exOwner\<lparr>getZMode := ZFixed\<rparr>) exImpl
   \<and> updateContextState exGenHigh exEnergy (exOwner\<lparr>getZMode := ZFixed\<rparr>) (exImpl, exContext) = None"
proof -
  have d: "trialDue (exOwner\<lparr>getZMode := ZFixed\<rparr>) exImpl"
    by (simp add: trialDue_def exOwner_def exImpl_eq)
  have m: "step exImpl < INT_MAX" by (simp add: exImpl_eq INT_MAX_def)
  have n: "chooseAxis exGenHigh xy ZFixed (random exImpl) = None" for xy
    by (rule chooseAxis_diverges) (simp_all add: exGenHigh_def)
  from d n [of "getXYMode exOwner"] show ?thesis
    by (simp add: updateContextState_due [OF d m] n)
qed



text \<open>
  C4, as amended. Every call of \<open>updateContextState\<close> that finds a trial due,
  leaves the axis loop and proposes a trial, and whose increments of
  \<^verbatim>\<open>step\<close> and of the counts of the axis do not overflow, returns.
  Let \<open>att\<close> and \<open>acc\<close> be the attempted and accepted counts of the
  axis after lines 131 and 132. Whenever the tuning check runs (\<open>att \<ge>
  10\<close>): if \<open>acc < 0.25 * att\<close> the amplitude of the axis is divided by
  1.1; if \<open>acc > 0.75 * att\<close> it becomes the smaller of 1.1 times itself and 0.3
  times the local variable \<^verbatim>\<open>volume\<close>; in both cases the two counts
  of the axis are 0 afterwards; otherwise the amplitude stays and the counts are
  \<open>att\<close> and \<open>acc\<close>. Amplitudes and counts of the other axes are
  never touched. The local \<^verbatim>\<open>volume\<close> is not the volume of the box
  the call leaves: after an accepted step it is the volume the box had before the trial,
  while the context holds the scaled box; after a rejected step it is
  \<^verbatim>\<open>newVolume\<close>, while the context holds the old box.
\<close>

theorem tuning_adjusts_amplitude:
  assumes due: "trialDue owner impl"
    and ax: "chooseAxis gen (getXYMode owner) (getZMode owner) (random impl) = Some (axis, r)"
    and tr: "trialOf gen owner impl context axis r = Inr t"
    and rg: "canIncrement impl axis (\<not> rejected gen energyOf owner context t r)"
    and acc: "acc = numAccepted impl axis + (if rejected gen energyOf owner context t r then 0 else 1)"
    and att: "att = numAttempted impl axis + 1"
    and vol: "vol = (if rejected gen energyOf owner context t r then newVolume t else volume t)"
    and chk: "10 \<le> att"
  shows "\<exists>impl' context'.
       updateContextState gen energyOf owner (impl, context) = Some (Inr (impl', context'))
     \<and> (real_of_int acc < 0.25 * real_of_int att \<longrightarrow>
            volumeScale impl' axis = volumeScale impl axis / 1.1
            \<and> numAttempted impl' axis = 0 \<and> numAccepted impl' axis = 0)
     \<and> (real_of_int acc > 0.75 * real_of_int att \<longrightarrow>
            volumeScale impl' axis = min (volumeScale impl axis * 1.1) (vol * 0.3)
            \<and> numAttempted impl' axis = 0 \<and> numAccepted impl' axis = 0)
     \<and> (\<not> real_of_int acc < 0.25 * real_of_int att \<and> \<not> real_of_int acc > 0.75 * real_of_int att \<longrightarrow>
            volumeScale impl' axis = volumeScale impl axis
            \<and> numAttempted impl' axis = att \<and> numAccepted impl' axis = acc)
     \<and> (\<forall>j. j \<noteq> axis \<longrightarrow>
            volumeScale impl' j = volumeScale impl j
            \<and> numAttempted impl' j = numAttempted impl j \<and> numAccepted impl' j = numAccepted impl j)
     \<and> (if rejected gen energyOf owner context t r
        then vol = newVolume t \<and> periodicBoxVectors context' = periodicBoxVectors context
        else vol = boxVolume (periodicBoxVectors context) \<and> context' = scaleContext t context)"
proof -
  define mid where "mid = impl\<lparr>step := 0,
       numAccepted := (numAccepted impl)(axis := acc),
       numAttempted := (numAttempted impl)(axis := att),
       random := (if greaterZero (weightOf energyOf owner context t)
                  then snd (genrand_real2 gen (snd (genrand_real2 gen r)))
                  else snd (genrand_real2 gen r))\<rparr>"
  define impl' where "impl' = tune vol axis mid"
  define context' where "context' = (if rejected gen energyOf owner context t r
             then restoreContext (periodicBoxVectors context) (scaleContext t context)
             else scaleContext t context)"
  have ret: "updateContextState gen energyOf owner (impl, context) = Some (Inr (impl', context'))"
    unfolding impl'_def mid_def context'_def acc att vol
    by (rule updateContextState_returns_exact [OF due ax tr rg])
  have m: "numAttempted mid axis = att" "numAccepted mid axis = acc"
    "volumeScale mid = volumeScale impl"
    "\<And>j. j \<noteq> axis \<Longrightarrow> numAttempted mid j = numAttempted impl j"
    "\<And>j. j \<noteq> axis \<Longrightarrow> numAccepted mid j = numAccepted impl j"
    by (simp_all add: mid_def)
  have excl: "\<not> (real_of_int acc < 0.25 * real_of_int att \<and> real_of_int acc > 0.75 * real_of_int att)"
    using chk by auto
  have lo: "real_of_int acc < 0.25 * real_of_int att \<longrightarrow>
            volumeScale impl' axis = volumeScale impl axis / 1.1
            \<and> numAttempted impl' axis = 0 \<and> numAccepted impl' axis = 0"
    using chk by (simp add: impl'_def tune_def m)
  have hi: "real_of_int acc > 0.75 * real_of_int att \<longrightarrow>
            volumeScale impl' axis = min (volumeScale impl axis * 1.1) (vol * 0.3)
            \<and> numAttempted impl' axis = 0 \<and> numAccepted impl' axis = 0"
    using excl chk by (auto simp add: impl'_def tune_def m)
  have mi: "\<not> real_of_int acc < 0.25 * real_of_int att \<and> \<not> real_of_int acc > 0.75 * real_of_int att \<longrightarrow>
            volumeScale impl' axis = volumeScale impl axis
            \<and> numAttempted impl' axis = att \<and> numAccepted impl' axis = acc"
    using chk by (simp add: impl'_def tune_def m)
  have ot: "\<forall>j. j \<noteq> axis \<longrightarrow> volumeScale impl' j = volumeScale impl j
            \<and> numAttempted impl' j = numAttempted impl j \<and> numAccepted impl' j = numAccepted impl j"
    by (simp add: impl'_def tune_fields m)
  from tr have v: "volume t = boxVolume (periodicBoxVectors context)"
    using proposeTrial_volume by (simp add: trialOf_def)
  have vl: "if rejected gen energyOf owner context t r
        then vol = newVolume t \<and> periodicBoxVectors context' = periodicBoxVectors context
        else vol = boxVolume (periodicBoxVectors context) \<and> context' = scaleContext t context"
    by (simp add: vol v context'_def restoreContext_def)
  from ret lo hi mi ot vl show ?thesis by blast
qed

theorem tuning_adjusts_amplitude_witness:
  "updateContextState exGenHalf exEnergy exOwnerIso (exCounts 9 1 0, exContext)
     = Some (Inr (exShrunkImpl, exRejectedContext))
   \<and> rejected exGenHalf exEnergy exOwnerIso exContext exTrial (\<lparr>seed = 42, drawn = 1\<rparr>)
   \<and> (10::int) \<le> numAttempted (exCounts 9 1 0) 0 + 1
   \<and> real_of_int (numAccepted (exCounts 9 1 0) 0 + 0) < 0.25 * real_of_int (numAttempted (exCounts 9 1 0) 0 + 1)
   \<and> volumeScale (exCounts 9 1 0) 0 = 27 / 100
   \<and> volumeScale exShrunkImpl 0 = 27 / 100 / 1.1
   \<and> numAttempted exShrunkImpl 0 = 0 \<and> numAccepted exShrunkImpl 0 = 0
   \<and> volumeScale exShrunkImpl 1 = volumeScale (exCounts 9 1 0) 1
   \<and> updateContextState exGenShrink exEnergyDrop exOwner (exWideCounts 9 9 18, exContext)
       = Some (Inr (exWideTuned 20 (81 / 10), exWideAcceptedContext))
   \<and> \<not> rejected exGenShrink exEnergyDrop exOwner exContext exWideTrial (\<lparr>seed = 42, drawn = 19\<rparr>)
   \<and> real_of_int (numAccepted (exWideCounts 9 9 18) 0 + 1) > 0.75 * real_of_int (numAttempted (exWideCounts 9 9 18) 0 + 1)
   \<and> volumeScale (exWideCounts 9 9 18) 0 = 8
   \<and> volume exWideTrial = 27
   \<and> volumeScale (exWideTuned 20 (81 / 10)) 0 = min (8 * 1.1) (27 * 0.3)
   \<and> numAttempted (exWideTuned 20 (81 / 10)) 0 = 0 \<and> numAccepted (exWideTuned 20 (81 / 10)) 0 = 0
   \<and> updateContextState exGenShrink exEnergy exOwner (exWideCounts 9 9 18, exContext)
       = Some (Inr (exWideTuned 21 (57 / 10), exWideRejectedContext))
   \<and> rejected exGenShrink exEnergy exOwner exContext exWideTrial (\<lparr>seed = 42, drawn = 19\<rparr>)
   \<and> real_of_int (numAccepted (exWideCounts 9 9 18) 0 + 0) > 0.75 * real_of_int (numAttempted (exWideCounts 9 9 18) 0 + 1)
   \<and> newVolume exWideTrial = 19
   \<and> volumeScale (exWideTuned 21 (57 / 10)) 0 = min (8 * 1.1) (19 * 0.3)"
proof -
  have a: "chooseAxis exGenHalf (getXYMode exOwnerIso) (getZMode exOwnerIso) (random (exCounts 9 1 0))
      = Some (0, \<lparr>seed = 42, drawn = 1\<rparr>)"
    using iso_axis [of "random (exCounts 9 1 0)"] by (simp add: exCounts_fields)
  have v: "volumeScale (exCounts 9 1 0) 0 = 27 / 100" by (simp add: exCounts_fields)
  have c: "(10::int) \<le> numAttempted (exCounts 9 1 0) 0 + 1" by (simp add: exCounts_fields)
  have rg: "canIncrement (exCounts 9 1 0) 0 b" for b
    by (intro countsInRange_canIncrement exCounts_range) simp_all
  have lo: "real_of_int (numAccepted (exCounts 9 1 0) 0 + 0) < 0.25 * real_of_int (numAttempted (exCounts 9 1 0) 0 + 1)"
    by (simp add: exCounts_fields)
  have A: "volumeScale exShrunkImpl 0 = 27 / 100 / 1.1
     \<and> numAttempted exShrunkImpl 0 = 0 \<and> numAccepted exShrunkImpl 0 = 0
     \<and> volumeScale exShrunkImpl 1 = volumeScale (exCounts 9 1 0) 1"
  proof -
    from tuning_adjusts_amplitude [OF iso_due [OF exCounts_fields(1)] a iso_trial [OF v] rg refl refl refl c,
        of exEnergy]
    obtain i x where ret: "updateContextState exGenHalf exEnergy exOwnerIso (exCounts 9 1 0, exContext) = Some (Inr (i, x))"
      and sh: "real_of_int (numAccepted (exCounts 9 1 0) 0
                 + (if rejected exGenHalf exEnergy exOwnerIso exContext exTrial \<lparr>seed = 42, drawn = 1\<rparr> then 0 else 1))
               < 0.25 * real_of_int (numAttempted (exCounts 9 1 0) 0 + 1) \<longrightarrow>
            volumeScale i 0 = volumeScale (exCounts 9 1 0) 0 / 1.1
            \<and> numAttempted i 0 = 0 \<and> numAccepted i 0 = 0"
      and ot: "\<forall>j. j \<noteq> 0 \<longrightarrow>
            volumeScale i j = volumeScale (exCounts 9 1 0) j
            \<and> numAttempted i j = numAttempted (exCounts 9 1 0) j \<and> numAccepted i j = numAccepted (exCounts 9 1 0) j"
      by blast
    from ret iso_update_shrunk have i: "i = exShrunkImpl" by simp
    from sh lo iso_rejected [of "\<lparr>seed = 42, drawn = 1\<rparr>"] ot [rule_format, of 1]
    show ?thesis by (simp add: i v)
  qed
  let ?s = "exWideCounts 9 9 18"
  have rgw: "canIncrement ?s 0 b" for b
    by (intro countsInRange_canIncrement exWideCounts_range) simp_all
  have cw: "(10::int) \<le> numAttempted ?s 0 + 1" by (simp add: exWideCounts_fields)
  have v8: "volumeScale ?s 0 = 8" by (simp add: exWideCounts_fields)
  have hi1: "real_of_int (numAccepted ?s 0 + 1) > 0.75 * real_of_int (numAttempted ?s 0 + 1)"
    and hi0: "real_of_int (numAccepted ?s 0 + 0) > 0.75 * real_of_int (numAttempted ?s 0 + 1)"
    by (simp_all add: exWideCounts_fields)
  have nv: "newVolume exWideTrial = 19" "volume exWideTrial = 27" by (simp_all add: exWideTrial_def)
  have B: "volumeScale (exWideTuned 20 (81 / 10)) 0 = min (8 * 1.1) (27 * 0.3)
     \<and> numAttempted (exWideTuned 20 (81 / 10)) 0 = 0 \<and> numAccepted (exWideTuned 20 (81 / 10)) 0 = 0"
  proof -
    from tuning_adjusts_amplitude [OF ex_due [OF exWideCounts_fields(1)] wide_axis_18 wide_trial rgw
        refl refl refl cw, of exEnergyDrop]
    obtain i x where ret: "updateContextState exGenShrink exEnergyDrop exOwner (?s, exContext) = Some (Inr (i, x))"
      and gr: "real_of_int (numAccepted ?s 0
                 + (if rejected exGenShrink exEnergyDrop exOwner exContext exWideTrial \<lparr>seed = 42, drawn = 19\<rparr> then 0 else 1))
               > 0.75 * real_of_int (numAttempted ?s 0 + 1) \<longrightarrow>
            volumeScale i 0 = min (volumeScale ?s 0 * 1.1)
               ((if rejected exGenShrink exEnergyDrop exOwner exContext exWideTrial \<lparr>seed = 42, drawn = 19\<rparr>
                 then newVolume exWideTrial else volume exWideTrial) * 0.3)
            \<and> numAttempted i 0 = 0 \<and> numAccepted i 0 = 0"
      by blast
    from ret wide_update_accepted have i: "i = exWideTuned 20 (81 / 10)" by simp
    from gr hi1 wide_not_rejected [of "\<lparr>seed = 42, drawn = 19\<rparr>"]
    show ?thesis by (simp add: i v8 nv)
  qed
  have C: "volumeScale (exWideTuned 21 (57 / 10)) 0 = min (8 * 1.1) (19 * 0.3)"
  proof -
    from tuning_adjusts_amplitude [OF ex_due [OF exWideCounts_fields(1)] wide_axis_18 wide_trial rgw
        refl refl refl cw, of exEnergy]
    obtain i x where ret: "updateContextState exGenShrink exEnergy exOwner (?s, exContext) = Some (Inr (i, x))"
      and gr: "real_of_int (numAccepted ?s 0
                 + (if rejected exGenShrink exEnergy exOwner exContext exWideTrial \<lparr>seed = 42, drawn = 19\<rparr> then 0 else 1))
               > 0.75 * real_of_int (numAttempted ?s 0 + 1) \<longrightarrow>
            volumeScale i 0 = min (volumeScale ?s 0 * 1.1)
               ((if rejected exGenShrink exEnergy exOwner exContext exWideTrial \<lparr>seed = 42, drawn = 19\<rparr>
                 then newVolume exWideTrial else volume exWideTrial) * 0.3)
            \<and> numAttempted i 0 = 0 \<and> numAccepted i 0 = 0"
      by blast
    from ret wide_update_rejected have i: "i = exWideTuned 21 (57 / 10)" by simp
    from gr hi0 wide_rejected
    show ?thesis by (simp add: i v8 nv)
  qed
  from iso_update_shrunk iso_rejected [of "\<lparr>seed = 42, drawn = 1\<rparr>"] c lo v A
    wide_update_accepted wide_not_rejected [of "\<lparr>seed = 42, drawn = 19\<rparr>"] hi1 v8 nv B
    wide_update_rejected wide_rejected hi0 C
  show ?thesis by blast
qed

theorem tuning_cap_stale_volume_counterexample:
  "runsWhere (\<lambda>gen energyOf owner impl context. True)
     (fst (initialize 0 exOwner (construct exUninitialised, exWideContext0))) (exWideCounts 9 9 18)
   \<and> numAttempted (exWideCounts 9 9 18) 0 = 9
   \<and> numAccepted (exWideCounts 9 9 18) 0 = 9
   \<and> volumeScale (exWideCounts 9 9 18) 0 = 8
   \<and> boxVolume (periodicBoxVectors exContext) = 27
   \<and> updateContextState exGenShrink exEnergyDrop exOwner (exWideCounts 9 9 18, exContext)
       = Some (Inr (exWideTuned 20 (81 / 10), exWideAcceptedContext))
   \<and> boxVolume (periodicBoxVectors exWideAcceptedContext) = 19
   \<and> volumeScale (exWideTuned 20 (81 / 10)) 0 = 81 / 10
   \<and> numAttempted (exWideTuned 20 (81 / 10)) 0 = 0
   \<and> \<not> volumeScale (exWideTuned 20 (81 / 10)) 0
         \<le> 0.3 * boxVolume (periodicBoxVectors exWideAcceptedContext)
   \<and> updateContextState exGenShrink exEnergy exOwner (exWideCounts 9 9 18, exContext)
       = Some (Inr (exWideTuned 21 (57 / 10), exWideRejectedContext))
   \<and> boxVolume (periodicBoxVectors exWideRejectedContext) = 27
   \<and> volumeScale (exWideTuned 21 (57 / 10)) 0 = 57 / 10
   \<and> numAttempted (exWideTuned 21 (57 / 10)) 0 = 0
   \<and> volumeScale (exWideTuned 21 (57 / 10)) 0
       \<noteq> min (8 * 1.1) (0.3 * boxVolume (periodicBoxVectors exWideRejectedContext))"
proof -
  have r: "runsWhere (\<lambda>gen energyOf owner impl context. True)
     (fst (initialize 0 exOwner (construct exUninitialised, exWideContext0))) (exWideCounts 9 9 18)"
    using wide_reach_9 [of "\<lambda>gen energyOf owner impl context. True"] by (simp add: exWideImpl_def)
  have b: "boxVolume (periodicBoxVectors exContext) = 27"
    "boxVolume (periodicBoxVectors exWideAcceptedContext) = 19"
    "boxVolume (periodicBoxVectors exWideRejectedContext) = 27"
    by (simp_all add: boxVolume_def exContext_eq exBox_def exWideAcceptedContext_def exWideRejectedContext_def)
  show ?thesis
    using r wide_update_accepted wide_update_rejected
    by (simp add: b exWideCounts_fields exWideTuned_fields)
qed

text \<open>
  C3, as amended. Every call of \<open>updateContextState\<close> that finds a trial due,
  leaves the axis loop and proposes a trial, and whose increments of
  \<^verbatim>\<open>step\<close> and of the counts of the axis do not overflow, returns.
  With \<open>att\<close> and \<open>acc\<close> the attempted and accepted counts of the
  axis after lines 131 and 132: the tuning check is the test \<open>att \<ge> 10\<close> of
  line 133, made at every attempt. Below ten attempts since the last reset nothing is tuned
  and the counts accumulate. From the tenth attempt on the check runs at every attempt (the
  10th, 11th, 12th, ...), not only at multiples of ten: at each of them an acceptance ratio
  below 25% or above 75% resets both counts, and a ratio in between leaves the amplitudes
  alone and lets the counts accumulate.
\<close>

theorem tuning_check_from_tenth_attempt:
  assumes due: "trialDue owner impl"
    and ax: "chooseAxis gen (getXYMode owner) (getZMode owner) (random impl) = Some (axis, r)"
    and tr: "trialOf gen owner impl context axis r = Inr t"
    and rg: "canIncrement impl axis (\<not> rejected gen energyOf owner context t r)"
    and acc: "acc = numAccepted impl axis + (if rejected gen energyOf owner context t r then 0 else 1)"
    and att: "att = numAttempted impl axis + 1"
  shows "\<exists>impl' context'.
         updateContextState gen energyOf owner (impl, context) = Some (Inr (impl', context'))
       \<and> (att < 10 \<longrightarrow>
            volumeScale impl' = volumeScale impl
            \<and> numAttempted impl' axis = att \<and> numAccepted impl' axis = acc)
       \<and> (10 \<le> att \<and> (real_of_int acc < 0.25 * real_of_int att \<or> real_of_int acc > 0.75 * real_of_int att) \<longrightarrow>
            numAttempted impl' axis = 0 \<and> numAccepted impl' axis = 0)
       \<and> (10 \<le> att \<and> \<not> real_of_int acc < 0.25 * real_of_int att \<and> \<not> real_of_int acc > 0.75 * real_of_int att \<longrightarrow>
            volumeScale impl' = volumeScale impl
            \<and> numAttempted impl' axis = att \<and> numAccepted impl' axis = acc)"
proof -
  define vol where "vol = (if rejected gen energyOf owner context t r then newVolume t else volume t)"
  define mid where "mid = impl\<lparr>step := 0,
       numAccepted := (numAccepted impl)(axis := acc),
       numAttempted := (numAttempted impl)(axis := att),
       random := (if greaterZero (weightOf energyOf owner context t)
                  then snd (genrand_real2 gen (snd (genrand_real2 gen r)))
                  else snd (genrand_real2 gen r))\<rparr>"
  define impl' where "impl' = tune vol axis mid"
  from updateContextState_returns_exact [OF due ax tr rg] obtain context' where
    ret: "updateContextState gen energyOf owner (impl, context) = Some (Inr (impl', context'))"
    by (simp add: impl'_def mid_def vol_def acc att)
  have m: "numAttempted mid axis = att" "numAccepted mid axis = acc"
    "volumeScale mid = volumeScale impl"
    by (simp_all add: mid_def)
  have below: "att < 10 \<longrightarrow> volumeScale impl' = volumeScale impl
            \<and> numAttempted impl' axis = att \<and> numAccepted impl' axis = acc"
    by (simp add: impl'_def tune_def m)
  have out: "10 \<le> att \<and> (real_of_int acc < 0.25 * real_of_int att \<or> real_of_int acc > 0.75 * real_of_int att) \<longrightarrow>
            numAttempted impl' axis = 0 \<and> numAccepted impl' axis = 0"
    by (auto simp: impl'_def tune_def m)
  have mid: "10 \<le> att \<and> \<not> real_of_int acc < 0.25 * real_of_int att \<and> \<not> real_of_int acc > 0.75 * real_of_int att \<longrightarrow>
            volumeScale impl' = volumeScale impl
            \<and> numAttempted impl' axis = att \<and> numAccepted impl' axis = acc"
    by (simp add: impl'_def tune_def m)
  from ret below out mid show ?thesis by blast
qed

theorem tuning_check_from_tenth_attempt_witness:
  "trialDue exOwnerIso (exCounts 12 9 27)
   \<and> chooseAxis exGenHalf (getXYMode exOwnerIso) (getZMode exOwnerIso) (random (exCounts 12 9 27))
       = Some (0, \<lparr>seed = 42, drawn = 28\<rparr>)
   \<and> trialOf exGenHalf exOwnerIso (exCounts 12 9 27) exContext 0 \<lparr>seed = 42, drawn = 28\<rparr> = Inr exTrial
   \<and> canIncrement (exCounts 12 9 27) 0
        (\<not> rejected exGenHalf exEnergyFlat exOwnerIso exContext exTrial \<lparr>seed = 42, drawn = 28\<rparr>)
   \<and> updateContextState exGenHalf exEnergyFlat exOwnerIso (exCounts 12 9 27, exContext)
     = Some (Inr (exGrownImpl, exScaledContext))
   \<and> \<not> rejected exGenHalf exEnergyFlat exOwnerIso exContext exTrial (\<lparr>seed = 42, drawn = 28\<rparr>)
   \<and> (10::int) \<le> numAttempted (exCounts 12 9 27) 0 + 1
   \<and> real_of_int (numAccepted (exCounts 12 9 27) 0 + 1) > 0.75 * real_of_int (numAttempted (exCounts 12 9 27) 0 + 1)
   \<and> numAttempted exGrownImpl 0 = 0 \<and> numAccepted exGrownImpl 0 = 0
   \<and> updateContextState exGenHalf exEnergyFlat exOwnerIso (exCounts 0 0 0, exContext)
     = Some (Inr (exCounts 1 1 2, exScaledContext))
   \<and> numAttempted (exCounts 0 0 0) 0 + 1 < (10::int)
   \<and> volumeScale (exCounts 1 1 2) = volumeScale (exCounts 0 0 0)
   \<and> numAttempted (exCounts 1 1 2) 0 = 1 \<and> numAccepted (exCounts 1 1 2) 0 = 1
   \<and> updateContextState exGenHalf exEnergyFlat exOwnerIso (exCounts 9 6 21, exContext)
     = Some (Inr (exCounts 10 7 23, exScaledContext))
   \<and> (10::int) \<le> numAttempted (exCounts 9 6 21) 0 + 1
   \<and> \<not> real_of_int (numAccepted (exCounts 9 6 21) 0 + 1) < 0.25 * real_of_int (numAttempted (exCounts 9 6 21) 0 + 1)
   \<and> \<not> real_of_int (numAccepted (exCounts 9 6 21) 0 + 1) > 0.75 * real_of_int (numAttempted (exCounts 9 6 21) 0 + 1)
   \<and> volumeScale (exCounts 10 7 23) = volumeScale (exCounts 9 6 21)
   \<and> numAttempted (exCounts 10 7 23) 0 = 10 \<and> numAccepted (exCounts 10 7 23) 0 = 7
   \<and> updateContextState exGenHalf exEnergy exOwnerIso (exCounts 9 1 0, exContext)
     = Some (Inr (exShrunkImpl, exRejectedContext))
   \<and> rejected exGenHalf exEnergy exOwnerIso exContext exTrial (\<lparr>seed = 42, drawn = 1\<rparr>)
   \<and> real_of_int (numAccepted (exCounts 9 1 0) 0 + 0) < 0.25 * real_of_int (numAttempted (exCounts 9 1 0) 0 + 1)
   \<and> numAttempted exShrunkImpl 0 = 0 \<and> numAccepted exShrunkImpl 0 = 0"
proof -
  have ax: "chooseAxis exGenHalf (getXYMode exOwnerIso) (getZMode exOwnerIso) (random (exCounts k a d))
      = Some (0, \<lparr>seed = 42, drawn = d + 1\<rparr>)" for k a d
    using iso_axis [of "random (exCounts k a d)"] by (simp add: exCounts_fields)
  have v: "volumeScale (exCounts k a d) 0 = 27 / 100" for k a d by (simp add: exCounts_fields)
  have rg: "canIncrement (exCounts k a d) 0 b" if "k < 100" "a < 100" for k a d b
    using that by (intro countsInRange_canIncrement exCounts_range)
  have nr: "\<not> rejected exGenHalf exEnergyFlat exOwnerIso exContext exTrial r" for r
    by (rule iso_not_rejected)
  have A: "numAttempted exGrownImpl 0 = 0 \<and> numAccepted exGrownImpl 0 = 0"
  proof -
    have r: "canIncrement (exCounts 12 9 27) 0 b" for b by (rule rg) simp_all
    from tuning_check_from_tenth_attempt [where energyOf = exEnergyFlat,
        OF iso_due [OF exCounts_fields(1)] ax [of 12 9 27] iso_trial [OF v] r refl refl]
    obtain i c where ret: "updateContextState exGenHalf exEnergyFlat exOwnerIso (exCounts 12 9 27, exContext)
          = Some (Inr (i, c))"
      and f: "10 \<le> numAttempted (exCounts 12 9 27) 0 + 1
          \<and> (real_of_int (numAccepted (exCounts 12 9 27) 0
                 + (if rejected exGenHalf exEnergyFlat exOwnerIso exContext exTrial \<lparr>seed = 42, drawn = 27 + 1\<rparr>
                    then 0 else 1))
               < 0.25 * real_of_int (numAttempted (exCounts 12 9 27) 0 + 1)
             \<or> real_of_int (numAccepted (exCounts 12 9 27) 0
                 + (if rejected exGenHalf exEnergyFlat exOwnerIso exContext exTrial \<lparr>seed = 42, drawn = 27 + 1\<rparr>
                    then 0 else 1))
               > 0.75 * real_of_int (numAttempted (exCounts 12 9 27) 0 + 1)) \<longrightarrow>
            numAttempted i 0 = 0 \<and> numAccepted i 0 = 0"
      by auto
    from ret iso_update_grown have i: "i = exGrownImpl" by simp
    from f show ?thesis by (simp add: i nr exCounts_fields)
  qed
  have B: "volumeScale (exCounts 1 1 2) = volumeScale (exCounts 0 0 0)
     \<and> numAttempted (exCounts 1 1 2) 0 = 1 \<and> numAccepted (exCounts 1 1 2) 0 = 1"
  proof -
    have r: "canIncrement (exCounts 0 0 0) 0 b" for b by (rule rg) simp_all
    from tuning_check_from_tenth_attempt [where energyOf = exEnergyFlat,
        OF iso_due [OF exCounts_fields(1)] ax [of 0 0 0] iso_trial [OF v] r refl refl]
    obtain i c where ret: "updateContextState exGenHalf exEnergyFlat exOwnerIso (exCounts 0 0 0, exContext)
          = Some (Inr (i, c))"
      and f: "numAttempted (exCounts 0 0 0) 0 + 1 < 10 \<longrightarrow>
            volumeScale i = volumeScale (exCounts 0 0 0)
            \<and> numAttempted i 0 = numAttempted (exCounts 0 0 0) 0 + 1
            \<and> numAccepted i 0 = numAccepted (exCounts 0 0 0) 0
                 + (if rejected exGenHalf exEnergyFlat exOwnerIso exContext exTrial \<lparr>seed = 42, drawn = 0 + 1\<rparr>
                    then 0 else 1)"
      by auto
    from ret iso_update_first have i: "i = exCounts 1 1 2" by simp
    from f show ?thesis by (simp add: i nr exCounts_fields)
  qed
  have C: "volumeScale (exCounts 10 7 23) = volumeScale (exCounts 9 6 21)
     \<and> numAttempted (exCounts 10 7 23) 0 = 10 \<and> numAccepted (exCounts 10 7 23) 0 = 7"
  proof -
    have r: "canIncrement (exCounts 9 6 21) 0 b" for b by (rule rg) simp_all
    from tuning_check_from_tenth_attempt [where energyOf = exEnergyFlat,
        OF iso_due [OF exCounts_fields(1)] ax [of 9 6 21] iso_trial [OF v] r refl refl]
    obtain i c where ret: "updateContextState exGenHalf exEnergyFlat exOwnerIso (exCounts 9 6 21, exContext)
          = Some (Inr (i, c))"
      and f: "10 \<le> numAttempted (exCounts 9 6 21) 0 + 1
          \<and> \<not> real_of_int (numAccepted (exCounts 9 6 21) 0
                 + (if rejected exGenHalf exEnergyFlat exOwnerIso exContext exTrial \<lparr>seed = 42, drawn = 21 + 1\<rparr>
                    then 0 else 1))
               < 0.25 * real_of_int (numAttempted (exCounts 9 6 21) 0 + 1)
          \<and> \<not> real_of_int (numAccepted (exCounts 9 6 21) 0
                 + (if rejected exGenHalf exEnergyFlat exOwnerIso exContext exTrial \<lparr>seed = 42, drawn = 21 + 1\<rparr>
                    then 0 else 1))
               > 0.75 * real_of_int (numAttempted (exCounts 9 6 21) 0 + 1) \<longrightarrow>
            volumeScale i = volumeScale (exCounts 9 6 21)
            \<and> numAttempted i 0 = numAttempted (exCounts 9 6 21) 0 + 1
            \<and> numAccepted i 0 = numAccepted (exCounts 9 6 21) 0
                 + (if rejected exGenHalf exEnergyFlat exOwnerIso exContext exTrial \<lparr>seed = 42, drawn = 21 + 1\<rparr>
                    then 0 else 1)"
      by auto
    from ret iso_update_kept have i: "i = exCounts 10 7 23" by simp
    from f show ?thesis by (simp add: i nr exCounts_fields)
  qed
  have D: "numAttempted exShrunkImpl 0 = 0 \<and> numAccepted exShrunkImpl 0 = 0"
  proof -
    have r: "canIncrement (exCounts 9 1 0) 0 b" for b by (rule rg) simp_all
    from tuning_check_from_tenth_attempt [where energyOf = exEnergy,
        OF iso_due [OF exCounts_fields(1)] ax [of 9 1 0] iso_trial [OF v] r refl refl]
    obtain i c where ret: "updateContextState exGenHalf exEnergy exOwnerIso (exCounts 9 1 0, exContext)
          = Some (Inr (i, c))"
      and f: "10 \<le> numAttempted (exCounts 9 1 0) 0 + 1
          \<and> (real_of_int (numAccepted (exCounts 9 1 0) 0
                 + (if rejected exGenHalf exEnergy exOwnerIso exContext exTrial \<lparr>seed = 42, drawn = 0 + 1\<rparr>
                    then 0 else 1))
               < 0.25 * real_of_int (numAttempted (exCounts 9 1 0) 0 + 1)
             \<or> real_of_int (numAccepted (exCounts 9 1 0) 0
                 + (if rejected exGenHalf exEnergy exOwnerIso exContext exTrial \<lparr>seed = 42, drawn = 0 + 1\<rparr>
                    then 0 else 1))
               > 0.75 * real_of_int (numAttempted (exCounts 9 1 0) 0 + 1)) \<longrightarrow>
            numAttempted i 0 = 0 \<and> numAccepted i 0 = 0"
      by auto
    from ret iso_update_shrunk have i: "i = exShrunkImpl" by simp
    from f show ?thesis by (simp add: i iso_rejected exCounts_fields)
  qed
  have E: "chooseAxis exGenHalf (getXYMode exOwnerIso) (getZMode exOwnerIso) (random (exCounts 12 9 27))
       = Some (0, \<lparr>seed = 42, drawn = 28\<rparr>)"
    using ax [of 12 9 27] by simp
  have F: "canIncrement (exCounts 12 9 27) 0
        (\<not> rejected exGenHalf exEnergyFlat exOwnerIso exContext exTrial \<lparr>seed = 42, drawn = 28\<rparr>)"
    by (rule rg) simp_all
  have n: "(10::int) \<le> numAttempted (exCounts 12 9 27) 0 + 1"
    "real_of_int (numAccepted (exCounts 12 9 27) 0 + 1) > 0.75 * real_of_int (numAttempted (exCounts 12 9 27) 0 + 1)"
    "numAttempted (exCounts 0 0 0) 0 + 1 < (10::int)"
    "(10::int) \<le> numAttempted (exCounts 9 6 21) 0 + 1"
    "\<not> real_of_int (numAccepted (exCounts 9 6 21) 0 + 1) < 0.25 * real_of_int (numAttempted (exCounts 9 6 21) 0 + 1)"
    "\<not> real_of_int (numAccepted (exCounts 9 6 21) 0 + 1) > 0.75 * real_of_int (numAttempted (exCounts 9 6 21) 0 + 1)"
    "real_of_int (numAccepted (exCounts 9 1 0) 0 + 0) < 0.25 * real_of_int (numAttempted (exCounts 9 1 0) 0 + 1)"
    by (simp_all add: exCounts_fields)
  from iso_due [OF exCounts_fields(1), of 12 9 27] E iso_trial [OF v, of 12 9 27 "\<lparr>seed = 42, drawn = 28\<rparr>"] F
    iso_update_grown nr [of "\<lparr>seed = 42, drawn = 28\<rparr>"] n A iso_update_first B iso_update_kept C
    iso_update_shrunk iso_rejected [of "\<lparr>seed = 42, drawn = 1\<rparr>"] D
  show ?thesis by blast
qed

theorem tuning_at_thirteenth_attempt_counterexample:
  "runsTo (\<lambda>_ _. True) exImpl (exCounts 12 9 27)
   \<and> numAttempted (exCounts 12 9 27) 0 = 12
   \<and> numAccepted (exCounts 12 9 27) 0 = 9
   \<and> volumeScale (exCounts 12 9 27) 0 = 27 / 100
   \<and> updateContextState exGenHalf exEnergyFlat exOwnerIso (exCounts 12 9 27, exContext)
       = Some (Inr (exGrownImpl, exScaledContext))
   \<and> \<not> (10::int) dvd 12 + 1
   \<and> volumeScale exGrownImpl 0 = 297 / 1000
   \<and> numAttempted exGrownImpl 0 = 0
   \<and> numAccepted exGrownImpl 0 = 0"
  using ex_reach_12_9 [of "\<lambda>_ _. True"] iso_update_grown
  by (simp add: exCounts_fields exGrownImpl_def)

text \<open>
  C7, as amended. After \<open>initialize\<close> and any sequence of returning calls of
  \<open>updateContextState\<close>, for every axis \<open>i\<close>: \<open>numAccepted[i]
  \<le> numAttempted[i]\<close>; when the box had a positive volume at
  \<open>initialize\<close> and has one at the start of every call, \<open>volumeScale[i]
  \<ge> 0\<close>; and when, in addition, no call attempts a volume of exactly 0,
  \<open>volumeScale[i] > 0\<close>. (A rejected step that would have taken the volume to 0
  leaves 0 in the local \<^verbatim>\<open>volume\<close>, and a growing amplitude is then
  capped at 0.3 times 0.)
\<close>

theorem counts_and_amplitudes_invariant:
  assumes run: "runsWhere R (fst (initialize osSeed owner0 (construct uninitialised, context0))) impl"
    and i: "i < 3"
  shows "numAccepted impl i \<le> numAttempted impl i
       \<and> (0 < boxVolume (periodicBoxVectors context0)
          \<and> (\<forall>gen energyOf owner impl1 context. R gen energyOf owner impl1 context \<longrightarrow>
                0 < boxVolume (periodicBoxVectors context))
          \<longrightarrow> 0 \<le> volumeScale impl i)
       \<and> (0 < boxVolume (periodicBoxVectors context0)
          \<and> (\<forall>gen energyOf owner impl1 context. R gen energyOf owner impl1 context \<longrightarrow>
                0 < boxVolume (periodicBoxVectors context)
                \<and> \<not> attemptsZeroVolume gen owner impl1 context)
          \<longrightarrow> 0 < volumeScale impl i)"
proof -
  define B where "B = (0 < boxVolume (periodicBoxVectors context0)
          \<and> (\<forall>gen energyOf owner impl1 context. R gen energyOf owner impl1 context \<longrightarrow>
                0 < boxVolume (periodicBoxVectors context)))"
  define Z where "Z = (0 < boxVolume (periodicBoxVectors context0)
          \<and> (\<forall>gen energyOf owner impl1 context. R gen energyOf owner impl1 context \<longrightarrow>
                0 < boxVolume (periodicBoxVectors context)
                \<and> \<not> attemptsZeroVolume gen owner impl1 context))"
  have "numAccepted impl i \<le> numAttempted impl i
       \<and> (B \<longrightarrow> 0 \<le> volumeScale impl i) \<and> (Z \<longrightarrow> 0 < volumeScale impl i)"
  proof (rule runsWhere_invariant [OF run])
    show "numAccepted (fst (initialize osSeed owner0 (construct uninitialised, context0))) i
            \<le> numAttempted (fst (initialize osSeed owner0 (construct uninitialised, context0))) i
         \<and> (B \<longrightarrow> 0 \<le> volumeScale (fst (initialize osSeed owner0 (construct uninitialised, context0))) i)
         \<and> (Z \<longrightarrow> 0 < volumeScale (fst (initialize osSeed owner0 (construct uninitialised, context0))) i)"
      by (simp add: initialize_fields [OF i] B_def Z_def)
  next
    fix impl1 owner "context" gen energyOf impl2 context2
    assume inv: "numAccepted impl1 i \<le> numAttempted impl1 i
         \<and> (B \<longrightarrow> 0 \<le> volumeScale impl1 i) \<and> (Z \<longrightarrow> 0 < volumeScale impl1 i)"
      and R: "R gen energyOf owner impl1 context"
      and ret: "updateContextState gen energyOf owner (impl1, context) = Some (Inr (impl2, context2))"
    have a: "numAccepted impl2 i \<le> numAttempted impl2 i"
      using update_counts_le [OF ret] inv by blast
    have b: "0 \<le> volumeScale impl2 i" if B
    proof -
      from that R have "0 < boxVolume (periodicBoxVectors context)" by (auto simp: B_def)
      from update_scale(1) [OF ret this] inv that show ?thesis by blast
    qed
    have c: "0 < volumeScale impl2 i" if Z
    proof -
      from that R have "0 < boxVolume (periodicBoxVectors context)"
        and "\<not> attemptsZeroVolume gen owner impl1 context" by (auto simp: Z_def)
      from update_scale(2) [OF ret this] inv that show ?thesis by blast
    qed
    from a b c show "numAccepted impl2 i \<le> numAttempted impl2 i
         \<and> (B \<longrightarrow> 0 \<le> volumeScale impl2 i) \<and> (Z \<longrightarrow> 0 < volumeScale impl2 i)"
      by blast
  qed
  then show ?thesis unfolding B_def Z_def .
qed

theorem counts_and_amplitudes_invariant_witness:
  "runsWhere (\<lambda>gen energyOf owner impl context.
        0 < boxVolume (periodicBoxVectors context) \<and> \<not> attemptsZeroVolume gen owner impl context)
     (fst (initialize 0 exOwner (construct exUninitialised, exWideContext0))) (exWideTuned 21 (57 / 10))
   \<and> (0::nat) < 3
   \<and> 0 < boxVolume (periodicBoxVectors exWideContext0)
   \<and> numAccepted (exWideTuned 21 (57 / 10)) 0 \<le> numAttempted (exWideTuned 21 (57 / 10)) 0
   \<and> 0 \<le> volumeScale (exWideTuned 21 (57 / 10)) 0
   \<and> 0 < volumeScale (exWideTuned 21 (57 / 10)) 0
   \<and> volumeScale (exWideTuned 21 (57 / 10)) 0 = 57 / 10"
proof -
  let ?R = "\<lambda>gen energyOf owner impl context.
        0 < boxVolume (periodicBoxVectors context) \<and> \<not> attemptsZeroVolume gen owner impl context"
  have b: "0 < boxVolume (periodicBoxVectors exContext)" "0 < boxVolume (periodicBoxVectors exWideContext0)"
    "0 < boxVolume (periodicBoxVectors exWideContext)"
    by (simp_all add: boxVolume_def exContext_eq exWideContext0_def exWideContext_eq exBox_def exWideBox_def)
  have nz: "\<not> attemptsZeroVolume exGenShrink exOwner (exWideCounts 9 9 18) exContext"
    by (simp only: attemptsZeroVolume_def wide_axis_18 option.case prod.case wide_trial sum.case)
      (simp add: exWideTrial_def)
  have r9: "runsWhere ?R exWideImpl (exWideCounts 9 9 18)"
    by (rule wide_reach_9) (simp add: b wide_flat_nonzero)
  have R10: "?R exGenShrink exEnergy exOwner (exWideCounts 9 9 18) exContext"
    using b nz by simp
  have r: "runsWhere ?R (fst (initialize 0 exOwner (construct exUninitialised, exWideContext0)))
      (exWideTuned 21 (57 / 10))"
    using runsWhere.call [of ?R, OF r9 R10 wide_update_rejected] by (simp add: exWideImpl_def)
  from counts_and_amplitudes_invariant [OF r, of 0] b r
  show ?thesis by (simp add: exWideTuned_fields)
qed

theorem amplitude_collapses_to_zero_counterexample:
  "runsWhere (\<lambda>gen energyOf owner impl context. 0 < boxVolume (periodicBoxVectors context))
     (fst (initialize 0 exOwner (construct exUninitialised, exWideContext0))) (exWideTuned 21 0)
   \<and> 0 < boxVolume (periodicBoxVectors exWideContext0)
   \<and> runsWhere (\<lambda>gen energyOf owner impl context. 0 < boxVolume (periodicBoxVectors context))
       (fst (initialize 0 exOwner (construct exUninitialised, exWideContext0))) (exWideCounts 9 9 18)
   \<and> volumeScale (exWideCounts 9 9 18) 0 = 8
   \<and> boxVolume (periodicBoxVectors exSmallContext) = 8
   \<and> trialOf exGenShrink exOwner (exWideCounts 9 9 18) exSmallContext 0 \<lparr>seed = 42, drawn = 19\<rparr>
       = Inr exSmallTrial
   \<and> newVolume exSmallTrial = 0
   \<and> weightOf exEnergyFlat exOwner exSmallContext exSmallTrial = PosInf
   \<and> updateContextState exGenShrink exEnergyFlat exOwner (exWideCounts 9 9 18, exSmallContext)
       = Some (Inr (exWideTuned 21 0, exSmallRejectedContext))
   \<and> boxVolume (periodicBoxVectors exSmallRejectedContext) = 8
   \<and> volumeScale (exWideTuned 21 0) 0 = 0
   \<and> \<not> 0 < volumeScale (exWideTuned 21 0) 0"
proof -
  let ?R = "\<lambda>gen energyOf owner impl context. 0 < boxVolume (periodicBoxVectors context)"
  have b: "boxVolume (periodicBoxVectors exSmallContext) = 8" "0 < boxVolume (periodicBoxVectors exWideContext0)"
    "0 < boxVolume (periodicBoxVectors exWideContext)" "boxVolume (periodicBoxVectors exSmallRejectedContext) = 8"
    by (simp_all add: boxVolume_def exSmallContext_def exSmallRejectedContext_def exSmallBox_def
        exWideContext0_def exWideContext_eq exWideBox_def)
  have r9: "runsWhere ?R exWideImpl (exWideCounts 9 9 18)"
    by (rule wide_reach_9) (simp add: b)
  have R10: "?R exGenShrink exEnergyFlat exOwner (exWideCounts 9 9 18) exSmallContext"
    by (simp add: b)
  have r: "runsWhere ?R exWideImpl (exWideTuned 21 0)"
    using runsWhere.call [of ?R, OF r9 R10 small_update] .
  show ?thesis
    using r r9 small_trial small_weight [of exEnergyFlat] small_update
    by (simp add: b exWideImpl_def [symmetric] exWideCounts_fields exWideTuned_fields exSmallTrial_def)
qed

text \<open>
  C10. Under \<open>XYIsotropic\<close> the axis loop never gives axis 1. So when every call
  of \<open>updateContextState\<close> finds the XY mode \<open>XYIsotropic\<close>, then
  after \<open>initialize\<close> and any sequence of returning calls
  \<open>numAttempted[1]\<close> and \<open>numAccepted[1]\<close> are 0 and
  \<open>volumeScale[1]\<close> is 1% of the volume the box had at
  \<open>initialize\<close>.
\<close>

theorem isotropic_never_touches_axis_one:
  assumes run: "runsTo (\<lambda>owner context. getXYMode owner = XYIsotropic)
                  (fst (initialize osSeed owner0 (construct uninitialised, context0))) impl"
  shows "numAttempted impl 1 = 0 \<and> numAccepted impl 1 = 0
       \<and> volumeScale impl 1 = 0.01 * boxVolume (periodicBoxVectors context0)
       \<and> (chooseAxis gen XYIsotropic zMode r = Some (axis, r') \<longrightarrow> axis \<noteq> 1)"
proof -
  have "numAttempted impl 1 = 0 \<and> numAccepted impl 1 = 0
       \<and> volumeScale impl 1 = 0.01 * boxVolume (periodicBoxVectors context0)"
  proof (rule runsTo_invariant [OF run])
    show "numAttempted (fst (initialize osSeed owner0 (construct uninitialised, context0))) 1 = 0
       \<and> numAccepted (fst (initialize osSeed owner0 (construct uninitialised, context0))) 1 = 0
       \<and> volumeScale (fst (initialize osSeed owner0 (construct uninitialised, context0))) 1
           = 0.01 * boxVolume (periodicBoxVectors context0)"
      using initialize_fields [of 1 osSeed owner0 "construct uninitialised" context0] by simp
  next
    fix impl1 owner "context" gen energyOf impl2 context2
    assume inv: "numAttempted impl1 1 = 0 \<and> numAccepted impl1 1 = 0
       \<and> volumeScale impl1 1 = 0.01 * boxVolume (periodicBoxVectors context0)"
      and iso: "getXYMode owner = XYIsotropic"
      and ret: "updateContextState gen energyOf owner (impl1, context) = Some (Inr (impl2, context2))"
    from update_isotropic_frame [OF ret iso] inv
    show "numAttempted impl2 1 = 0 \<and> numAccepted impl2 1 = 0
       \<and> volumeScale impl2 1 = 0.01 * boxVolume (periodicBoxVectors context0)"
      by simp
  qed
  moreover have "axis \<noteq> 1" if "chooseAxis gen XYIsotropic zMode r = Some (axis, r')"
    using chooseAxis_Some [OF that] by auto
  ultimately show ?thesis by blast
qed

theorem isotropic_never_touches_axis_one_witness:
  "runsTo (\<lambda>owner context. getXYMode owner = XYIsotropic)
     (fst (initialize 0 exOwner (construct exUninitialised, exContext0))) exGrownImpl
   \<and> numAttempted exGrownImpl 1 = 0 \<and> numAccepted exGrownImpl 1 = 0
   \<and> volumeScale exGrownImpl 1 = 27 / 100
   \<and> boxVolume (periodicBoxVectors exContext0) = 27
   \<and> chooseAxis exGenHalf XYIsotropic ZFree exRandom0 = Some (0, exRandom1)"
proof -
  have b: "boxVolume (periodicBoxVectors exContext0) = 27"
    by (simp add: boxVolume_def exContext0_def exBox_def)
  have r: "runsTo (\<lambda>owner context. getXYMode owner = XYIsotropic)
     (fst (initialize 0 exOwner (construct exUninitialised, exContext0))) exGrownImpl"
    using ex_reach_grown [of "\<lambda>owner context. getXYMode owner = XYIsotropic"]
    by (simp add: exImpl_def exOwnerIso_def)
  have c: "chooseAxis exGenHalf XYIsotropic ZFree exRandom0 = Some (0, exRandom1)"
    by (simp add: chooseAxis.simps genrand_real2_def exGenHalf_def exRandom0_def exRandom1_def)
  from isotropic_never_touches_axis_one [OF r, of exGenHalf ZFree exRandom0 0 exRandom1] b r c
  show ?thesis by simp
qed

end
